theory Spec2Isabelle
  imports Main "HOL-Library.Char_ord" "HOL-Library.List_Lexorder" "HOL-Library.Product_Lexorder"
begin

section \<open>Parsed documents and the Python operations the exporters use on them\<close>

text \<open>
  \<open>json.load\<close> yields \<open>None\<close>, booleans, integers, floats, strings, lists and
  dictionaries. A dictionary keeps the order its keys were inserted in, so it is an
  association list, read by \<open>map_of\<close> where the source calls \<open>d.get\<close> and walked
  in order where the source iterates it; the dictionaries Python can hold are those
  with distinct keys. A float is carried as the text \<open>str\<close> prints for it: the
  exporters never compute with one, they test it for truth and print it. A
  character is a code point below 256; \<open>lower\<close> and \<open>upper\<close> change the letters
  A to Z and a to z only, which decides the verb test and the method column as Python
  does: a key with any other cased letter is no verb in either.
\<close>

datatype json =
    JNull
  | JBool bool
  | JInt int
  | JFloat string
  | JStr string
  | JList "json list"
  | JDict "(string \<times> json) list"

type_synonym dict = "(string \<times> json) list"

datatype error = AttributeError | TypeError | KeyError | IndexError

definition bind :: "error + 'a \<Rightarrow> ('a \<Rightarrow> error + 'b) \<Rightarrow> error + 'b" where
  "bind m f = (case m of Inl e \<Rightarrow> Inl e | Inr v \<Rightarrow> f v)"

text \<open>
  A \<open>for\<close> loop whose body appends rows to a list and may raise: the body
  returns the rows it appends (none after \<open>continue\<close>), and the first exception ends
  the loop.
\<close>

fun for_each :: "('a \<Rightarrow> error + 'b list) \<Rightarrow> 'a list \<Rightarrow> error + 'b list" where
  "for_each f [] = Inr []"
| "for_each f (x # xs) =
     bind (f x) (\<lambda>rows. bind (for_each f xs) (\<lambda>rest. Inr (rows @ rest)))"

text \<open>Truth value of a parsed value, as \<open>if v\<close>, \<open>not v\<close> and \<open>v or d\<close> test it.\<close>

fun truthy :: "json \<Rightarrow> bool" where
  "truthy JNull = False"
| "truthy (JBool b) = b"
| "truthy (JInt i) = (i \<noteq> 0)"
| "truthy (JFloat t) = (t \<noteq> ''0.0'' \<and> t \<noteq> ''-0.0'')"
| "truthy (JStr s) = (s \<noteq> [])"
| "truthy (JList xs) = (xs \<noteq> [])"
| "truthy (JDict kvs) = (kvs \<noteq> [])"

definition or_else :: "json \<Rightarrow> json \<Rightarrow> json" where
  "or_else v d = (if truthy v then v else d)"

text \<open>\<open>d.get(key, default)\<close> on a dictionary, and on any value (only a
  dictionary has the attribute).\<close>

definition dict_get :: "dict \<Rightarrow> string \<Rightarrow> json \<Rightarrow> json" where
  "dict_get d key dflt = (case map_of d key of None \<Rightarrow> dflt | Some v \<Rightarrow> v)"

fun py_get :: "json \<Rightarrow> string \<Rightarrow> json \<Rightarrow> error + json" where
  "py_get (JDict d) key dflt = Inr (dict_get d key dflt)"
| "py_get _ key dflt = Inl AttributeError"

text \<open>\<open>d.items()\<close>, iteration (\<open>for x in v\<close>, \<open>list.extend(v)\<close>, \<open>sep.join(v)\<close>),
  \<open>len(v)\<close> and \<open>v[0]\<close>.\<close>

fun py_items :: "json \<Rightarrow> error + dict" where
  "py_items (JDict d) = Inr d"
| "py_items _ = Inl AttributeError"

fun py_iter :: "json \<Rightarrow> error + json list" where
  "py_iter (JList xs) = Inr xs"
| "py_iter (JDict d) = Inr (map (\<lambda>kv. JStr (fst kv)) d)"
| "py_iter (JStr s) = Inr (map (\<lambda>c. JStr [c]) s)"
| "py_iter _ = Inl TypeError"

fun py_len :: "json \<Rightarrow> error + nat" where
  "py_len (JList xs) = Inr (length xs)"
| "py_len (JDict d) = Inr (length d)"
| "py_len (JStr s) = Inr (length s)"
| "py_len _ = Inl TypeError"

fun py_first :: "json \<Rightarrow> error + json" where
  "py_first (JList []) = Inl IndexError"
| "py_first (JList (x # xs)) = Inr x"
| "py_first (JStr []) = Inl IndexError"
| "py_first (JStr (c # cs)) = Inr (JStr [c])"
| "py_first (JDict d) = Inl KeyError"
| "py_first _ = Inl TypeError"

subsection \<open>Text: \<open>sep.join\<close>, \<open>str\<close>, \<open>repr\<close>, \<open>lower\<close>, \<open>upper\<close>\<close>

fun str_join :: "string \<Rightarrow> string list \<Rightarrow> string" where
  "str_join sep [] = []"
| "str_join sep [x] = x"
| "str_join sep (x # y # ys) = x @ sep @ str_join sep (y # ys)"

definition digit_char :: "nat \<Rightarrow> char" where
  "digit_char d = char_of (48 + d)"

fun dec_nat :: "nat \<Rightarrow> string" where
  "dec_nat n = (if n < 10 then [digit_char n] else dec_nat (n div 10) @ [digit_char (n mod 10)])"

definition dec_int :: "int \<Rightarrow> string" where
  "dec_int i = (if i < 0 then CHR ''-'' # dec_nat (nat (- i)) else dec_nat (nat i))"

definition hex_char :: "nat \<Rightarrow> char" where
  "hex_char d = (if d < 10 then char_of (48 + d) else char_of (87 + d))"

definition code_of :: "char \<Rightarrow> nat" where
  "code_of c = of_char c"

definition lower_char :: "char \<Rightarrow> char" where
  "lower_char c = (if 65 \<le> code_of c \<and> code_of c \<le> 90 then char_of (code_of c + 32) else c)"

definition upper_char :: "char \<Rightarrow> char" where
  "upper_char c = (if 97 \<le> code_of c \<and> code_of c \<le> 122 then char_of (code_of c - 32) else c)"

definition lower :: "string \<Rightarrow> string" where
  "lower s = map lower_char s"

definition upper :: "string \<Rightarrow> string" where
  "upper s = map upper_char s"

text \<open>\<open>repr\<close> of a string: single quotes, unless the text holds a single quote and no
  double quote; the quote, the backslash and the characters that are not printable
  are escaped. Below 256 those are the control characters (0 to 31 and 127 to 159),
  the no-break space (160) and the soft hyphen (173).\<close>

definition repr_char :: "char \<Rightarrow> char \<Rightarrow> string" where
  "repr_char q c =
     (if c = q \<or> c = CHR 0x5C then [CHR 0x5C, c]
      else if c = CHR 0x09 then [CHR 0x5C, CHR ''t'']
      else if c = CHR 0x0A then [CHR 0x5C, CHR ''n'']
      else if c = CHR 0x0D then [CHR 0x5C, CHR ''r'']
      else if code_of c < 32 \<or> (127 \<le> code_of c \<and> code_of c \<le> 160) \<or> code_of c = 173
        then [CHR 0x5C, CHR ''x'', hex_char (code_of c div 16), hex_char (code_of c mod 16)]
      else [c])"

definition repr_str :: "string \<Rightarrow> string" where
  "repr_str s =
     (let q = (if CHR 0x27 \<in> set s \<and> CHR 0x22 \<notin> set s then CHR 0x22 else CHR 0x27)
      in q # concat (map (repr_char q) s) @ [q])"

primrec py_repr :: "json \<Rightarrow> string" where
  "py_repr JNull = ''None''"
| "py_repr (JBool b) = (if b then ''True'' else ''False'')"
| "py_repr (JInt i) = dec_int i"
| "py_repr (JFloat t) = t"
| "py_repr (JStr s) = repr_str s"
| "py_repr (JList xs) = ''['' @ str_join '', '' (map py_repr xs) @ '']''"
| "py_repr (JDict kvs) =
     ''{'' @ str_join '', '' (map (\<lambda>kr. repr_str (fst kr) @ '': '' @ snd kr)
                                  (map (map_prod id py_repr) kvs)) @ ''}''"

definition py_str :: "json \<Rightarrow> string" where
  "py_str v = (case v of JStr s \<Rightarrow> s | _ \<Rightarrow> py_repr v)"

definition is_str :: "json \<Rightarrow> bool" where
  "is_str v = (case v of JStr s \<Rightarrow> True | _ \<Rightarrow> False)"

text \<open>\<open>sep.join(v)\<close> on a parsed value: every item must be a string.\<close>

definition py_join :: "string \<Rightarrow> json \<Rightarrow> error + string" where
  "py_join sep v =
     bind (py_iter v) (\<lambda>xs. if list_all is_str xs then Inr (str_join sep (map py_str xs))
                             else Inl TypeError)"

section \<open>The single-sheet exporter (\<open>openapi_to_csv.py\<close>)\<close>

definition HTTP_METHODS :: "string set" where
  "HTTP_METHODS = {''get'', ''post'', ''put'', ''patch'', ''delete'', ''options'', ''head'', ''trace''}"

text \<open>\<open>json.dumps\<close> with its defaults (\<open>ensure_ascii\<close>, separators \<open>", "\<close> and
  \<open>": "\<close>).\<close>

definition dumps_char :: "char \<Rightarrow> string" where
  "dumps_char c =
     (if c = CHR 0x22 \<or> c = CHR 0x5C then [CHR 0x5C, c]
      else if c = CHR 0x0A then [CHR 0x5C, CHR ''n'']
      else if c = CHR 0x0D then [CHR 0x5C, CHR ''r'']
      else if c = CHR 0x09 then [CHR 0x5C, CHR ''t'']
      else if c = CHR 0x08 then [CHR 0x5C, CHR ''b'']
      else if c = CHR 0x0C then [CHR 0x5C, CHR ''f'']
      else if code_of c < 32 \<or> 127 \<le> code_of c
        then [CHR 0x5C, CHR ''u'', CHR ''0'', CHR ''0'',
              hex_char (code_of c div 16), hex_char (code_of c mod 16)]
      else [c])"

definition dumps_str :: "string \<Rightarrow> string" where
  "dumps_str s = CHR 0x22 # concat (map dumps_char s) @ [CHR 0x22]"

definition dumps_float :: "string \<Rightarrow> string" where
  "dumps_float t =
     (if t = ''nan'' then ''NaN'' else if t = ''inf'' then ''Infinity''
      else if t = ''-inf'' then ''-Infinity'' else t)"

primrec json_dumps :: "json \<Rightarrow> string" where
  "json_dumps JNull = ''null''"
| "json_dumps (JBool b) = (if b then ''true'' else ''false'')"
| "json_dumps (JInt i) = dec_int i"
| "json_dumps (JFloat t) = dumps_float t"
| "json_dumps (JStr s) = dumps_str s"
| "json_dumps (JList xs) = ''['' @ str_join '', '' (map json_dumps xs) @ '']''"
| "json_dumps (JDict kvs) =
     ''{'' @ str_join '', '' (map (\<lambda>kr. dumps_str (fst kr) @ '': '' @ snd kr)
                                  (map (map_prod id json_dumps) kvs)) @ ''}''"

definition join_tags :: "json \<Rightarrow> string" where
  "join_tags tags =
     (case tags of
        JList ts \<Rightarrow> str_join ''; '' (map py_str ts)
      | _ \<Rightarrow> (if truthy tags then py_str tags else []))"

text \<open>The body of the inner loop of \<open>collect_params\<close>, for a parameter that is a
  dictionary: the rendered description.\<close>

definition render_param :: "dict \<Rightarrow> string" where
  "render_param p =
     (let name = dict_get p ''name'' (JStr []);
          loc = dict_get p ''in'' (JStr []);
          required = dict_get p ''required'' (JBool False);
          typ = (case dict_get p ''schema'' JNull of
                   JDict schema \<Rightarrow> dict_get schema ''type'' (JStr [])
                 | _ \<Rightarrow> (if ''type'' \<in> fst ` set p then dict_get p ''type'' (JStr [])
                         else JStr []));
          star = (if truthy required then ''*'' else [])
      in if truthy typ
         then py_str name @ '' ('' @ py_str loc @ '')'' @ star @ '' : '' @ py_str typ
         else py_str name @ '' ('' @ py_str loc @ '')'' @ star)"

definition render_all :: "json list \<Rightarrow> string list" where
  "render_all coll = concat (map (\<lambda>p. case p of JDict d \<Rightarrow> [render_param d] | _ \<Rightarrow> []) coll)"

text \<open>The second loop of \<open>collect_params\<close>: \<open>seen\<close> is a set, read by membership
  only; \<open>uniq\<close> is the list built.\<close>

fun uniq_loop :: "string list \<Rightarrow> string set \<Rightarrow> string list \<Rightarrow> string list" where
  "uniq_loop [] seen uniq = uniq"
| "uniq_loop (x # xs) seen uniq =
     (if x \<notin> seen then uniq_loop xs (insert x seen) (uniq @ [x]) else uniq_loop xs seen uniq)"

text \<open>\<open>collect_params\<close> up to its last line (the list \<open>uniq\<close>), and as a whole. The
  first loop cannot raise inside its body, only where it starts to iterate a value that
  is no collection.\<close>

definition merged_params :: "json \<Rightarrow> json \<Rightarrow> error + string list" where
  "merged_params op_level path_level =
     bind (py_iter (or_else path_level (JList []))) (\<lambda>path_coll.
     bind (py_iter (or_else op_level (JList []))) (\<lambda>op_coll.
     Inr (uniq_loop (render_all path_coll @ render_all op_coll) {} [])))"

definition collect_params :: "json \<Rightarrow> json \<Rightarrow> error + string" where
  "collect_params op_level path_level =
     bind (merged_params op_level path_level) (\<lambda>uniq. Inr (str_join ''; '' uniq))"

definition get_request_body :: "dict \<Rightarrow> string" where
  "get_request_body op =
     (case dict_get op ''requestBody'' JNull of
        JDict rb \<Rightarrow>
          (let req = (if truthy (dict_get rb ''required'' JNull) then ''required'' else ''optional'')
           in case dict_get rb ''content'' (JDict []) of
                JDict content \<Rightarrow>
                  (if content \<noteq> []
                   then (let media = str_join '', '' (take 5 (map fst content))
                         in if media \<noteq> [] then req @ '' ('' @ media @ '')'' else req)
                   else req)
              | _ \<Rightarrow> req)
      | _ \<Rightarrow> [])"

definition get_responses :: "dict \<Rightarrow> string" where
  "get_responses op =
     (case dict_get op ''responses'' (JDict []) of
        JDict responses \<Rightarrow> str_join '', '' (map fst responses)
      | _ \<Rightarrow> [])"

text \<open>A row is the dictionary the source appends: column name to value, in the order
  the source writes the columns.\<close>

type_synonym row = "(string \<times> json) list"

definition detect_servers :: "dict \<Rightarrow> error + json list" where
  "detect_servers spec =
     (case map_of spec ''servers'' of
        Some (JList servers) \<Rightarrow>
          for_each (\<lambda>s. bind (py_get s ''url'' (JStr [])) (\<lambda>url. Inr [url])) servers
      | _ \<Rightarrow>
          (case map_of spec ''host'' of
             Some host \<Rightarrow>
               (let scheme = (case dict_get spec ''schemes'' JNull of
                                JList (s # ss) \<Rightarrow> s
                              | _ \<Rightarrow> JStr ''https'');
                    base = dict_get spec ''basePath'' (JStr [])
                in Inr [JStr (py_str scheme @ ''://'' @ py_str host @ py_str base)])
           | None \<Rightarrow> Inr []))"

text \<open>The body of the inner loop of \<open>main\<close>, for an admitted operation.\<close>

definition csv_row :: "string \<Rightarrow> json \<Rightarrow> string \<Rightarrow> dict \<Rightarrow> error + row" where
  "csv_row path path_params method op =
     (let tags = or_else (dict_get op ''tags'' JNull) (JList []);
          summary = or_else (dict_get op ''summary'' JNull) (JStr []);
          description = or_else (dict_get op ''description'' JNull) (JStr []);
          operation_id = or_else (dict_get op ''operationId'' JNull) (JStr []);
          deprecated = truthy (dict_get op ''deprecated'' (JBool False));
          security = dict_get op ''security'' (JList [])
      in bind (collect_params (dict_get op ''parameters'' JNull) path_params) (\<lambda>params_joined.
         let req_body = get_request_body op;
             status_codes = get_responses op
         in Inr [(''API Group (tags)'', JStr (join_tags tags)),
                 (''Method'', JStr (upper method)),
                 (''Path'', JStr path),
                 (''Summary'', summary),
                 (''Description'', description),
                 (''OperationId'', operation_id),
                 (''Deprecated'', JStr (if deprecated then ''true'' else ''false'')),
                 (''Auth (security)'', JStr (if truthy security then json_dumps security else [])),
                 (''Parameters'', JStr params_joined),
                 (''RequestBody'', JStr req_body),
                 (''Responses'', JStr status_codes)]))"

definition str_value :: "json \<Rightarrow> string" where
  "str_value v = (case v of JStr s \<Rightarrow> s | _ \<Rightarrow> [])"

definition sort_by :: "row \<Rightarrow> string \<times> string \<times> string" where
  "sort_by r = (str_value (dict_get r ''API Group (tags)'' JNull),
                str_value (dict_get r ''Path'' JNull),
                str_value (dict_get r ''Method'' JNull))"

text \<open>The rows of \<open>main\<close> before the sort (the two loops), and the rows it writes.
  \<open>list.sort\<close> is stable, as \<open>sort_key\<close> is.\<close>

definition csv_unsorted :: "dict \<Rightarrow> error + row list" where
  "csv_unsorted spec =
     bind (detect_servers spec) (\<lambda>servers.
     bind (py_items (dict_get spec ''paths'' (JDict []))) (\<lambda>paths.
     for_each (\<lambda>(path, methods).
         case methods of
           JDict ms \<Rightarrow>
             (let path_params = (case dict_get ms ''parameters'' JNull of
                                   JList l \<Rightarrow> JList l
                                 | _ \<Rightarrow> JList [])
              in for_each (\<lambda>(method, op).
                     if lower method \<notin> HTTP_METHODS then Inr []
                     else case op of
                            JDict opd \<Rightarrow> bind (csv_row path path_params method opd) (\<lambda>r. Inr [r])
                          | _ \<Rightarrow> Inr [])
                   ms)
         | _ \<Rightarrow> Inr [])
       paths))"

definition csv_main :: "dict \<Rightarrow> error + row list" where
  "csv_main spec = bind (csv_unsorted spec) (\<lambda>rows. Inr (sort_key sort_by rows))"

section \<open>The workbook exporter (\<open>openAi_to_Excel.py\<close>)\<close>

definition list_http_methods :: "string set" where
  "list_http_methods = {''get'', ''put'', ''post'', ''delete'', ''options'', ''head'', ''patch''}"

definition safe_get :: "json \<Rightarrow> string \<Rightarrow> json \<Rightarrow> error + json" where
  "safe_get d key dflt = bind (py_get d key dflt) (\<lambda>v. Inr (if v \<noteq> JNull then v else dflt))"

text \<open>\<open>join_or_none\<close>; every call leaves \<open>sep\<close> at its default.\<close>

definition join_or_none :: "json \<Rightarrow> error + json" where
  "join_or_none values =
     (if \<not> truthy values then Inr JNull
      else bind (py_iter values) (\<lambda>vs. Inr (JStr (str_join '', '' (map py_str vs)))))"

definition build_full_url_template :: "json \<Rightarrow> json \<Rightarrow> json \<Rightarrow> json \<Rightarrow> error + json" where
  "build_full_url_template schemes host base_path path =
     (if \<not> truthy host then Inr JNull
      else bind (if truthy schemes then py_first schemes else Inr (JStr ''https'')) (\<lambda>scheme.
           let bp = or_else base_path (JStr [])
           in Inr (JStr (py_str scheme @ ''://'' @ py_str host @ py_str bp @ py_str path))))"

text \<open>\<open>tags[0] if tags else None\<close>, the same line in three extractors.\<close>

definition first_tag :: "json \<Rightarrow> error + json" where
  "first_tag tags = (if truthy tags then py_first tags else Inr JNull)"

text \<open>The loop that fills \<open>security_flat\<close> in \<open>extract_endpoints\<close>.\<close>

definition security_flat :: "json \<Rightarrow> error + string list" where
  "security_flat security =
     bind (py_iter (or_else security (JList []))) (\<lambda>secs.
     for_each (\<lambda>sec.
         bind (py_items sec) (\<lambda>entries.
         for_each (\<lambda>(scheme, scopes).
             if truthy scopes
             then bind (py_join '', '' scopes) (\<lambda>joined. Inr [scheme @ ''('' @ joined @ '')''])
             else Inr [scheme])
           entries))
       secs)"

text \<open>The body of the inner loop of \<open>extract_endpoints\<close>, for an admitted operation;
  the fallible steps run in the source's order.\<close>

definition endpoint_row :: "dict \<Rightarrow> string \<Rightarrow> json \<Rightarrow> string \<Rightarrow> dict \<Rightarrow> error + row" where
  "endpoint_row sw path path_level_params method op =
     (let base_path = dict_get sw ''basePath'' JNull;
          host = dict_get sw ''host'' JNull;
          schemes = dict_get sw ''schemes'' (JList []);
          tags = dict_get op ''tags'' (JList [])
      in bind (first_tag tags) (\<lambda>api_group.
         let consumes = dict_get op ''consumes'' (dict_get sw ''consumes'' JNull);
             produces = dict_get op ''produces'' (dict_get sw ''produces'' JNull);
             security = dict_get op ''security'' (dict_get sw ''security'' (JList []))
         in bind (security_flat security) (\<lambda>flat.
            bind (join_or_none tags) (\<lambda>tags_joined.
            bind (build_full_url_template schemes host base_path (JStr path)) (\<lambda>url.
            bind (join_or_none consumes) (\<lambda>consumes_joined.
            bind (join_or_none produces) (\<lambda>produces_joined.
            bind (py_len (dict_get op ''parameters'' (JList []))) (\<lambda>n_op.
            bind (py_len path_level_params) (\<lambda>n_path.
            bind (py_len (dict_get op ''responses'' (JDict []))) (\<lambda>n_resp.
            bind (join_or_none (JList (map JStr flat))) (\<lambda>security_joined.
            Inr [(''api_group'', api_group),
                 (''tags'', tags_joined),
                 (''operationId'', dict_get op ''operationId'' JNull),
                 (''summary'', dict_get op ''summary'' JNull),
                 (''description'', dict_get op ''description'' JNull),
                 (''deprecated'', dict_get op ''deprecated'' (JBool False)),
                 (''method'', JStr (upper method)),
                 (''path'', JStr path),
                 (''full_url_template'', url),
                 (''consumes'', consumes_joined),
                 (''produces'', produces_joined),
                 (''parameters_count'', JInt (int (n_op + n_path))),
                 (''responses_count'', JInt (int n_resp)),
                 (''security'', security_joined)])))))))))))"

definition extract_endpoints :: "dict \<Rightarrow> error + row list" where
  "extract_endpoints sw =
     bind (py_items (dict_get sw ''paths'' (JDict []))) (\<lambda>paths.
     for_each (\<lambda>(path, path_item).
         case path_item of
           JDict item \<Rightarrow>
             (let path_level_params = dict_get item ''parameters'' (JList [])
              in for_each (\<lambda>(method, op).
                     if lower method \<notin> list_http_methods then Inr []
                     else case op of
                            JDict opd \<Rightarrow>
                              bind (endpoint_row sw path path_level_params method opd)
                                (\<lambda>r. Inr [r])
                          | _ \<Rightarrow> Inr [])
                   item)
         | _ \<Rightarrow> Inr [])
       paths)"

text \<open>The body of \<open>for p in params\<close> in \<open>extract_parameters\<close>: \<open>p.get\<close> raises on
  a parameter that is no dictionary.\<close>

definition parameter_row :: "json \<Rightarrow> json \<Rightarrow> string \<Rightarrow> string \<Rightarrow> json \<Rightarrow> error + row" where
  "parameter_row api_group operation_id method path p =
     (case p of
        JDict pd \<Rightarrow>
          (let schema = dict_get pd ''schema'' JNull;
               items = dict_get pd ''items'' JNull;
               enum_vals = dict_get pd ''enum'' JNull
           in bind (safe_get (or_else items (JDict [])) ''type'' JNull) (\<lambda>items_type.
              bind (safe_get (or_else items (JDict [])) ''format'' JNull) (\<lambda>items_format.
              bind (join_or_none enum_vals) (\<lambda>enum_joined.
              bind (safe_get (or_else schema (JDict [])) ''$ref'' JNull) (\<lambda>ref.
              bind (safe_get (or_else schema (JDict [])) ''type'' JNull) (\<lambda>schema_type.
              Inr [(''api_group'', api_group),
                   (''operationId'', operation_id),
                   (''method'', JStr (upper method)),
                   (''path'', JStr path),
                   (''name'', dict_get pd ''name'' JNull),
                   (''in'', dict_get pd ''in'' JNull),
                   (''description'', dict_get pd ''description'' JNull),
                   (''required'', dict_get pd ''required'' (JBool False)),
                   (''type'', dict_get pd ''type'' JNull),
                   (''format'', dict_get pd ''format'' JNull),
                   (''collectionFormat'', dict_get pd ''collectionFormat'' JNull),
                   (''items_type'', items_type),
                   (''items_format'', items_format),
                   (''enum'', enum_joined),
                   (''$ref'', ref),
                   (''schema_type'', schema_type)]))))))
      | _ \<Rightarrow> Inl AttributeError)"

text \<open>The body of the inner loop of \<open>extract_parameters\<close>, for an admitted
  operation: the rows of its path-level and its own parameters.\<close>

definition parameter_rows :: "string \<Rightarrow> json \<Rightarrow> string \<Rightarrow> dict \<Rightarrow> error + row list" where
  "parameter_rows path path_level_params method op =
     (let tags = dict_get op ''tags'' (JList [])
      in bind (first_tag tags) (\<lambda>api_group.
         let operation_id = dict_get op ''operationId'' JNull
         in bind (py_iter path_level_params) (\<lambda>from_path.
            bind (py_iter (dict_get op ''parameters'' (JList []))) (\<lambda>from_op.
            for_each (\<lambda>p. bind (parameter_row api_group operation_id method path p)
                              (\<lambda>r. Inr [r]))
              (from_path @ from_op)))))"

definition extract_parameters :: "dict \<Rightarrow> error + row list" where
  "extract_parameters sw =
     bind (py_items (dict_get sw ''paths'' (JDict []))) (\<lambda>paths.
     for_each (\<lambda>(path, path_item).
         case path_item of
           JDict item \<Rightarrow>
             (let path_level_params = dict_get item ''parameters'' (JList [])
              in for_each (\<lambda>(method, op).
                     if lower method \<notin> list_http_methods then Inr []
                     else case op of
                            JDict opd \<Rightarrow> parameter_rows path path_level_params method opd
                          | _ \<Rightarrow> Inr [])
                   item)
         | _ \<Rightarrow> Inr [])
       paths)"

text \<open>The body of \<open>for code, resp in responses.items()\<close> in \<open>extract_responses\<close>.\<close>

definition response_row :: "json \<Rightarrow> json \<Rightarrow> string \<Rightarrow> string \<Rightarrow> string \<Rightarrow> json \<Rightarrow> error + row list" where
  "response_row api_group operation_id method path code resp =
     (case resp of
        JDict rd \<Rightarrow>
          (let schema = or_else (dict_get rd ''schema'' JNull) (JDict [])
           in bind (py_get schema ''type'' JNull) (\<lambda>schema_type.
              bind (py_get schema ''format'' JNull) (\<lambda>schema_format.
              bind (py_get schema ''$ref'' JNull) (\<lambda>schema_ref.
              bind (py_get schema ''items'' (JDict [])) (\<lambda>items.
              bind (safe_get items ''type'' JNull) (\<lambda>items_type.
              bind (safe_get items ''$ref'' JNull) (\<lambda>items_ref.
              Inr [[(''api_group'', api_group),
                    (''operationId'', operation_id),
                    (''method'', JStr (upper method)),
                    (''path'', JStr path),
                    (''status_code'', JStr code),
                    (''description'', dict_get rd ''description'' JNull),
                    (''schema_type'', schema_type),
                    (''schema_format'', schema_format),
                    (''schema_$ref'', schema_ref),
                    (''schema_items_type'', items_type),
                    (''schema_items_$ref'', items_ref)]])))))))
      | _ \<Rightarrow> Inr [])"

definition response_rows :: "string \<Rightarrow> string \<Rightarrow> dict \<Rightarrow> error + row list" where
  "response_rows path method op =
     (let tags = dict_get op ''tags'' (JList [])
      in bind (first_tag tags) (\<lambda>api_group.
         let operation_id = dict_get op ''operationId'' JNull;
             responses = dict_get op ''responses'' (JDict [])
         in bind (py_items responses) (\<lambda>entries.
            for_each (\<lambda>(code, resp). response_row api_group operation_id method path code resp)
              entries)))"

definition extract_responses :: "dict \<Rightarrow> error + row list" where
  "extract_responses sw =
     bind (py_items (dict_get sw ''paths'' (JDict []))) (\<lambda>paths.
     for_each (\<lambda>(path, path_item).
         case path_item of
           JDict item \<Rightarrow>
             for_each (\<lambda>(method, op).
                 if lower method \<notin> list_http_methods then Inr []
                 else case op of
                        JDict opd \<Rightarrow> response_rows path method opd
                      | _ \<Rightarrow> Inr [])
               item
         | _ \<Rightarrow> Inr [])
       paths)"

definition tag_row :: "json \<Rightarrow> error + row" where
  "tag_row t =
     (case t of
        JDict td \<Rightarrow>
          bind (safe_get (dict_get td ''externalDocs'' (JDict [])) ''description'' JNull) (\<lambda>docs_description.
          bind (safe_get (dict_get td ''externalDocs'' (JDict [])) ''url'' JNull) (\<lambda>docs_url.
          Inr [(''name'', dict_get td ''name'' JNull),
               (''description'', dict_get td ''description'' JNull),
               (''externalDocs_description'', docs_description),
               (''externalDocs_url'', docs_url)]))
      | _ \<Rightarrow> Inl AttributeError)"

definition extract_tags :: "dict \<Rightarrow> error + row list" where
  "extract_tags sw =
     bind (py_iter (dict_get sw ''tags'' (JList []))) (\<lambda>tags.
     for_each (\<lambda>t. bind (tag_row t) (\<lambda>r. Inr [r])) tags)"

definition security_row :: "string \<Rightarrow> json \<Rightarrow> error + row" where
  "security_row name s =
     (case s of
        JDict sd \<Rightarrow>
          (let scopes = dict_get sd ''scopes'' (JDict [])
           in bind (py_items scopes) (\<lambda>entries.
              bind (join_or_none (JList (map (\<lambda>(k, v). JStr (k @ '':'' @ py_str v)) entries)))
                (\<lambda>scopes_joined.
              Inr [(''name'', JStr name),
                   (''type'', dict_get sd ''type'' JNull),
                   (''in'', dict_get sd ''in'' JNull),
                   (''name_in_header'', dict_get sd ''name'' JNull),
                   (''flow'', dict_get sd ''flow'' JNull),
                   (''authorizationUrl'', dict_get sd ''authorizationUrl'' JNull),
                   (''tokenUrl'', dict_get sd ''tokenUrl'' JNull),
                   (''scopes'', scopes_joined)])))
      | _ \<Rightarrow> Inl AttributeError)"

definition extract_securities :: "dict \<Rightarrow> error + row list" where
  "extract_securities sw =
     (let secs = or_else (dict_get sw ''securityDefinitions'' (JDict [])) (JDict [])
      in bind (py_items secs) (\<lambda>entries.
         for_each (\<lambda>(name, s). bind (security_row name s) (\<lambda>r. Inr [r])) entries))"

definition model_row :: "string \<Rightarrow> json \<Rightarrow> error + row" where
  "model_row model_name model =
     (case model of
        JDict md \<Rightarrow>
          (let required = dict_get md ''required'' (JList []);
               xml = dict_get md ''xml'' (JDict [])
           in bind (py_get xml ''name'' JNull) (\<lambda>xml_name.
              bind (join_or_none required) (\<lambda>required_fields.
              Inr [(''model_name'', JStr model_name),
                   (''type'', dict_get md ''type'' JNull),
                   (''xml_name'', xml_name),
                   (''description'', dict_get md ''description'' JNull),
                   (''required_fields'', required_fields)])))
      | _ \<Rightarrow> Inl AttributeError)"

definition property_row :: "string \<Rightarrow> string \<Rightarrow> json \<Rightarrow> error + row" where
  "property_row model_name prop_name prop =
     (case prop of
        JDict pd \<Rightarrow>
          (let items = dict_get pd ''items'' JNull;
               xmlp = dict_get pd ''xml'' (JDict []);
               enum_vals = dict_get pd ''enum'' JNull
           in bind (join_or_none enum_vals) (\<lambda>enum_joined.
              bind (safe_get (or_else items (JDict [])) ''type'' JNull) (\<lambda>items_type.
              bind (safe_get (or_else items (JDict [])) ''format'' JNull) (\<lambda>items_format.
              bind (safe_get (or_else items (JDict [])) ''$ref'' JNull) (\<lambda>items_ref.
              bind (py_get xmlp ''name'' JNull) (\<lambda>xml_name.
              bind (safe_get xmlp ''wrapped'' JNull) (\<lambda>xml_wrapped.
              Inr [(''model_name'', JStr model_name),
                   (''property_name'', JStr prop_name),
                   (''type'', dict_get pd ''type'' JNull),
                   (''format'', dict_get pd ''format'' JNull),
                   (''description'', dict_get pd ''description'' JNull),
                   (''enum'', enum_joined),
                   (''items_type'', items_type),
                   (''items_format'', items_format),
                   (''items_$ref'', items_ref),
                   (''$ref'', dict_get pd ''$ref'' JNull),
                   (''xml_name'', xml_name),
                   (''xml_wrapped'', xml_wrapped),
                   (''example'', dict_get pd ''example'' JNull)])))))))
      | _ \<Rightarrow> Inl AttributeError)"

text \<open>A loop that appends to two lists (\<open>model_rows\<close> and \<open>prop_rows\<close>).\<close>

fun for_each2 :: "('a \<Rightarrow> error + ('b list \<times> 'c list)) \<Rightarrow> 'a list \<Rightarrow> error + ('b list \<times> 'c list)" where
  "for_each2 f [] = Inr ([], [])"
| "for_each2 f (x # xs) =
     bind (f x) (\<lambda>rows. bind (for_each2 f xs) (\<lambda>rest.
       Inr (fst rows @ fst rest, snd rows @ snd rest)))"

definition model_and_properties :: "string \<Rightarrow> json \<Rightarrow> error + (row list \<times> row list)" where
  "model_and_properties model_name model =
     bind (model_row model_name model) (\<lambda>mrow.
     bind (py_get model ''properties'' (JDict [])) (\<lambda>declared.
     bind (py_items (or_else declared (JDict []))) (\<lambda>props.
     bind (for_each (\<lambda>(prop_name, prop).
               bind (property_row model_name prop_name prop) (\<lambda>r. Inr [r])) props) (\<lambda>prows.
     Inr ([mrow], prows)))))"

definition extract_models_and_properties :: "dict \<Rightarrow> error + (row list \<times> row list)" where
  "extract_models_and_properties sw =
     (let defs = or_else (dict_get sw ''definitions'' (JDict [])) (JDict [])
      in bind (py_items defs) (\<lambda>entries.
         for_each2 (\<lambda>(model_name, model). model_and_properties model_name model) entries))"

text \<open>\<open>export_tables\<close> after \<open>read_swagger\<close>: the seven relations in the order it
  writes them, each under the name of its file.\<close>

definition export_tables :: "dict \<Rightarrow> error + (string \<times> row list) list" where
  "export_tables sw =
     bind (extract_endpoints sw) (\<lambda>endpoints.
     bind (extract_parameters sw) (\<lambda>parameters.
     bind (extract_responses sw) (\<lambda>responses.
     bind (extract_tags sw) (\<lambda>tags.
     bind (extract_securities sw) (\<lambda>securities.
     bind (extract_models_and_properties sw) (\<lambda>models_props.
     Inr [(''endpoints.csv'', endpoints),
          (''parameters.csv'', parameters),
          (''responses.csv'', responses),
          (''tags.csv'', tags),
          (''models.csv'', fst models_props),
          (''model_properties.csv'', snd models_props),
          (''securities.csv'', securities)]))))))"

section \<open>Vocabulary of the properties\<close>

text \<open>De-duplication that keeps the first occurrence of every element, stated without
  the loop's accumulators.\<close>

fun first_occurrences :: "'a list \<Rightarrow> 'a list" where
  "first_occurrences [] = []"
| "first_occurrences (x # xs) = x # first_occurrences (removeAll x xs)"

text \<open>The operations of a path item: the entries whose key, in lower case, is one of
  the verbs and whose value is a dictionary; and the operations under \<open>paths\<close>, each
  with its path and its path item, in the order the document declares them.\<close>

definition admitted :: "string set \<Rightarrow> dict \<Rightarrow> (string \<times> dict) list" where
  "admitted verbs item =
     concat (map (\<lambda>(method, op).
                    if lower method \<notin> verbs then []
                    else case op of JDict opd \<Rightarrow> [(method, opd)] | _ \<Rightarrow> [])
                 item)"

definition operations :: "string set \<Rightarrow> dict \<Rightarrow> (string \<times> dict \<times> string \<times> dict) list" where
  "operations verbs paths =
     concat (map (\<lambda>(path, path_item).
                    case path_item of
                      JDict item \<Rightarrow> map (\<lambda>(method, opd). (path, item, method, opd)) (admitted verbs item)
                    | _ \<Rightarrow> [])
                 paths)"

definition paths_of :: "dict \<Rightarrow> dict" where
  "paths_of sw = (case dict_get sw ''paths'' (JDict []) of JDict paths \<Rightarrow> paths | _ \<Rightarrow> [])"

definition operations_of :: "dict \<Rightarrow> (string \<times> dict \<times> string \<times> dict) list" where
  "operations_of sw = operations list_http_methods (paths_of sw)"

text \<open>A column of a relation, top to bottom (empty when the extractor raised).\<close>

definition column :: "string \<Rightarrow> error + row list \<Rightarrow> json list" where
  "column c rel = (case rel of Inr rows \<Rightarrow> map (\<lambda>r. dict_get r c JNull) rows | Inl e \<Rightarrow> [])"

definition cell :: "row \<Rightarrow> string \<Rightarrow> json" where
  "cell r c = dict_get r c JNull"

text \<open>The rendering of a security value in the \<open>security\<close> column of the endpoints
  relation: the loop that fills \<open>security_flat\<close>, then \<open>join_or_none\<close>.\<close>

definition security_column :: "json \<Rightarrow> error + json" where
  "security_column security =
     bind (security_flat security) (\<lambda>flat. join_or_none (JList (map JStr flat)))"

text \<open>The pair (path, method) as a row shows it, and as an operation yields it.\<close>

definition row_key :: "row \<Rightarrow> json \<times> json" where
  "row_key r = (cell r ''path'', cell r ''method'')"

definition op_key :: "string \<times> dict \<times> string \<times> dict \<Rightarrow> json \<times> json" where
  "op_key operation = (case operation of (path, item, method, opd) \<Rightarrow> (JStr path, JStr (upper method)))"

text \<open>The items a \<open>for\<close> loop visits in a value (none when it cannot be iterated).\<close>

definition items_of :: "json \<Rightarrow> json list" where
  "items_of v = (case py_iter v of Inr xs \<Rightarrow> xs | Inl e \<Rightarrow> [])"

text \<open>The entries of a dictionary (none for any other value), a field of a dictionary
  (null when it is missing, or when the value is no dictionary), and the test for a
  dictionary.\<close>

definition entries_of :: "json \<Rightarrow> dict" where
  "entries_of v = (case v of JDict d \<Rightarrow> d | _ \<Rightarrow> [])"

definition field :: "string \<Rightarrow> json \<Rightarrow> json" where
  "field k v = (case v of JDict d \<Rightarrow> dict_get d k JNull | _ \<Rightarrow> JNull)"

definition is_dict :: "json \<Rightarrow> bool" where
  "is_dict v = (case v of JDict d \<Rightarrow> True | _ \<Rightarrow> False)"

text \<open>The rows of a relation (none when the extractor raised).\<close>

definition rows_of :: "error + row list \<Rightarrow> row list" where
  "rows_of rel = (case rel of Inr rows \<Rightarrow> rows | Inl e \<Rightarrow> [])"

text \<open>The traversal the three operation-based extractors share: every path item that is
  a dictionary, and in it every entry whose key is a verb in lower case and whose value
  is a dictionary; the body gets the path, the path-level parameters, the key and the
  operation.\<close>

definition walk :: "(string \<Rightarrow> json \<Rightarrow> string \<Rightarrow> dict \<Rightarrow> error + 'b list) \<Rightarrow> dict \<Rightarrow> error + 'b list" where
  "walk body paths =
     for_each (\<lambda>(path, path_item).
         case path_item of
           JDict item \<Rightarrow>
             for_each (\<lambda>(verb, op).
                     if lower verb \<notin> list_http_methods then Inr []
                     else case op of
                            JDict opd \<Rightarrow> body path (dict_get item ''parameters'' (JList [])) verb opd
                          | _ \<Rightarrow> Inr [])
                   item
         | _ \<Rightarrow> Inr [])
       paths"

subsection \<open>The shapes the workbook exporter reads without raising\<close>

text \<open>
  What each extractor needs of the values it reads, beyond the checks it makes itself.
  Path items that are no dictionaries, entries of a path item whose key is no verb or
  whose value is no dictionary, and responses that are no dictionaries are not
  constrained: they are not among the operations, and \<open>response_shape\<close> holds of
  them.
\<close>

definition iterable :: "json \<Rightarrow> bool" where
  "iterable v = (case v of JList xs \<Rightarrow> True | JDict d \<Rightarrow> True | JStr s \<Rightarrow> True | _ \<Rightarrow> False)"

definition falsy_or_iterable :: "json \<Rightarrow> bool" where
  "falsy_or_iterable v = (\<not> truthy v \<or> iterable v)"

definition falsy_or_dict :: "json \<Rightarrow> bool" where
  "falsy_or_dict v = (\<not> truthy v \<or> is_dict v)"

definition tags_shape :: "json \<Rightarrow> bool" where
  "tags_shape v = (case v of JList xs \<Rightarrow> True | JStr s \<Rightarrow> True | _ \<Rightarrow> \<not> truthy v)"

definition scopes_shape :: "json \<Rightarrow> bool" where
  "scopes_shape v =
     (case v of JList xs \<Rightarrow> list_all is_str xs | JDict d \<Rightarrow> True | JStr s \<Rightarrow> True
      | _ \<Rightarrow> \<not> truthy v)"

definition requirement_shape :: "json \<Rightarrow> bool" where
  "requirement_shape sec =
     (case sec of JDict d \<Rightarrow> list_all (\<lambda>entry. scopes_shape (snd entry)) d | _ \<Rightarrow> False)"

definition security_shape :: "json \<Rightarrow> bool" where
  "security_shape v = (case v of JList secs \<Rightarrow> list_all requirement_shape secs | _ \<Rightarrow> \<not> truthy v)"

definition param_shape :: "json \<Rightarrow> bool" where
  "param_shape p =
     (case p of
        JDict pd \<Rightarrow> falsy_or_dict (dict_get pd ''items'' JNull)
                  \<and> falsy_or_iterable (dict_get pd ''enum'' JNull)
                  \<and> falsy_or_dict (dict_get pd ''schema'' JNull)
      | _ \<Rightarrow> False)"

definition params_shape :: "json \<Rightarrow> bool" where
  "params_shape v =
     (case v of JList ps \<Rightarrow> list_all param_shape ps | JDict d \<Rightarrow> d = [] | JStr s \<Rightarrow> s = []
      | _ \<Rightarrow> False)"

definition response_shape :: "json \<Rightarrow> bool" where
  "response_shape resp =
     (case resp of
        JDict rd \<Rightarrow>
          (case dict_get rd ''schema'' JNull of
             JDict sd \<Rightarrow> is_dict (dict_get sd ''items'' (JDict []))
           | schema \<Rightarrow> \<not> truthy schema)
      | _ \<Rightarrow> True)"

definition responses_shape :: "json \<Rightarrow> bool" where
  "responses_shape v =
     (case v of JDict d \<Rightarrow> list_all (\<lambda>entry. response_shape (snd entry)) d | _ \<Rightarrow> False)"

definition url_shape :: "dict \<Rightarrow> bool" where
  "url_shape sw =
     (\<not> truthy (dict_get sw ''host'' JNull) \<or> tags_shape (dict_get sw ''schemes'' (JList [])))"

definition operation_shape :: "dict \<Rightarrow> string \<times> dict \<times> string \<times> dict \<Rightarrow> bool" where
  "operation_shape sw operation =
     (case operation of (path, item, verb, opd) \<Rightarrow>
        tags_shape (dict_get opd ''tags'' (JList []))
      \<and> security_shape (dict_get opd ''security'' (dict_get sw ''security'' (JList [])))
      \<and> url_shape sw
      \<and> falsy_or_iterable (dict_get opd ''consumes'' (dict_get sw ''consumes'' JNull))
      \<and> falsy_or_iterable (dict_get opd ''produces'' (dict_get sw ''produces'' JNull))
      \<and> params_shape (dict_get opd ''parameters'' (JList []))
      \<and> params_shape (dict_get item ''parameters'' (JList []))
      \<and> responses_shape (dict_get opd ''responses'' (JDict [])))"

definition tag_shape :: "json \<Rightarrow> bool" where
  "tag_shape t =
     (case t of JDict td \<Rightarrow> is_dict (dict_get td ''externalDocs'' (JDict [])) | _ \<Rightarrow> False)"

definition tag_list_shape :: "json \<Rightarrow> bool" where
  "tag_list_shape v =
     (case v of JList ts \<Rightarrow> list_all tag_shape ts | JDict d \<Rightarrow> d = [] | JStr s \<Rightarrow> s = []
      | _ \<Rightarrow> False)"

definition scheme_shape :: "json \<Rightarrow> bool" where
  "scheme_shape s =
     (case s of JDict sd \<Rightarrow> is_dict (dict_get sd ''scopes'' (JDict [])) | _ \<Rightarrow> False)"

definition schemes_shape :: "json \<Rightarrow> bool" where
  "schemes_shape v =
     (case v of JDict d \<Rightarrow> list_all (\<lambda>entry. scheme_shape (snd entry)) d | _ \<Rightarrow> \<not> truthy v)"

definition property_shape :: "json \<Rightarrow> bool" where
  "property_shape p =
     (case p of
        JDict pd \<Rightarrow> falsy_or_iterable (dict_get pd ''enum'' JNull)
                  \<and> falsy_or_dict (dict_get pd ''items'' JNull)
                  \<and> is_dict (dict_get pd ''xml'' (JDict []))
      | _ \<Rightarrow> False)"

definition properties_shape :: "json \<Rightarrow> bool" where
  "properties_shape v =
     (case v of JDict d \<Rightarrow> list_all (\<lambda>entry. property_shape (snd entry)) d | _ \<Rightarrow> \<not> truthy v)"

definition model_shape :: "json \<Rightarrow> bool" where
  "model_shape m =
     (case m of
        JDict md \<Rightarrow> is_dict (dict_get md ''xml'' (JDict []))
                  \<and> falsy_or_iterable (dict_get md ''required'' (JList []))
                  \<and> properties_shape (dict_get md ''properties'' (JDict []))
      | _ \<Rightarrow> False)"

definition models_shape :: "json \<Rightarrow> bool" where
  "models_shape v =
     (case v of JDict d \<Rightarrow> list_all (\<lambda>entry. model_shape (snd entry)) d | _ \<Rightarrow> \<not> truthy v)"

definition well_shaped :: "dict \<Rightarrow> bool" where
  "well_shaped sw =
     (is_dict (dict_get sw ''paths'' (JDict []))
      \<and> list_all (operation_shape sw) (operations_of sw)
      \<and> tag_list_shape (dict_get sw ''tags'' (JList []))
      \<and> schemes_shape (dict_get sw ''securityDefinitions'' (JDict []))
      \<and> models_shape (dict_get sw ''definitions'' (JDict [])))"

text \<open>An extractor returns: it raises nothing.\<close>

definition returns :: "error + 'a \<Rightarrow> bool" where
  "returns m = (case m of Inr v \<Rightarrow> True | Inl e \<Rightarrow> False)"

section \<open>A run of the workbook exporter\<close>






section \<open>Basic facts\<close>

lemma bind_Inr [simp]: "bind (Inr v) f = f v"
  by (simp add: bind_def)

lemma bind_Inl [simp]: "bind (Inl e) f = Inl e"
  by (simp add: bind_def)

lemma bind_eq_Inr: "bind m f = Inr r \<longleftrightarrow> (\<exists>v. m = Inr v \<and> f v = Inr r)"
  by (cases m) simp_all

lemma py_str_JStr [simp]: "py_str (JStr s) = s"
  by (simp add: py_str_def)

section \<open>Loops, and the operations the extractors visit\<close>

lemma bind_assoc: "bind (bind m f) g = bind m (\<lambda>v. bind (f v) g)"
  by (cases m) simp_all

lemma bind_Inr_right: "bind m Inr = m"
  by (cases m) simp_all

lemma for_each_append:
  "for_each f (xs @ ys) = bind (for_each f xs) (\<lambda>a. bind (for_each f ys) (\<lambda>b. Inr (a @ b)))"
proof (induction xs)
  case Nil
  show ?case by (simp add: bind_Inr_right)
next
  case (Cons x xs)
  show ?case
    by (cases "f x"; cases "for_each f xs"; cases "for_each f ys") (simp_all add: Cons.IH)
qed

lemma for_each_concat:
  "for_each f (concat (map h xs)) = for_each (\<lambda>x. for_each f (h x)) xs"
  by (induction xs) (simp_all add: for_each_append)

lemma for_each_cong:
  "(\<And>x. x \<in> set xs \<Longrightarrow> f x = g x) \<Longrightarrow> for_each f xs = for_each g xs"
  by (induction xs) simp_all

lemma for_each_Inr_iff:
  "for_each f xs = Inr rs \<longleftrightarrow> (\<exists>rss. list_all2 (\<lambda>x r. f x = Inr r) xs rss \<and> rs = concat rss)"
proof (induction xs arbitrary: rs)
  case Nil
  show ?case by auto
next
  case (Cons x xs)
  show ?case
  proof
    assume "for_each f (x # xs) = Inr rs"
    then obtain a b where a: "f x = Inr a" and b: "for_each f xs = Inr b" and rs: "rs = a @ b"
      by (auto simp: bind_eq_Inr)
    from b obtain rss where "list_all2 (\<lambda>x r. f x = Inr r) xs rss" "b = concat rss"
      using Cons.IH by blast
    with a rs have "list_all2 (\<lambda>x r. f x = Inr r) (x # xs) (a # rss) \<and> rs = concat (a # rss)"
      by simp
    then show "\<exists>rss. list_all2 (\<lambda>x r. f x = Inr r) (x # xs) rss \<and> rs = concat rss"
      by blast
  next
    assume "\<exists>rss. list_all2 (\<lambda>x r. f x = Inr r) (x # xs) rss \<and> rs = concat rss"
    then obtain a rss where a: "f x = Inr a" and r: "list_all2 (\<lambda>x r. f x = Inr r) xs rss"
      and rs: "rs = a @ concat rss"
      by (auto simp: list_all2_Cons1)
    from r have "for_each f xs = Inr (concat rss)"
      using Cons.IH by blast
    with a rs show "for_each f (x # xs) = Inr rs"
      by simp
  qed
qed

lemma for_each_single_Inr_iff:
  "for_each (\<lambda>x. bind (g x) (\<lambda>r. Inr [r])) xs = Inr rs \<longleftrightarrow> list_all2 (\<lambda>x r. g x = Inr r) xs rs"
proof (induction xs arbitrary: rs)
  case Nil
  show ?case by auto
next
  case (Cons x xs)
  show ?case
    by (auto simp: bind_eq_Inr Cons.IH list_all2_Cons1)
qed

lemma for_each_admitted:
  "for_each (\<lambda>(method, op).
       if lower method \<notin> verbs then Inr []
       else case op of JDict opd \<Rightarrow> g method opd | _ \<Rightarrow> Inr []) item
   = for_each (\<lambda>(method, opd). g method opd) (admitted verbs item)"
  unfolding admitted_def for_each_concat
  by (rule for_each_cong) (auto simp: bind_Inr_right split: json.splits)

lemma for_each_operations:
  "for_each (\<lambda>(path, path_item).
       case path_item of
         JDict item \<Rightarrow> for_each (\<lambda>(method, opd). g path item method opd) (admitted verbs item)
       | _ \<Rightarrow> Inr []) paths
   = for_each (\<lambda>(path, item, method, opd). g path item method opd) (operations verbs paths)"
  unfolding operations_def for_each_concat
proof (rule for_each_cong)
  fix x :: "string \<times> json"
  obtain path path_item where x: "x = (path, path_item)"
    by (cases x)
  have m: "for_each f (map t ys) = for_each (\<lambda>y. f (t y)) ys" for f :: "'p \<Rightarrow> error + 'q list" and t :: "'r \<Rightarrow> 'p" and ys
    by (induction ys) simp_all
  show "(case x of (path, path_item) \<Rightarrow>
           case path_item of
             JDict item \<Rightarrow> for_each (\<lambda>(method, opd). g path item method opd) (admitted verbs item)
           | _ \<Rightarrow> Inr [])
        = for_each (\<lambda>(path, item, method, opd). g path item method opd)
            (case x of (path, path_item) \<Rightarrow>
               case path_item of
                 JDict item \<Rightarrow> map (\<lambda>(method, opd). (path, item, method, opd)) (admitted verbs item)
               | _ \<Rightarrow> [])"
    by (cases path_item) (simp_all add: x m case_prod_unfold)
qed


lemma extract_endpoints_operations:
  "extract_endpoints sw =
     bind (py_items (dict_get sw ''paths'' (JDict []))) (\<lambda>paths.
     for_each (\<lambda>(path, item, method, opd).
         bind (endpoint_row sw path (dict_get item ''parameters'' (JList [])) method opd) (\<lambda>r. Inr [r]))
       (operations list_http_methods paths))"
proof -
  have "for_each (\<lambda>(path, path_item).
           case path_item of
             JDict item \<Rightarrow>
               for_each (\<lambda>(method, opd). bind (endpoint_row sw path (dict_get item ''parameters'' (JList [])) method opd) (\<lambda>r. Inr [r])) (admitted list_http_methods item)
           | _ \<Rightarrow> Inr []) paths
        = for_each (\<lambda>(path, item, method, opd). bind (endpoint_row sw path (dict_get item ''parameters'' (JList [])) method opd) (\<lambda>r. Inr [r])) (operations list_http_methods paths)" for paths
    by (rule for_each_operations)
  moreover have "for_each (\<lambda>(path, path_item). 
         case path_item of
           JDict item \<Rightarrow>
             (let path_level_params = dict_get item ''parameters'' (JList [])
              in for_each (\<lambda>(method, op).
                     if lower method \<notin> list_http_methods then Inr []
                     else case op of
                            JDict opd \<Rightarrow>
                              bind (endpoint_row sw path path_level_params method opd)
                                (\<lambda>r. Inr [r])
                          | _ \<Rightarrow> Inr [])
                   item)
         | _ \<Rightarrow> Inr []) paths
        = for_each (\<lambda>(path, path_item).
           case path_item of
             JDict item \<Rightarrow>
               for_each (\<lambda>(method, opd). bind (endpoint_row sw path (dict_get item ''parameters'' (JList [])) method opd) (\<lambda>r. Inr [r])) (admitted list_http_methods item)
           | _ \<Rightarrow> Inr []) paths" for paths
    by (rule for_each_cong) (auto simp: Let_def for_each_admitted split: json.splits)
  ultimately show ?thesis
    by (simp add: extract_endpoints_def)
qed

lemma extract_parameters_operations:
  "extract_parameters sw =
     bind (py_items (dict_get sw ''paths'' (JDict []))) (\<lambda>paths.
     for_each (\<lambda>(path, item, method, opd).
         parameter_rows path (dict_get item ''parameters'' (JList [])) method opd)
       (operations list_http_methods paths))"
proof -
  have "for_each (\<lambda>(path, path_item).
           case path_item of
             JDict item \<Rightarrow>
               for_each (\<lambda>(method, opd). parameter_rows path (dict_get item ''parameters'' (JList [])) method opd) (admitted list_http_methods item)
           | _ \<Rightarrow> Inr []) paths
        = for_each (\<lambda>(path, item, method, opd). parameter_rows path (dict_get item ''parameters'' (JList [])) method opd) (operations list_http_methods paths)" for paths
    by (rule for_each_operations)
  moreover have "for_each (\<lambda>(path, path_item). 
         case path_item of
           JDict item \<Rightarrow>
             (let path_level_params = dict_get item ''parameters'' (JList [])
              in for_each (\<lambda>(method, op).
                     if lower method \<notin> list_http_methods then Inr []
                     else case op of
                            JDict opd \<Rightarrow> parameter_rows path path_level_params method opd
                          | _ \<Rightarrow> Inr [])
                   item)
         | _ \<Rightarrow> Inr []) paths
        = for_each (\<lambda>(path, path_item).
           case path_item of
             JDict item \<Rightarrow>
               for_each (\<lambda>(method, opd). parameter_rows path (dict_get item ''parameters'' (JList [])) method opd) (admitted list_http_methods item)
           | _ \<Rightarrow> Inr []) paths" for paths
    by (rule for_each_cong) (auto simp: Let_def for_each_admitted split: json.splits)
  ultimately show ?thesis
    by (simp add: extract_parameters_def)
qed

lemma extract_responses_operations:
  "extract_responses sw =
     bind (py_items (dict_get sw ''paths'' (JDict []))) (\<lambda>paths.
     for_each (\<lambda>(path, item, method, opd). response_rows path method opd)
       (operations list_http_methods paths))"
proof -
  have "for_each (\<lambda>(path, path_item).
           case path_item of
             JDict item \<Rightarrow>
               for_each (\<lambda>(method, opd). response_rows path method opd) (admitted list_http_methods item)
           | _ \<Rightarrow> Inr []) paths
        = for_each (\<lambda>(path, item, method, opd). response_rows path method opd) (operations list_http_methods paths)" for paths
    by (rule for_each_operations)
  moreover have "for_each (\<lambda>(path, path_item). 
         case path_item of
           JDict item \<Rightarrow>
             for_each (\<lambda>(method, op).
                 if lower method \<notin> list_http_methods then Inr []
                 else case op of
                        JDict opd \<Rightarrow> response_rows path method opd
                      | _ \<Rightarrow> Inr [])
               item
         | _ \<Rightarrow> Inr []) paths
        = for_each (\<lambda>(path, path_item).
           case path_item of
             JDict item \<Rightarrow>
               for_each (\<lambda>(method, opd). response_rows path method opd) (admitted list_http_methods item)
           | _ \<Rightarrow> Inr []) paths" for paths
    by (rule for_each_cong) (auto simp: Let_def for_each_admitted split: json.splits)
  ultimately show ?thesis
    by (simp add: extract_responses_def)
qed

lemma py_items_Inr: "py_items v = Inr d \<longleftrightarrow> v = JDict d"
  by (cases v) auto

lemma paths_of_items: "py_items (dict_get sw ''paths'' (JDict [])) = Inr paths \<Longrightarrow> paths_of sw = paths"
  by (simp add: py_items_Inr paths_of_def)

lemma extract_endpoints_rows:
  assumes "extract_endpoints sw = Inr rows"
  shows "list_all2 (\<lambda>(path, item, method, opd) r.
            endpoint_row sw path (dict_get item ''parameters'' (JList [])) method opd = Inr r)
          (operations_of sw) rows"
proof -
  from assms obtain paths where p: "py_items (dict_get sw ''paths'' (JDict [])) = Inr paths"
    and f: "for_each (\<lambda>x. bind (case x of (path, item, method, opd) \<Rightarrow>
                 endpoint_row sw path (dict_get item ''parameters'' (JList [])) method opd) (\<lambda>r. Inr [r]))
              (operations list_http_methods paths) = Inr rows"
    by (auto simp: extract_endpoints_operations bind_eq_Inr case_prod_unfold)
  from f have "list_all2 (\<lambda>x r. (case x of (path, item, method, opd) \<Rightarrow>
                 endpoint_row sw path (dict_get item ''parameters'' (JList [])) method opd) = Inr r)
              (operations list_http_methods paths) rows"
    by (simp only: for_each_single_Inr_iff)
  then show ?thesis
    by (simp add: operations_of_def paths_of_items[OF p] case_prod_unfold)
qed

lemma extract_parameters_rows:
  assumes "extract_parameters sw = Inr rows"
  shows "\<exists>rss. list_all2 (\<lambda>(path, item, method, opd) rs.
            parameter_rows path (dict_get item ''parameters'' (JList [])) method opd = Inr rs)
          (operations_of sw) rss \<and> rows = concat rss"
proof -
  from assms obtain paths where p: "py_items (dict_get sw ''paths'' (JDict [])) = Inr paths"
    and f: "for_each (\<lambda>(path, item, method, opd).
                 parameter_rows path (dict_get item ''parameters'' (JList [])) method opd)
              (operations list_http_methods paths) = Inr rows"
    by (auto simp: extract_parameters_operations bind_eq_Inr)
  from f show ?thesis
    by (simp add: for_each_Inr_iff operations_of_def paths_of_items[OF p] case_prod_unfold)
qed

lemma extract_responses_rows:
  assumes "extract_responses sw = Inr rows"
  shows "\<exists>rss. list_all2 (\<lambda>(path, item, method, opd) rs. response_rows path method opd = Inr rs)
          (operations_of sw) rss \<and> rows = concat rss"
proof -
  from assms obtain paths where p: "py_items (dict_get sw ''paths'' (JDict [])) = Inr paths"
    and f: "for_each (\<lambda>(path, item, method, opd). response_rows path method opd)
              (operations list_http_methods paths) = Inr rows"
    by (auto simp: extract_responses_operations bind_eq_Inr)
  from f show ?thesis
    by (simp add: for_each_Inr_iff operations_of_def paths_of_items[OF p] case_prod_unfold)
qed

lemma list_all2_ops_mono:
  assumes "list_all2 (\<lambda>(path, item, method, opd) r. P path item method opd r) ops rows"
    and "\<And>path item method opd r. P path item method opd r \<Longrightarrow> Q path item method opd r"
  shows "list_all2 (\<lambda>(path, item, method, opd) r. Q path item method opd r) ops rows"
  using assms(1) by (rule list_all2_mono) (auto intro: assms(2))

lemma list_all2_list_all_right:
  assumes "list_all2 P xs ys" and "\<And>x y. P x y \<Longrightarrow> Q y"
  shows "list_all Q ys"
  using assms(1) by (induction rule: list_all2_induct) (auto intro: assms(2))

lemma csv_unsorted_operations:
  "csv_unsorted spec =
     bind (detect_servers spec) (\<lambda>servers.
     bind (py_items (dict_get spec ''paths'' (JDict []))) (\<lambda>paths.
     for_each (\<lambda>(path, item, method, opd).
         bind (csv_row path (case dict_get item ''parameters'' JNull of JList l \<Rightarrow> JList l | _ \<Rightarrow> JList [])
                 method opd) (\<lambda>r. Inr [r]))
       (operations HTTP_METHODS paths)))"
proof -
  have "for_each (\<lambda>(path, path_item).
           case path_item of
             JDict item \<Rightarrow>
               for_each (\<lambda>(method, opd).
                   bind (csv_row path (case dict_get item ''parameters'' JNull of JList l \<Rightarrow> JList l | _ \<Rightarrow> JList [])
                           method opd) (\<lambda>r. Inr [r]))
                 (admitted HTTP_METHODS item)
           | _ \<Rightarrow> Inr []) paths
        = for_each (\<lambda>(path, item, method, opd).
             bind (csv_row path (case dict_get item ''parameters'' JNull of JList l \<Rightarrow> JList l | _ \<Rightarrow> JList [])
                     method opd) (\<lambda>r. Inr [r]))
            (operations HTTP_METHODS paths)" for paths
    by (rule for_each_operations)
  moreover have "for_each (\<lambda>(path, methods).
         case methods of
           JDict ms \<Rightarrow>
             (let path_params = (case dict_get ms ''parameters'' JNull of
                                   JList l \<Rightarrow> JList l
                                 | _ \<Rightarrow> JList [])
              in for_each (\<lambda>(method, op).
                     if lower method \<notin> HTTP_METHODS then Inr []
                     else case op of
                            JDict opd \<Rightarrow> bind (csv_row path path_params method opd) (\<lambda>r. Inr [r])
                          | _ \<Rightarrow> Inr [])
                   ms)
         | _ \<Rightarrow> Inr []) paths
        = for_each (\<lambda>(path, path_item).
           case path_item of
             JDict item \<Rightarrow>
               for_each (\<lambda>(method, opd).
                   bind (csv_row path (case dict_get item ''parameters'' JNull of JList l \<Rightarrow> JList l | _ \<Rightarrow> JList [])
                           method opd) (\<lambda>r. Inr [r]))
                 (admitted HTTP_METHODS item)
           | _ \<Rightarrow> Inr []) paths" for paths
    by (rule for_each_cong) (auto simp: Let_def for_each_admitted split: json.splits)
  ultimately show ?thesis
    by (simp add: csv_unsorted_def)
qed

lemma csv_unsorted_rows:
  assumes "csv_unsorted spec = Inr rows"
  shows "list_all2 (\<lambda>(path, item, method, opd) r.
            csv_row path (case dict_get item ''parameters'' JNull of JList l \<Rightarrow> JList l | _ \<Rightarrow> JList [])
              method opd = Inr r)
          (operations HTTP_METHODS (paths_of spec)) rows"
proof -
  from assms obtain paths where p: "py_items (dict_get spec ''paths'' (JDict [])) = Inr paths"
    and f: "for_each (\<lambda>x. bind (case x of (path, item, method, opd) \<Rightarrow>
                 csv_row path (case dict_get item ''parameters'' JNull of JList l \<Rightarrow> JList l | _ \<Rightarrow> JList [])
                   method opd) (\<lambda>r. Inr [r]))
              (operations HTTP_METHODS paths) = Inr rows"
    by (auto simp: csv_unsorted_operations bind_eq_Inr case_prod_unfold)
  from f have "list_all2 (\<lambda>x r. (case x of (path, item, method, opd) \<Rightarrow>
                 csv_row path (case dict_get item ''parameters'' JNull of JList l \<Rightarrow> JList l | _ \<Rightarrow> JList [])
                   method opd) = Inr r)
              (operations HTTP_METHODS paths) rows"
    by (simp only: for_each_single_Inr_iff)
  then show ?thesis
    by (simp add: paths_of_items[OF p] case_prod_unfold)
qed

section \<open>The parameter merger\<close>

lemma removeAll_filter_conv: "removeAll x (filter P xs) = filter (\<lambda>y. P y \<and> y \<noteq> x) xs"
  by (induction xs) auto

lemma uniq_loop_spec:
  "uniq_loop xs seen uniq = uniq @ first_occurrences (filter (\<lambda>x. x \<notin> seen) xs)"
proof (induction xs arbitrary: seen uniq)
  case Nil
  show ?case by simp
next
  case (Cons x xs)
  have eq: "(\<lambda>y. y \<notin> seen \<and> y \<noteq> x) = (\<lambda>y. y \<notin> insert x seen)"
    by auto
  show ?case
    by (simp add: Cons.IH removeAll_filter_conv eq)
qed

lemma uniq_loop_first_occurrences: "uniq_loop xs {} [] = first_occurrences xs"
  by (simp add: uniq_loop_spec)

lemma set_first_occurrences [simp]: "set (first_occurrences xs) = set xs"
  by (induction xs rule: first_occurrences.induct) auto

lemma distinct_first_occurrences [simp]: "distinct (first_occurrences xs)"
  by (induction xs rule: first_occurrences.induct) auto

lemma first_occurrences_distinct: "distinct xs \<Longrightarrow> first_occurrences xs = xs"
  by (induction xs) auto

lemma first_occurrences_append_absorb:
  "set ys \<subseteq> set xs \<Longrightarrow> first_occurrences (xs @ ys) = first_occurrences xs"
proof (induction xs arbitrary: ys rule: first_occurrences.induct)
  case 1
  then show ?case by simp
next
  case (2 x xs)
  have "set (removeAll x ys) \<subseteq> set (removeAll x xs)"
    using "2.prems" by auto
  then show ?case
    using "2.IH" by simp
qed

lemma render_all_append: "render_all (xs @ ys) = render_all xs @ render_all ys"
  by (simp add: render_all_def)

lemma render_all_member: "JDict p \<in> set xs \<Longrightarrow> render_param p \<in> set (render_all xs)"
  by (force simp: render_all_def)

lemma py_iter_or_else_list: "py_iter (or_else (JList xs) (JList [])) = Inr xs"
  by (cases xs) (simp_all add: or_else_def)

lemma merged_params_lists:
  "merged_params (JList op_level) (JList path_level) =
     Inr (first_occurrences (render_all (path_level @ op_level)))"
  by (simp add: merged_params_def py_iter_or_else_list uniq_loop_first_occurrences render_all_append)

lemma render_param_shape:
  "\<exists>tail. render_param p =
     py_str (dict_get p ''name'' (JStr [])) @ '' ('' @ py_str (dict_get p ''in'' (JStr [])) @ '')'' @ tail"
  by (simp add: render_param_def Let_def)

lemma split_at_paren:
  assumes "CHR '')'' \<notin> set a" "CHR '')'' \<notin> set b" "a @ '')'' @ s = b @ '')'' @ t"
  shows "a = b"
  using assms
proof (induction a arbitrary: b)
  case Nil
  then show ?case by (cases b) auto
next
  case (Cons x a)
  then show ?case by (cases b) auto
qed

lemma render_param_distinct:
  assumes "dict_get p ''name'' (JStr []) = dict_get q ''name'' (JStr [])"
    and "py_str (dict_get p ''in'' (JStr [])) \<noteq> py_str (dict_get q ''in'' (JStr []))"
    and "CHR '')'' \<notin> set (py_str (dict_get p ''in'' (JStr [])))"
    and "CHR '')'' \<notin> set (py_str (dict_get q ''in'' (JStr [])))"
  shows "render_param p \<noteq> render_param q"
proof
  assume eq: "render_param p = render_param q"
  obtain s where s: "render_param p =
      py_str (dict_get p ''name'' (JStr [])) @ '' ('' @ py_str (dict_get p ''in'' (JStr [])) @ '')'' @ s"
    using render_param_shape by blast
  obtain t where t: "render_param q =
      py_str (dict_get q ''name'' (JStr [])) @ '' ('' @ py_str (dict_get q ''in'' (JStr [])) @ '')'' @ t"
    using render_param_shape by blast
  from eq s t assms(1)
  have "py_str (dict_get p ''in'' (JStr [])) @ '')'' @ s = py_str (dict_get q ''in'' (JStr [])) @ '')'' @ t"
    by simp
  with assms(3,4) have "py_str (dict_get p ''in'' (JStr [])) = py_str (dict_get q ''in'' (JStr []))"
    by (rule split_at_paren)
  with assms(2) show False by simp
qed

lemma render_param_distinct_strings:
  assumes "dict_get p ''name'' (JStr []) = dict_get q ''name'' (JStr [])"
    and "dict_get p ''in'' (JStr []) = JStr a" and "dict_get q ''in'' (JStr []) = JStr b"
    and "a \<noteq> b" and "CHR '')'' \<notin> set a" and "CHR '')'' \<notin> set b"
  shows "render_param p \<noteq> render_param q"
  using assms by (intro render_param_distinct) (simp_all add: py_str_def)

text \<open>
  C4, as stated, fails: two parameters with the same name and different locations
  collapse to one entry when their rendered descriptions coincide. Here the first has
  location \<open>q\<close> and type \<open>t)\<close>, the second location \<open>q) : t\<close> and no type; both
  render as \<open>id (q) : t)\<close>. So do the number 1 and the string \<open>1\<close> as locations:
  both render as \<open>id (1)\<close>.
\<close>

theorem collect_params_same_name_collapse:
  "merged_params (JList [])
       (JList [JDict [(''name'', JStr ''id''), (''in'', JStr ''q''), (''type'', JStr ''t)'')],
               JDict [(''name'', JStr ''id''), (''in'', JStr ''q) : t'')]])
     = Inr [''id (q) : t)'']
   \<and> dict_get [(''name'', JStr ''id''), (''in'', JStr ''q''), (''type'', JStr ''t)'')] ''in'' (JStr [])
     \<noteq> dict_get [(''name'', JStr ''id''), (''in'', JStr ''q) : t'')] ''in'' (JStr [])
   \<and> merged_params (JList [])
       (JList [JDict [(''name'', JStr ''id''), (''in'', JInt 1)],
               JDict [(''name'', JStr ''id''), (''in'', JStr ''1'')]])
     = Inr [''id (1)'']"
  by code_simp

text \<open>
  C4 (amended). For all path-level and operation-level parameter lists, \<open>collect_params\<close>
  renders the parameters that are dictionaries, the path-level ones first, then the
  operation-level ones, each side in its order, keeps the first occurrence of every
  rendered description (name, location, required marker, type) and joins the result
  with \<open>"; "\<close>; entries that are no dictionaries are dropped. The rendering of every
  parameter that is a dictionary is in the result. Two parameters of the lists with
  the same name are both retained, as two different entries, whenever the texts that
  \<open>str\<close> gives for their two locations differ and neither text contains a closing
  parenthesis; in particular whenever their locations are two different strings
  without a closing parenthesis. Locations that differ as values and print alike, or
  that contain a closing parenthesis, are not covered: such parameters can collapse.
\<close>

theorem collect_params_merge:
  "merged_params (JList op_level) (JList path_level)
     = Inr (first_occurrences (render_all (path_level @ op_level)))
   \<and> collect_params (JList op_level) (JList path_level)
     = Inr (str_join ''; '' (first_occurrences (render_all (path_level @ op_level))))
   \<and> (JDict p \<in> set (path_level @ op_level) \<longrightarrow>
        render_param p \<in> set (first_occurrences (render_all (path_level @ op_level))))
   \<and> (JDict p \<in> set (path_level @ op_level) \<and> JDict q \<in> set (path_level @ op_level)
        \<and> dict_get p ''name'' (JStr []) = dict_get q ''name'' (JStr [])
        \<and> py_str (dict_get p ''in'' (JStr [])) \<noteq> py_str (dict_get q ''in'' (JStr []))
        \<and> CHR '')'' \<notin> set (py_str (dict_get p ''in'' (JStr [])))
        \<and> CHR '')'' \<notin> set (py_str (dict_get q ''in'' (JStr [])))
      \<longrightarrow> render_param p \<in> set (first_occurrences (render_all (path_level @ op_level)))
          \<and> render_param q \<in> set (first_occurrences (render_all (path_level @ op_level)))
          \<and> render_param p \<noteq> render_param q)
   \<and> (JDict p \<in> set (path_level @ op_level) \<and> JDict q \<in> set (path_level @ op_level)
        \<and> dict_get p ''name'' (JStr []) = dict_get q ''name'' (JStr [])
        \<and> dict_get p ''in'' (JStr []) = JStr a \<and> dict_get q ''in'' (JStr []) = JStr b
        \<and> a \<noteq> b \<and> CHR '')'' \<notin> set a \<and> CHR '')'' \<notin> set b
      \<longrightarrow> render_param p \<in> set (first_occurrences (render_all (path_level @ op_level)))
          \<and> render_param q \<in> set (first_occurrences (render_all (path_level @ op_level)))
          \<and> render_param p \<noteq> render_param q)"
proof -
  let ?result = "first_occurrences (render_all (path_level @ op_level))"
  have 1: "merged_params (JList op_level) (JList path_level) = Inr ?result"
    by (rule merged_params_lists)
  then have 2: "collect_params (JList op_level) (JList path_level) = Inr (str_join ''; '' ?result)"
    by (simp add: collect_params_def)
  have 3: "render_param d \<in> set ?result" if "JDict d \<in> set (path_level @ op_level)" for d
    using that render_all_member by simp
  have 4: "render_param p \<noteq> render_param q"
    if "dict_get p ''name'' (JStr []) = dict_get q ''name'' (JStr [])"
      and "py_str (dict_get p ''in'' (JStr [])) \<noteq> py_str (dict_get q ''in'' (JStr []))"
      and "CHR '')'' \<notin> set (py_str (dict_get p ''in'' (JStr [])))"
      and "CHR '')'' \<notin> set (py_str (dict_get q ''in'' (JStr [])))"
    using that by (rule render_param_distinct)
  have 5: "render_param p \<noteq> render_param q"
    if "dict_get p ''name'' (JStr []) = dict_get q ''name'' (JStr [])"
      and "dict_get p ''in'' (JStr []) = JStr a" and "dict_get q ''in'' (JStr []) = JStr b"
      and "a \<noteq> b" and "CHR '')'' \<notin> set a" and "CHR '')'' \<notin> set b"
    using that by (rule render_param_distinct_strings)
  from 1 2 3 4 5 show ?thesis
    by blast
qed

theorem collect_params_merge_witness:
  "collect_params
       (JList [JDict [(''name'', JStr ''id''), (''in'', JStr ''query''), (''type'', JStr ''string'')],
               JDict [(''name'', JStr ''id''), (''in'', JStr ''path''), (''required'', JBool True),
                      (''type'', JStr ''string'')]])
       (JList [JDict [(''name'', JStr ''id''), (''in'', JStr ''path''), (''required'', JBool True),
                      (''type'', JStr ''string'')]])
     = Inr ''id (path)* : string; id (query) : string''
   \<and> render_param [(''name'', JStr ''id''), (''in'', JStr ''path''), (''required'', JBool True),
                     (''type'', JStr ''string'')]
       \<in> set [''id (path)* : string'', ''id (query) : string'']
   \<and> render_param [(''name'', JStr ''id''), (''in'', JStr ''query''), (''type'', JStr ''string'')]
       \<in> set [''id (path)* : string'', ''id (query) : string'']
   \<and> render_param [(''name'', JStr ''id''), (''in'', JStr ''path''), (''required'', JBool True),
                     (''type'', JStr ''string'')]
     \<noteq> render_param [(''name'', JStr ''id''), (''in'', JStr ''query''), (''type'', JStr ''string'')]"
proof -
  let ?p = "[(''name'', JStr ''id''), (''in'', JStr ''path''), (''required'', JBool True),
             (''type'', JStr ''string'')]"
  let ?q = "[(''name'', JStr ''id''), (''in'', JStr ''query''), (''type'', JStr ''string'')]"
  note t = collect_params_merge [where op_level = "[JDict ?q, JDict ?p]" and path_level = "[JDict ?p]"
      and p = ?p and q = ?q and a = "''path''" and b = "''query''"]
  have r: "first_occurrences (render_all [JDict ?p, JDict ?q, JDict ?p])
      = [''id (path)* : string'', ''id (query) : string'']"
    by code_simp
  have e: "str_join ''; '' [''id (path)* : string'', ''id (query) : string'']
      = ''id (path)* : string; id (query) : string''"
    by code_simp
  have m: "JDict ?p \<in> set ([JDict ?p] @ [JDict ?q, JDict ?p])
        \<and> JDict ?q \<in> set ([JDict ?p] @ [JDict ?q, JDict ?p])"
    by simp
  have h: "dict_get ?p ''name'' (JStr []) = dict_get ?q ''name'' (JStr [])
        \<and> dict_get ?p ''in'' (JStr []) = JStr ''path'' \<and> dict_get ?q ''in'' (JStr []) = JStr ''query''
        \<and> ''path'' \<noteq> ''query'' \<and> CHR '')'' \<notin> set ''path'' \<and> CHR '')'' \<notin> set ''query''"
    by code_simp
  from t m h have "collect_params (JList [JDict ?q, JDict ?p]) (JList [JDict ?p])
       = Inr (str_join ''; '' (first_occurrences (render_all ([JDict ?p] @ [JDict ?q, JDict ?p]))))
     \<and> render_param ?p \<in> set (first_occurrences (render_all ([JDict ?p] @ [JDict ?q, JDict ?p])))
     \<and> render_param ?q \<in> set (first_occurrences (render_all ([JDict ?p] @ [JDict ?q, JDict ?p])))
     \<and> render_param ?p \<noteq> render_param ?q"
    by blast
  moreover have "render_param ?p = ''id (path)* : string''" "render_param ?q = ''id (query) : string''"
    by code_simp+
  ultimately show ?thesis
    by (simp add: r e)
qed

lemma render_all_strings: "render_all (map JStr u) = []"
  by (induction u) (simp_all add: render_all_def)

lemma render_all_chars: "render_all (map (\<lambda>c. JStr [c]) s) = []"
  by (induction s) (simp_all add: render_all_def)

lemma render_all_Nil: "render_all [] = []"
  by (simp add: render_all_def)

lemma py_iter_or_else_str:
  "py_iter (or_else (JStr s) (JList [])) = Inr (map (\<lambda>c. JStr [c]) s)"
  by (cases s) (simp_all add: or_else_def)

lemma merged_params_text:
  "merged_params (JStr s) (JList []) = Inr []" "merged_params (JList []) (JStr s) = Inr []"
  by (simp_all add: merged_params_def py_iter_or_else_str py_iter_or_else_list render_all_chars
      render_all_Nil)

text \<open>
  C7, as stated, fails in its last clause: what the merger returns is the joined text
  of the rendered descriptions, not a parameter list, and the merger drops every
  entry that is no dictionary. Merged with the empty list, the merged text gives the
  empty text, and the list of rendered descriptions gives the empty list.
\<close>

theorem merged_result_fed_back:
  "collect_params
       (JList [JDict [(''name'', JStr ''id''), (''in'', JStr ''path'')]]) (JList [])
     = Inr ''id (path)''
   \<and> collect_params (JStr ''id (path)'') (JList []) = Inr []
   \<and> merged_params
       (JList [JDict [(''name'', JStr ''id''), (''in'', JStr ''path'')]]) (JList [])
     = Inr [''id (path)'']
   \<and> merged_params (JList [JStr ''id (path)'']) (JList []) = Inr []"
  by code_simp

text \<open>
  C7 (amended). Merging a parameter list with itself gives what merging it with the
  empty list gives, on either side, as the list of rendered descriptions and as the
  joined text: nothing is duplicated. A list whose rendered descriptions are already
  pairwise different is left unchanged by merging it with the empty list: the result
  is the list of its rendered descriptions. The de-duplication loop, run again over
  the list it produced, returns that list. The merged result itself is no parameter
  list: merging a text, or a list of rendered descriptions, with the empty list gives
  the empty result.
\<close>

theorem merge_idempotent:
  "merged_params (JList l) (JList l) = merged_params (JList l) (JList [])
   \<and> merged_params (JList l) (JList l) = merged_params (JList []) (JList l)
   \<and> collect_params (JList l) (JList l) = collect_params (JList l) (JList [])
   \<and> collect_params (JList l) (JList l) = collect_params (JList []) (JList l)
   \<and> uniq_loop (uniq_loop xs {} []) {} [] = uniq_loop xs {} []
   \<and> collect_params (JStr s) (JList []) = Inr []
   \<and> collect_params (JList []) (JStr s) = Inr []
   \<and> merged_params (JList (map JStr u)) (JList []) = Inr []
   \<and> merged_params (JList []) (JList (map JStr u)) = Inr []
   \<and> (distinct (render_all l) \<longrightarrow>
        merged_params (JList l) (JList []) = Inr (render_all l)
        \<and> merged_params (JList []) (JList l) = Inr (render_all l))"
proof -
  have a: "first_occurrences (render_all (l @ l)) = first_occurrences (render_all l)"
    by (simp add: render_all_append first_occurrences_append_absorb)
  have b: "first_occurrences (first_occurrences xs) = first_occurrences xs"
    by (simp add: first_occurrences_distinct)
  have 1: "merged_params (JList l) (JList l) = merged_params (JList l) (JList [])"
    "merged_params (JList l) (JList l) = merged_params (JList []) (JList l)"
    by (simp_all add: merged_params_lists a)
  then have 2: "collect_params (JList l) (JList l) = collect_params (JList l) (JList [])"
    "collect_params (JList l) (JList l) = collect_params (JList []) (JList l)"
    by (simp_all add: collect_params_def)
  have 3: "uniq_loop (uniq_loop xs {} []) {} [] = uniq_loop xs {} []"
    by (simp add: uniq_loop_first_occurrences b)
  have 4: "collect_params (JStr s) (JList []) = Inr []" "collect_params (JList []) (JStr s) = Inr []"
    by (simp_all add: collect_params_def merged_params_text)
  have 5: "merged_params (JList (map JStr u)) (JList []) = Inr []"
    "merged_params (JList []) (JList (map JStr u)) = Inr []"
    by (simp_all add: merged_params_lists render_all_strings)
  have 6: "distinct (render_all l) \<longrightarrow>
        merged_params (JList l) (JList []) = Inr (render_all l)
        \<and> merged_params (JList []) (JList l) = Inr (render_all l)"
    by (simp add: merged_params_lists first_occurrences_distinct)
  from 1 2 3 4 5 6 show ?thesis
    by (intro conjI)
qed

theorem merge_idempotent_witness:
  "distinct (render_all [JDict [(''name'', JStr ''id''), (''in'', JStr ''path'')],
                         JDict [(''name'', JStr ''id''), (''in'', JStr ''query'')],
                         JStr ''id (path)''])
   \<and> merged_params (JList [JDict [(''name'', JStr ''id''), (''in'', JStr ''path'')],
                            JDict [(''name'', JStr ''id''), (''in'', JStr ''query'')],
                            JStr ''id (path)'']) (JList [])
     = Inr [''id (path)'', ''id (query)'']
   \<and> merged_params (JList [JDict [(''name'', JStr ''id''), (''in'', JStr ''path'')],
                            JDict [(''name'', JStr ''id''), (''in'', JStr ''query'')],
                            JStr ''id (path)''])
       (JList [JDict [(''name'', JStr ''id''), (''in'', JStr ''path'')],
               JDict [(''name'', JStr ''id''), (''in'', JStr ''query'')],
               JStr ''id (path)''])
     = Inr [''id (path)'', ''id (query)'']"
proof -
  let ?l = "[JDict [(''name'', JStr ''id''), (''in'', JStr ''path'')],
             JDict [(''name'', JStr ''id''), (''in'', JStr ''query'')],
             JStr ''id (path)'']"
  note t = merge_idempotent [where l = ?l]
  have r: "render_all ?l = [''id (path)'', ''id (query)'']"
    by code_simp
  then have d: "distinct (render_all ?l)"
    by simp
  from t d have "merged_params (JList ?l) (JList []) = Inr (render_all ?l)
      \<and> merged_params (JList ?l) (JList ?l) = Inr (render_all ?l)"
    by simp
  with d show ?thesis
    unfolding r by blast
qed

section \<open>Rows of the endpoints relation\<close>

lemma endpoint_row_cells:
  assumes "endpoint_row sw path plp method opd = Inr e"
  shows "first_tag (dict_get opd ''tags'' (JList [])) = Inr (cell e ''api_group'')"
    and "cell e ''method'' = JStr (upper method)"
    and "cell e ''path'' = JStr path"
    and "build_full_url_template (dict_get sw ''schemes'' (JList [])) (dict_get sw ''host'' JNull)
           (dict_get sw ''basePath'' JNull) (JStr path) = Inr (cell e ''full_url_template'')"
    and "\<exists>flat. security_flat (dict_get opd ''security'' (dict_get sw ''security'' (JList []))) = Inr flat
           \<and> join_or_none (JList (map JStr flat)) = Inr (cell e ''security'')"
    and "\<exists>n_op n_path. py_len (dict_get opd ''parameters'' (JList [])) = Inr n_op
           \<and> py_len plp = Inr n_path \<and> cell e ''parameters_count'' = JInt (int (n_op + n_path))"
    and "\<exists>n. py_len (dict_get opd ''responses'' (JDict [])) = Inr n
           \<and> cell e ''responses_count'' = JInt (int n)"
  using assms
  by (auto simp: endpoint_row_def Let_def bind_eq_Inr cell_def dict_get_def)

lemma first_tag_cases:
  assumes "first_tag tags = Inr g"
  shows "tags = JList (t # ts) \<Longrightarrow> g = t"
    and "\<not> truthy tags \<Longrightarrow> g = JNull"
    and "g = JStr [] \<longleftrightarrow> (\<exists>ts. tags = JList (JStr [] # ts))"
proof -
  show "tags = JList (t # ts) \<Longrightarrow> g = t"
    using assms by (simp add: first_tag_def)
  show "\<not> truthy tags \<Longrightarrow> g = JNull"
    using assms by (simp add: first_tag_def)
  show "g = JStr [] \<longleftrightarrow> (\<exists>ts. tags = JList (JStr [] # ts))"
  proof (cases tags)
    case (JList xs)
    then show ?thesis using assms by (cases xs) (auto simp: first_tag_def)
  next
    case (JStr s)
    then show ?thesis using assms by (cases s) (auto simp: first_tag_def)
  qed (use assms in \<open>auto simp: first_tag_def split: if_splits\<close>)
qed

text \<open>
  C8, as stated, fails: an operation whose first tag is the empty string has the empty
  string as its \<open>api_group\<close>.
\<close>

theorem api_group_empty_string:
  "column ''api_group''
     (extract_endpoints
        [(''paths'', JDict [(''/pets'', JDict [(''get'', JDict [(''tags'', JList [JStr []])])])])])
   = [JStr []]"
  by code_simp

text \<open>
  C8 (amended). For every operation, in the order of the endpoints relation: when the
  operation's \<open>tags\<close> is a non-empty list, \<open>api_group\<close> is its first element; when
  \<open>tags\<close> is absent, null or empty, \<open>api_group\<close> is null; and \<open>api_group\<close> is the
  empty string exactly when the first tag is the empty string.
\<close>

theorem api_group_first_tag:
  assumes "extract_endpoints sw = Inr rows"
  shows "list_all2 (\<lambda>(path, item, method, opd) r.
            (\<forall>t ts. dict_get opd ''tags'' (JList []) = JList (t # ts) \<longrightarrow> cell r ''api_group'' = t)
          \<and> (\<not> truthy (dict_get opd ''tags'' (JList [])) \<longrightarrow> cell r ''api_group'' = JNull)
          \<and> (cell r ''api_group'' = JStr [] \<longleftrightarrow>
               (\<exists>ts. dict_get opd ''tags'' (JList []) = JList (JStr [] # ts))))
          (operations_of sw) rows"
proof (rule list_all2_ops_mono [OF extract_endpoints_rows [OF assms]])
  fix path :: string and item :: dict and verb :: string and opd :: dict and r :: row
  assume "endpoint_row sw path (dict_get item ''parameters'' (JList [])) verb opd = Inr r"
  then have ft: "first_tag (dict_get opd ''tags'' (JList [])) = Inr (cell r ''api_group'')"
    by (rule endpoint_row_cells(1))
  have 1: "\<forall>t ts. dict_get opd ''tags'' (JList []) = JList (t # ts) \<longrightarrow> cell r ''api_group'' = t"
    using first_tag_cases(1) [OF ft] by blast
  have 2: "\<not> truthy (dict_get opd ''tags'' (JList [])) \<longrightarrow> cell r ''api_group'' = JNull"
    using first_tag_cases(2) [OF ft] by blast
  have 3: "cell r ''api_group'' = JStr [] \<longleftrightarrow>
               (\<exists>ts. dict_get opd ''tags'' (JList []) = JList (JStr [] # ts))"
    using first_tag_cases(3) [OF ft] by blast
  show "(\<forall>t ts. dict_get opd ''tags'' (JList []) = JList (t # ts) \<longrightarrow> cell r ''api_group'' = t)
          \<and> (\<not> truthy (dict_get opd ''tags'' (JList [])) \<longrightarrow> cell r ''api_group'' = JNull)
          \<and> (cell r ''api_group'' = JStr [] \<longleftrightarrow>
               (\<exists>ts. dict_get opd ''tags'' (JList []) = JList (JStr [] # ts)))"
    using 1 2 3 by blast
qed

theorem api_group_first_tag_witness:
  "extract_endpoints
     [(''paths'', JDict [(''/pets'', JDict [(''get'', JDict [(''tags'', JList [JStr ''Pets''])]),
                                            (''post'', JDict [])])])]
   = Inr [[(''api_group'', JStr ''Pets''), (''tags'', JStr ''Pets''),
        (''operationId'', JNull), (''summary'', JNull),
        (''description'', JNull), (''deprecated'', JBool False),
        (''method'', JStr ''GET''), (''path'', JStr ''/pets''),
        (''full_url_template'', JNull),
        (''consumes'', JNull), (''produces'', JNull),
        (''parameters_count'', JInt 0), (''responses_count'', JInt 0),
        (''security'', JNull)],
        [(''api_group'', JNull), (''tags'', JNull),
        (''operationId'', JNull), (''summary'', JNull),
        (''description'', JNull), (''deprecated'', JBool False),
        (''method'', JStr ''POST''), (''path'', JStr ''/pets''),
        (''full_url_template'', JNull),
        (''consumes'', JNull), (''produces'', JNull),
        (''parameters_count'', JInt 0), (''responses_count'', JInt 0),
        (''security'', JNull)]]
   \<and> list_all2 (\<lambda>(path, item, method, opd) r.
            (\<forall>t ts. dict_get opd ''tags'' (JList []) = JList (t # ts) \<longrightarrow> cell r ''api_group'' = t)
          \<and> (\<not> truthy (dict_get opd ''tags'' (JList [])) \<longrightarrow> cell r ''api_group'' = JNull)
          \<and> (cell r ''api_group'' = JStr [] \<longleftrightarrow>
               (\<exists>ts. dict_get opd ''tags'' (JList []) = JList (JStr [] # ts))))
       [(''/pets'', [(''get'', JDict [(''tags'', JList [JStr ''Pets''])]), (''post'', JDict [])],
         ''get'', [(''tags'', JList [JStr ''Pets''])]),
        (''/pets'', [(''get'', JDict [(''tags'', JList [JStr ''Pets''])]), (''post'', JDict [])],
         ''post'', [])]
       [[(''api_group'', JStr ''Pets''), (''tags'', JStr ''Pets''),
        (''operationId'', JNull), (''summary'', JNull),
        (''description'', JNull), (''deprecated'', JBool False),
        (''method'', JStr ''GET''), (''path'', JStr ''/pets''),
        (''full_url_template'', JNull),
        (''consumes'', JNull), (''produces'', JNull),
        (''parameters_count'', JInt 0), (''responses_count'', JInt 0),
        (''security'', JNull)],
        [(''api_group'', JNull), (''tags'', JNull),
        (''operationId'', JNull), (''summary'', JNull),
        (''description'', JNull), (''deprecated'', JBool False),
        (''method'', JStr ''POST''), (''path'', JStr ''/pets''),
        (''full_url_template'', JNull),
        (''consumes'', JNull), (''produces'', JNull),
        (''parameters_count'', JInt 0), (''responses_count'', JInt 0),
        (''security'', JNull)]]"
proof -
  let ?d = "[(''paths'', JDict [(''/pets'', JDict [(''get'', JDict [(''tags'', JList [JStr ''Pets''])]),
                                            (''post'', JDict [])])])]"
  let ?rows = "[[(''api_group'', JStr ''Pets''), (''tags'', JStr ''Pets''),
        (''operationId'', JNull), (''summary'', JNull),
        (''description'', JNull), (''deprecated'', JBool False),
        (''method'', JStr ''GET''), (''path'', JStr ''/pets''),
        (''full_url_template'', JNull),
        (''consumes'', JNull), (''produces'', JNull),
        (''parameters_count'', JInt 0), (''responses_count'', JInt 0),
        (''security'', JNull)],
        [(''api_group'', JNull), (''tags'', JNull),
        (''operationId'', JNull), (''summary'', JNull),
        (''description'', JNull), (''deprecated'', JBool False),
        (''method'', JStr ''POST''), (''path'', JStr ''/pets''),
        (''full_url_template'', JNull),
        (''consumes'', JNull), (''produces'', JNull),
        (''parameters_count'', JInt 0), (''responses_count'', JInt 0),
        (''security'', JNull)]]"
  have h: "extract_endpoints ?d = Inr ?rows"
    by code_simp
  have o: "operations_of ?d =
       [(''/pets'', [(''get'', JDict [(''tags'', JList [JStr ''Pets''])]), (''post'', JDict [])],
         ''get'', [(''tags'', JList [JStr ''Pets''])]),
        (''/pets'', [(''get'', JDict [(''tags'', JList [JStr ''Pets''])]), (''post'', JDict [])],
         ''post'', [])]"
    by code_simp
  from api_group_first_tag [OF h] h o show ?thesis
    by (simp only:) 
qed

section \<open>The URL synthesizer\<close>

text \<open>
  C6, as stated, fails: a host that is present and empty gives null, not the
  concatenation with the empty host.
\<close>

theorem url_empty_host:
  "build_full_url_template (JList [JStr ''http'']) (JStr []) (JStr ''/v1'') (JStr ''/pets'') = Inr JNull
   \<and> build_full_url_template (JList [JStr ''http'']) (JStr []) (JStr ''/v1'') (JStr ''/pets'')
       \<noteq> Inr (JStr (''http'' @ ''://'' @ [] @ ''/v1'' @ ''/pets''))"
  by code_simp

text \<open>
  C6 (amended). \<open>build_full_url_template\<close> returns null whenever \<open>host\<close> is absent,
  null or otherwise false (the empty string). For any other host it returns
  scheme, \<open>"://"\<close>, host, base path (or nothing when that is absent or empty) and path,
  with nothing normalized, where the scheme is the first item when \<open>schemes\<close> is a
  non-empty list and \<open>https\<close> when \<open>schemes\<close> is absent or empty. So
  \<open>full_url_template\<close> is null in every endpoints row of a document without \<open>host\<close>.
\<close>

theorem full_url_template_contract:
  "(\<not> truthy host \<longrightarrow> build_full_url_template schemes host base_path path = Inr JNull)
   \<and> (truthy host \<longrightarrow>
        build_full_url_template (JList (s # ss)) host base_path path
          = Inr (JStr (py_str s @ ''://'' @ py_str host @ py_str (or_else base_path (JStr [])) @ py_str path)))
   \<and> (truthy host \<and> \<not> truthy schemes \<longrightarrow>
        build_full_url_template schemes host base_path path
          = Inr (JStr (''https'' @ ''://'' @ py_str host @ py_str (or_else base_path (JStr [])) @ py_str path)))
   \<and> (extract_endpoints sw = Inr rows \<and> map_of sw ''host'' = None \<longrightarrow>
        list_all (\<lambda>r. cell r ''full_url_template'' = JNull) rows)"
proof (intro conjI impI)
  assume a: "extract_endpoints sw = Inr rows \<and> map_of sw ''host'' = None"
  then have h: "dict_get sw ''host'' JNull = JNull"
    by (simp add: dict_get_def)
  show "list_all (\<lambda>r. cell r ''full_url_template'' = JNull) rows"
  proof (rule list_all2_list_all_right)
    show "list_all2 (\<lambda>(path, item, method, opd) r.
            endpoint_row sw path (dict_get item ''parameters'' (JList [])) method opd = Inr r)
          (operations_of sw) rows"
      using a by (simp add: extract_endpoints_rows)
  next
    fix x :: "string \<times> dict \<times> string \<times> dict" and r :: row
    assume "(case x of (path, item, method, opd) \<Rightarrow> \<lambda>r.
            endpoint_row sw path (dict_get item ''parameters'' (JList [])) method opd = Inr r) r"
    then obtain path plp verb opd where "endpoint_row sw path plp verb opd = Inr r"
      by (cases x) auto
    from endpoint_row_cells(4) [OF this] show "cell r ''full_url_template'' = JNull"
      by (simp add: h build_full_url_template_def)
  qed
qed (simp_all add: build_full_url_template_def Let_def)

theorem full_url_template_contract_witness:
  "build_full_url_template (JList []) JNull (JStr ''/v1'') (JStr ''/pets'') = Inr JNull
   \<and> build_full_url_template (JList [JStr ''http'']) (JStr ''api.example.com'') (JStr ''/v1'') (JStr ''/pets'')
       = Inr (JStr ''http://api.example.com/v1/pets'')
   \<and> build_full_url_template (JList []) (JStr ''api.example.com'') JNull (JStr ''/pets'')
       = Inr (JStr ''https://api.example.com/pets'')
   \<and> list_all (\<lambda>r. cell r ''full_url_template'' = JNull)
        [[(''api_group'', JNull), (''tags'', JNull),
          (''operationId'', JNull), (''summary'', JNull),
          (''description'', JNull), (''deprecated'', JBool False),
          (''method'', JStr ''GET''), (''path'', JStr ''/pets''),
          (''full_url_template'', JNull),
          (''consumes'', JNull), (''produces'', JNull),
          (''parameters_count'', JInt 0), (''responses_count'', JInt 0),
          (''security'', JNull)]]"
proof -
  let ?d = "[(''basePath'', JStr ''/v1''), (''schemes'', JList [JStr ''http'']),
             (''paths'', JDict [(''/pets'', JDict [(''get'', JDict [])])])]"
  let ?rows = "[[(''api_group'', JNull), (''tags'', JNull),
          (''operationId'', JNull), (''summary'', JNull),
          (''description'', JNull), (''deprecated'', JBool False),
          (''method'', JStr ''GET''), (''path'', JStr ''/pets''),
          (''full_url_template'', JNull),
          (''consumes'', JNull), (''produces'', JNull),
          (''parameters_count'', JInt 0), (''responses_count'', JInt 0),
          (''security'', JNull)]]"
  have h: "extract_endpoints ?d = Inr ?rows \<and> map_of ?d ''host'' = None"
    by code_simp
  have t1: "\<not> truthy JNull" and t2: "truthy (JStr ''api.example.com'')" and t3: "\<not> truthy (JList [])"
    by simp_all
  note c = full_url_template_contract
  have e1: "py_str (JStr ''http'') @ ''://'' @ py_str (JStr ''api.example.com'')
              @ py_str (or_else (JStr ''/v1'') (JStr [])) @ py_str (JStr ''/pets'')
            = ''http://api.example.com/v1/pets''"
    by code_simp
  have e2: "''https'' @ ''://'' @ py_str (JStr ''api.example.com'')
              @ py_str (or_else JNull (JStr [])) @ py_str (JStr ''/pets'')
            = ''https://api.example.com/pets''"
    by code_simp
  from c [of JNull "JList []" "JStr ''/v1''" "JStr ''/pets''"] t1
  have 1: "build_full_url_template (JList []) JNull (JStr ''/v1'') (JStr ''/pets'') = Inr JNull"
    by blast
  from c [of "JStr ''api.example.com''" _ "JStr ''/v1''" "JStr ''/pets''" "JStr ''http''" "[]"] t2 e1
  have 2: "build_full_url_template (JList [JStr ''http'']) (JStr ''api.example.com'') (JStr ''/v1'') (JStr ''/pets'')
       = Inr (JStr ''http://api.example.com/v1/pets'')"
    by metis
  from c [of "JStr ''api.example.com''" "JList []" JNull "JStr ''/pets''"] t2 t3 e2
  have 3: "build_full_url_template (JList []) (JStr ''api.example.com'') JNull (JStr ''/pets'')
       = Inr (JStr ''https://api.example.com/pets'')"
    by metis
  from c [of _ _ _ _ _ _ ?d ?rows] h
  have 4: "list_all (\<lambda>r. cell r ''full_url_template'' = JNull) ?rows"
    by blast
  from 1 2 3 4 show ?thesis by blast
qed

section \<open>Security requirements\<close>

lemma csv_row_cells:
  assumes "csv_row path path_params method opd = Inr r"
  shows "cell r ''Auth (security)'' =
           JStr (if truthy (dict_get opd ''security'' (JList []))
                 then json_dumps (dict_get opd ''security'' (JList [])) else [])"
    and "cell r ''Path'' = JStr path"
    and "cell r ''Method'' = JStr (upper method)"
    and "cell r ''API Group (tags)'' = JStr (join_tags (or_else (dict_get opd ''tags'' JNull) (JList [])))"
  using assms
  by (auto simp: csv_row_def Let_def bind_eq_Inr cell_def dict_get_def)

lemma security_column_empty: "security_column (JList []) = Inr JNull"
  by (simp add: security_column_def security_flat_def or_else_def join_or_none_def)

text \<open>
  C3, as stated, fails in the single-sheet exporter: for an operation that declares no
  \<open>security\<close> key, its \<open>Auth (security)\<close> column is empty although the document
  declares a default, whose rendering there is not empty. The workbook exporter
  renders the default for the same document.
\<close>

theorem security_default_ignored_by_csv:
  "column ''Auth (security)''
     (csv_main [(''security'', JList [JDict [(''api_key'', JList [])]]),
                (''paths'', JDict [(''/pets'', JDict [(''get'', JDict [])])])])
   = [JStr []]
   \<and> (if truthy (JList [JDict [(''api_key'', JList [])]])
       then json_dumps (JList [JDict [(''api_key'', JList [])]]) else [])
     = ''[{'' @ [CHR 0x22] @ ''api_key'' @ [CHR 0x22] @ '': []}]''
   \<and> column ''security''
     (extract_endpoints [(''security'', JList [JDict [(''api_key'', JList [])]]),
                (''paths'', JDict [(''/pets'', JDict [(''get'', JDict [])])])])
   = [JStr ''api_key'']"
  by code_simp

text \<open>
  C3 (amended). In the endpoints relation of the workbook exporter, for every operation:
  when the operation declares a \<open>security\<close> key, the \<open>security\<close> column is the
  rendering of the operation's value alone (an empty list renders as null); when it
  declares none, the column is the rendering of the document-level default; the two
  are never merged. In the single-sheet exporter the \<open>Auth (security)\<close> column is
  rendered from the operation's value alone, and is empty when the operation declares
  no \<open>security\<close> key: the document-level default is not read.
\<close>

theorem security_override:
  "(extract_endpoints sw = Inr rows \<longrightarrow>
      list_all2 (\<lambda>(path, item, method, opd) r.
          (\<forall>v. map_of opd ''security'' = Some v \<longrightarrow> security_column v = Inr (cell r ''security''))
        \<and> (map_of opd ''security'' = Some (JList []) \<longrightarrow> cell r ''security'' = JNull)
        \<and> (map_of opd ''security'' = None \<longrightarrow>
             security_column (dict_get sw ''security'' (JList [])) = Inr (cell r ''security'')))
        (operations_of sw) rows)
   \<and> (csv_unsorted spec = Inr crows \<longrightarrow>
      list_all2 (\<lambda>(path, item, method, opd) r.
          (\<forall>v. map_of opd ''security'' = Some v \<longrightarrow>
             cell r ''Auth (security)'' = JStr (if truthy v then json_dumps v else []))
        \<and> (map_of opd ''security'' = None \<longrightarrow> cell r ''Auth (security)'' = JStr []))
        (operations HTTP_METHODS (paths_of spec)) crows)"
proof (intro conjI impI)
  assume a: "extract_endpoints sw = Inr rows"
  show "list_all2 (\<lambda>(path, item, method, opd) r.
          (\<forall>v. map_of opd ''security'' = Some v \<longrightarrow> security_column v = Inr (cell r ''security''))
        \<and> (map_of opd ''security'' = Some (JList []) \<longrightarrow> cell r ''security'' = JNull)
        \<and> (map_of opd ''security'' = None \<longrightarrow>
             security_column (dict_get sw ''security'' (JList [])) = Inr (cell r ''security'')))
        (operations_of sw) rows"
  proof (rule list_all2_ops_mono [OF extract_endpoints_rows [OF a]])
    fix path :: string and item :: dict and verb :: string and opd :: dict and r :: row
    assume "endpoint_row sw path (dict_get item ''parameters'' (JList [])) verb opd = Inr r"
    from endpoint_row_cells(5) [OF this]
    have s: "security_column (dict_get opd ''security'' (dict_get sw ''security'' (JList [])))
               = Inr (cell r ''security'')"
      by (auto simp: security_column_def)
    show "(\<forall>v. map_of opd ''security'' = Some v \<longrightarrow> security_column v = Inr (cell r ''security''))
        \<and> (map_of opd ''security'' = Some (JList []) \<longrightarrow> cell r ''security'' = JNull)
        \<and> (map_of opd ''security'' = None \<longrightarrow>
             security_column (dict_get sw ''security'' (JList [])) = Inr (cell r ''security''))"
      using s security_column_empty by (auto simp: dict_get_def)
  qed
next
  assume a: "csv_unsorted spec = Inr crows"
  show "list_all2 (\<lambda>(path, item, method, opd) r.
          (\<forall>v. map_of opd ''security'' = Some v \<longrightarrow>
             cell r ''Auth (security)'' = JStr (if truthy v then json_dumps v else []))
        \<and> (map_of opd ''security'' = None \<longrightarrow> cell r ''Auth (security)'' = JStr []))
        (operations HTTP_METHODS (paths_of spec)) crows"
  proof (rule list_all2_ops_mono [OF csv_unsorted_rows [OF a]])
    fix path :: string and item :: dict and verb :: string and opd :: dict and r :: row
    assume "csv_row path (case dict_get item ''parameters'' JNull of JList l \<Rightarrow> JList l | _ \<Rightarrow> JList [])
              verb opd = Inr r"
    from csv_row_cells(1) [OF this]
    show "(\<forall>v. map_of opd ''security'' = Some v \<longrightarrow>
             cell r ''Auth (security)'' = JStr (if truthy v then json_dumps v else []))
        \<and> (map_of opd ''security'' = None \<longrightarrow> cell r ''Auth (security)'' = JStr [])"
      by (auto simp: dict_get_def)
  qed
qed

theorem security_override_witness:
  "column ''security'' (extract_endpoints
     [(''security'', JList [JDict [(''api_key'', JList [])]]),
     (''paths'', JDict [(''/pets'', JDict [(''get'', JDict [(''security'', JList [])]),
                                            (''post'', JDict [])])])])
   = [JNull, JStr ''api_key'']
   \<and> security_column (JList [JDict [(''api_key'', JList [])]]) = Inr (JStr ''api_key'')
   \<and> column ''Auth (security)'' (csv_unsorted
     [(''security'', JList [JDict [(''api_key'', JList [])]]),
     (''paths'', JDict [(''/pets'', JDict [(''get'', JDict [(''security'', JList [])]),
                                            (''post'', JDict [])])])])
   = [JStr [], JStr []]"
proof -
  let ?d = "[(''security'', JList [JDict [(''api_key'', JList [])]]),
     (''paths'', JDict [(''/pets'', JDict [(''get'', JDict [(''security'', JList [])]),
                                            (''post'', JDict [])])])]"
  let ?rows = "[[(''api_group'', JNull), (''tags'', JNull), (''operationId'', JNull),
       (''summary'', JNull), (''description'', JNull),
       (''deprecated'', JBool False), (''method'', JStr ''GET''),
       (''path'', JStr ''/pets''), (''full_url_template'', JNull),
       (''consumes'', JNull), (''produces'', JNull),
       (''parameters_count'', JInt 0), (''responses_count'', JInt 0),
       (''security'', JNull)],
      [(''api_group'', JNull), (''tags'', JNull), (''operationId'', JNull),
       (''summary'', JNull), (''description'', JNull),
       (''deprecated'', JBool False), (''method'', JStr ''POST''),
       (''path'', JStr ''/pets''), (''full_url_template'', JNull),
       (''consumes'', JNull), (''produces'', JNull),
       (''parameters_count'', JInt 0), (''responses_count'', JInt 0),
       (''security'', JStr ''api_key'')]]"
  let ?crows = "[[(''API Group (tags)'', JStr []), (''Method'', JStr ''GET''),
       (''Path'', JStr ''/pets''), (''Summary'', JStr []),
       (''Description'', JStr []), (''OperationId'', JStr []),
       (''Deprecated'', JStr ''false''), (''Auth (security)'', JStr []),
       (''Parameters'', JStr []), (''RequestBody'', JStr []),
       (''Responses'', JStr [])],
      [(''API Group (tags)'', JStr []), (''Method'', JStr ''POST''),
       (''Path'', JStr ''/pets''), (''Summary'', JStr []),
       (''Description'', JStr []), (''OperationId'', JStr []),
       (''Deprecated'', JStr ''false''), (''Auth (security)'', JStr []),
       (''Parameters'', JStr []), (''RequestBody'', JStr []),
       (''Responses'', JStr [])]]"
  let ?ops = "[(''/pets'',
   [(''get'', JDict [(''security'', JList [])]), (''post'', JDict [])],
   ''get'', [(''security'', JList [])]),
  (''/pets'',
   [(''get'', JDict [(''security'', JList [])]), (''post'', JDict [])],
   ''post'', [])]"
  have h: "extract_endpoints ?d = Inr ?rows"
    by code_simp
  have hc: "csv_unsorted ?d = Inr ?crows"
    by code_simp
  have o: "operations_of ?d = ?ops"
    by code_simp
  have oc: "operations HTTP_METHODS (paths_of ?d) = ?ops"
    by code_simp
  note t = security_override [of ?d ?rows ?d ?crows]
  from t h have "list_all2 (\<lambda>(path, item, method, opd) r.
          (\<forall>v. map_of opd ''security'' = Some v \<longrightarrow> security_column v = Inr (cell r ''security''))
        \<and> (map_of opd ''security'' = Some (JList []) \<longrightarrow> cell r ''security'' = JNull)
        \<and> (map_of opd ''security'' = None \<longrightarrow>
             security_column (dict_get ?d ''security'' (JList [])) = Inr (cell r ''security'')))
        (operations_of ?d) ?rows"
    by blast
  then have 1: "security_column (JList [JDict [(''api_key'', JList [])]]) = Inr (JStr ''api_key'')"
    by (simp add: o cell_def dict_get_def)
  from t hc have "list_all2 (\<lambda>(path, item, method, opd) r.
          (\<forall>v. map_of opd ''security'' = Some v \<longrightarrow>
             cell r ''Auth (security)'' = JStr (if truthy v then json_dumps v else []))
        \<and> (map_of opd ''security'' = None \<longrightarrow> cell r ''Auth (security)'' = JStr []))
        (operations HTTP_METHODS (paths_of ?d)) ?crows"
    by blast
  then have 2: "column ''Auth (security)'' (Inr ?crows) = [JStr [], JStr []]"
    by (simp add: oc column_def cell_def)
  have 3: "column ''security'' (Inr ?rows) = [JNull, JStr ''api_key'']"
    by (simp add: column_def dict_get_def)
  from 1 2 3 show ?thesis
    by (simp only: h hc)
qed

section \<open>Rows and the operations they come from\<close>

lemma list_all2_map_eq:
  assumes "list_all2 P xs ys" and "\<And>x y. P x y \<Longrightarrow> f y = g x"
  shows "map f ys = map g xs"
  using assms(1) by (induction rule: list_all2_induct) (auto dest: assms(2))

lemma list_all2_same_left:
  assumes "list_all2 P xs ys" and "list_all2 Q xs zs"
  shows "list_all2 (\<lambda>y z. \<exists>x. P x y \<and> Q x z) ys zs"
  using assms
proof (induction arbitrary: zs rule: list_all2_induct)
  case Nil
  then show ?case by simp
next
  case (Cons x xs y ys)
  then show ?case by (auto simp: list_all2_Cons1)
qed

lemma distinct_filter_eq_one:
  "distinct xs \<Longrightarrow> x \<in> set xs \<Longrightarrow> length (filter (\<lambda>y. y = x) xs) = 1"
  by (induction xs) (auto simp: filter_empty_conv)

lemma filter_concat_blocks:
  assumes "list_all2 (\<lambda>k rs. \<forall>r\<in>set rs. key r = k) ks blocks" and "distinct ks"
  shows "list_all2 (\<lambda>k rs. filter (\<lambda>r. key r = k) (concat blocks) = rs) ks blocks"
  using assms
proof (induction rule: list_all2_induct)
  case Nil
  then show ?case by simp
next
  case (Cons k ks rs blocks)
  have keys: "\<forall>r\<in>set (concat blocks). key r \<in> set ks"
    using Cons.hyps(2) by (induction rule: list_all2_induct) auto
  have k: "k \<notin> set ks" and d: "distinct ks"
    using Cons.prems by simp_all
  have head: "filter (\<lambda>r. key r = k) (rs @ concat blocks) = rs"
  proof -
    have "filter (\<lambda>r. key r = k) rs = rs"
      using Cons.hyps(1) by (simp add: filter_id_conv)
    moreover have "filter (\<lambda>r. key r = k) (concat blocks) = []"
      using keys k by (auto simp: filter_empty_conv)
    ultimately show ?thesis by simp
  qed
  have ih: "list_all2 (\<lambda>k rs. filter (\<lambda>r. key r = k) (concat blocks) = rs) ks blocks"
    using Cons.IH d by simp
  have tail: "list_all2 (\<lambda>k' rs'. filter (\<lambda>r. key r = k') (rs @ concat blocks) = rs') ks blocks"
    unfolding list_all2_conv_all_nth
  proof (intro conjI allI impI)
    show "length ks = length blocks"
      using ih by (simp add: list_all2_lengthD)
  next
    fix i assume i: "i < length ks"
    then have "ks ! i \<noteq> k"
      using k by (metis nth_mem)
    then have "filter (\<lambda>r. key r = ks ! i) rs = []"
      using Cons.hyps(1) by (auto simp: filter_empty_conv)
    moreover have "filter (\<lambda>r. key r = ks ! i) (concat blocks) = blocks ! i"
      using ih i by (simp add: list_all2_conv_all_nth)
    ultimately show "filter (\<lambda>r. key r = ks ! i) (rs @ concat blocks) = blocks ! i"
      by simp
  qed
  show ?case
    using head tail by simp
qed

lemma py_len_iter: "py_len v = Inr n \<Longrightarrow> n = length (items_of v)"
  by (cases v) (auto simp: items_of_def)

lemma py_iter_items_of: "py_iter v = Inr xs \<Longrightarrow> items_of v = xs"
  by (simp add: items_of_def)

lemma parameter_row_cells:
  assumes "parameter_row api_group operation_id verb path p = Inr r"
  shows "cell r ''path'' = JStr path"
    and "cell r ''method'' = JStr (upper verb)"
    and "\<exists>pd. p = JDict pd \<and> cell r ''name'' = dict_get pd ''name'' JNull"
    and "cell r ''api_group'' = api_group"
  using assms
  by (auto simp: parameter_row_def Let_def bind_eq_Inr cell_def dict_get_def split: json.splits)

lemma parameter_rows_items:
  assumes "parameter_rows path plp verb opd = Inr rs"
  shows "\<exists>g. first_tag (dict_get opd ''tags'' (JList [])) = Inr g \<and>
           list_all2 (\<lambda>p r. parameter_row g (dict_get opd ''operationId'' JNull) verb path p = Inr r)
             (items_of plp @ items_of (dict_get opd ''parameters'' (JList []))) rs"
  using assms
  by (auto simp: parameter_rows_def Let_def bind_eq_Inr for_each_single_Inr_iff py_iter_items_of)

lemma parameter_rows_length:
  assumes "parameter_rows path plp verb opd = Inr rs"
  shows "length rs = length (items_of plp) + length (items_of (dict_get opd ''parameters'' (JList [])))"
  using parameter_rows_items [OF assms] by (auto dest: list_all2_lengthD)

lemma parameter_rows_keys:
  assumes "parameter_rows path plp verb opd = Inr rs" and "r \<in> set rs"
  shows "row_key r = (JStr path, JStr (upper verb))"
proof -
  from parameter_rows_items [OF assms(1)] obtain g where
    l: "list_all2 (\<lambda>p r. parameter_row g (dict_get opd ''operationId'' JNull) verb path p = Inr r)
           (items_of plp @ items_of (dict_get opd ''parameters'' (JList []))) rs"
    by blast
  from l assms(2) obtain p where "parameter_row g (dict_get opd ''operationId'' JNull) verb path p = Inr r"
    by (auto simp: list_all2_conv_all_nth in_set_conv_nth)
  then show ?thesis
    by (simp add: row_key_def parameter_row_cells)
qed


lemma endpoint_row_key:
  assumes "endpoint_row sw path plp verb opd = Inr e"
  shows "row_key e = (JStr path, JStr (upper verb))"
  using endpoint_row_cells(2,3) [OF assms] by (simp add: row_key_def)

lemma endpoint_row_count:
  assumes "endpoint_row sw path plp verb opd = Inr e"
  shows "cell e ''parameters_count'' =
           JInt (int (length (items_of (dict_get opd ''parameters'' (JList []))) + length (items_of plp)))"
  using endpoint_row_cells(6) [OF assms] by (auto dest: py_len_iter)

lemma endpoints_keys:
  assumes "extract_endpoints sw = Inr es"
  shows "map row_key es = map op_key (operations_of sw)"
  by (rule list_all2_map_eq [OF extract_endpoints_rows [OF assms]])
     (auto simp: op_key_def dest: endpoint_row_key)

lemma parameters_blocks:
  assumes "extract_parameters sw = Inr ps"
  shows "\<exists>blocks. ps = concat blocks
           \<and> list_all2 (\<lambda>(path, item, verb, opd) rs.
                 parameter_rows path (dict_get item ''parameters'' (JList [])) verb opd = Inr rs)
               (operations_of sw) blocks"
  using extract_parameters_rows [OF assms] by blast

lemma response_row_cells:
  assumes "response_row api_group operation_id verb path code resp = Inr rs" and "r \<in> set rs"
  shows "cell r ''path'' = JStr path" and "cell r ''method'' = JStr (upper verb)"
    and "cell r ''status_code'' = JStr code"
  using assms
  by (auto simp: response_row_def Let_def bind_eq_Inr cell_def dict_get_def split: json.splits)

lemma response_rows_keys:
  assumes "response_rows path verb opd = Inr rs" and "r \<in> set rs"
  shows "row_key r = (JStr path, JStr (upper verb))"
proof -
  from assms(1) obtain g entries rss where
    l: "list_all2 (\<lambda>x rs.
           response_row g (dict_get opd ''operationId'' JNull) verb path (fst x) (snd x) = Inr rs) entries rss"
    and c: "rs = concat rss"
    by (auto simp: response_rows_def Let_def bind_eq_Inr for_each_Inr_iff case_prod_unfold)
  from c assms(2) obtain b where b: "b \<in> set rss" "r \<in> set b"
    by auto
  from b(1) obtain i where i: "i < length rss" "b = rss ! i"
    by (auto simp: in_set_conv_nth)
  with l have "response_row g (dict_get opd ''operationId'' JNull) verb path
                 (fst (entries ! i)) (snd (entries ! i)) = Inr b"
    by (simp add: list_all2_conv_all_nth)
  from response_row_cells(1,2) [OF this b(2)] show ?thesis
    by (simp add: row_key_def)
qed

lemma blocks_keys:
  assumes "list_all2 (\<lambda>(path, item, verb, opd) rs. f path item verb opd = Inr rs) ops blocks"
    and "\<And>path item verb opd rs r. f path item verb opd = Inr rs \<Longrightarrow> r \<in> set rs
           \<Longrightarrow> row_key r = (JStr path, JStr (upper verb))"
  shows "list_all2 (\<lambda>k rs. \<forall>r\<in>set rs. row_key r = k) (map op_key ops) blocks"
  using assms(1)
  by (induction rule: list_all2_induct) (auto simp: op_key_def dest: assms(2))

lemma blocks_keys_member:
  assumes "list_all2 (\<lambda>k rs. \<forall>r\<in>set rs. row_key r = k) ks blocks" and "r \<in> set (concat blocks)"
  shows "row_key r \<in> set ks"
  using assms by (induction rule: list_all2_induct) auto

lemma parameters_blocks_keys:
  assumes "list_all2 (\<lambda>(path, item, verb, opd) rs.
                 parameter_rows path (dict_get item ''parameters'' (JList [])) verb opd = Inr rs)
               ops blocks"
  shows "list_all2 (\<lambda>k rs. \<forall>r\<in>set rs. row_key r = k) (map op_key ops) blocks"
  by (rule blocks_keys [OF assms]) (rule parameter_rows_keys)

lemma responses_blocks_keys:
  assumes "list_all2 (\<lambda>(path, item, verb, opd) rs. response_rows path verb opd = Inr rs) ops blocks"
  shows "list_all2 (\<lambda>k rs. \<forall>r\<in>set rs. row_key r = k) (map op_key ops) blocks"
  by (rule blocks_keys [OF assms]) (rule response_rows_keys)

lemma responses_blocks:
  assumes "extract_responses sw = Inr rs"
  shows "\<exists>blocks. rs = concat blocks
           \<and> list_all2 (\<lambda>(path, item, verb, opd) rs. response_rows path verb opd = Inr rs)
               (operations_of sw) blocks"
  using extract_responses_rows [OF assms] by blast

lemma filter_key_length:
  "length (filter (\<lambda>e. f e = k) es) = length (filter (\<lambda>k'. k' = k) (map f es))"
  by (induction es) simp_all

section \<open>Parameter counts\<close>

text \<open>
  C2, as stated, fails: a path-level parameter that the operation declares again is
  counted twice in \<open>parameters_count\<close> and has two rows in the parameters relation;
  the merger of the single-sheet exporter keeps one entry for the two.
\<close>

theorem parameters_count_not_deduplicated:
  "column ''parameters_count'' (extract_endpoints
     [(''paths'', JDict [(''/pets/{id}'', JDict
        [(''parameters'', JList [JDict [(''name'', JStr ''id''), (''in'', JStr ''path''), (''required'', JBool True), (''type'', JStr ''string'')]]),
         (''get'', JDict [(''parameters'', JList [JDict [(''name'', JStr ''id''), (''in'', JStr ''path''), (''required'', JBool True), (''type'', JStr ''string'')]])])])])])
   = [JInt 2]
   \<and> column ''name'' (extract_parameters
     [(''paths'', JDict [(''/pets/{id}'', JDict
        [(''parameters'', JList [JDict [(''name'', JStr ''id''), (''in'', JStr ''path''), (''required'', JBool True), (''type'', JStr ''string'')]]),
         (''get'', JDict [(''parameters'', JList [JDict [(''name'', JStr ''id''), (''in'', JStr ''path''), (''required'', JBool True), (''type'', JStr ''string'')]])])])])])
   = [JStr ''id'', JStr ''id'']
   \<and> merged_params (JList [JDict [(''name'', JStr ''id''), (''in'', JStr ''path''), (''required'', JBool True), (''type'', JStr ''string'')]])
        (JList [JDict [(''name'', JStr ''id''), (''in'', JStr ''path''), (''required'', JBool True), (''type'', JStr ''string'')]])
   = Inr [''id (path)* : string'']"
  by code_simp

text \<open>
  C2 (amended). For every operation, the \<open>parameters_count\<close> of its endpoints row
  equals the number of rows the parameter extractor emits for that operation: the
  number of path-level parameters plus the number of operation-level parameters,
  duplicates included, since nothing is de-duplicated. Those rows all carry the
  operation's path and method; so when no two operations of the document have the
  same path and upper-cased method, \<open>parameters_count\<close> equals the number of
  parameter rows with that (path, method) pair.
\<close>

theorem parameters_count_rows:
  assumes "extract_endpoints sw = Inr es" and "extract_parameters sw = Inr ps"
  shows "(\<exists>blocks. ps = concat blocks
            \<and> list_all2 (\<lambda>e rs. cell e ''parameters_count'' = JInt (int (length rs))
                                  \<and> list_all (\<lambda>r. row_key r = row_key e) rs) es blocks
            \<and> list_all2 (\<lambda>(path, item, verb, opd) rs.
                  length rs = length (items_of (dict_get item ''parameters'' (JList [])))
                            + length (items_of (dict_get opd ''parameters'' (JList []))))
                (operations_of sw) blocks)
       \<and> (distinct (map op_key (operations_of sw)) \<longrightarrow>
            list_all (\<lambda>e. cell e ''parameters_count''
                           = JInt (int (length (filter (\<lambda>r. row_key r = row_key e) ps)))) es)"
proof -
  let ?ops = "operations_of sw"
  note E = extract_endpoints_rows [OF assms(1)]
  from parameters_blocks [OF assms(2)] obtain blocks where
    c: "ps = concat blocks" and
    P: "list_all2 (\<lambda>(path, item, verb, opd) rs.
          parameter_rows path (dict_get item ''parameters'' (JList [])) verb opd = Inr rs) ?ops blocks"
    by blast
  have len: "length es = length ?ops" "length blocks = length ?ops"
    using list_all2_lengthD [OF E] list_all2_lengthD [OF P] by simp_all
  have pair: "cell (es ! i) ''parameters_count'' = JInt (int (length (blocks ! i)))
            \<and> list_all (\<lambda>r. row_key r = row_key (es ! i)) (blocks ! i)
            \<and> (case ?ops ! i of (path, item, verb, opd) \<Rightarrow>
                  length (blocks ! i) = length (items_of (dict_get item ''parameters'' (JList [])))
                            + length (items_of (dict_get opd ''parameters'' (JList []))))"
    if i: "i < length ?ops" for i
  proof -
    obtain path item verb opd where o: "?ops ! i = (path, item, verb, opd)"
      by (cases "?ops ! i")
    have e: "endpoint_row sw path (dict_get item ''parameters'' (JList [])) verb opd = Inr (es ! i)"
      using E i o by (auto simp: list_all2_conv_all_nth)
    have p: "parameter_rows path (dict_get item ''parameters'' (JList [])) verb opd = Inr (blocks ! i)"
      using P i o by (auto simp: list_all2_conv_all_nth)
    have "list_all (\<lambda>r. row_key r = row_key (es ! i)) (blocks ! i)"
      using parameter_rows_keys [OF p] endpoint_row_key [OF e] by (simp add: list_all_iff)
    then show ?thesis
      using endpoint_row_count [OF e] parameter_rows_length [OF p] by (simp add: o)
  qed
  have first: "list_all2 (\<lambda>e rs. cell e ''parameters_count'' = JInt (int (length rs))
                                  \<and> list_all (\<lambda>r. row_key r = row_key e) rs) es blocks"
    using pair len by (simp add: list_all2_conv_all_nth)
  have second: "list_all2 (\<lambda>(path, item, verb, opd) rs.
                  length rs = length (items_of (dict_get item ''parameters'' (JList [])))
                            + length (items_of (dict_get opd ''parameters'' (JList []))))
                ?ops blocks"
    using pair len by (simp add: list_all2_conv_all_nth case_prod_unfold)
  have third: "list_all (\<lambda>e. cell e ''parameters_count''
                           = JInt (int (length (filter (\<lambda>r. row_key r = row_key e) ps)))) es"
    if d: "distinct (map op_key ?ops)"
  proof -
    have f: "list_all2 (\<lambda>k rs. filter (\<lambda>r. row_key r = k) (concat blocks) = rs) (map op_key ?ops) blocks"
      by (rule filter_concat_blocks [OF parameters_blocks_keys [OF P] d])
    have k: "map row_key es = map op_key ?ops"
      by (rule endpoints_keys [OF assms(1)])
    show ?thesis
      unfolding list_all_length
    proof (intro allI impI)
      fix i assume i: "i < length es"
      then have "row_key (es ! i) = map op_key ?ops ! i"
        using k by (metis nth_map)
      moreover have "filter (\<lambda>r. row_key r = map op_key ?ops ! i) (concat blocks) = blocks ! i"
        using f i len by (simp add: list_all2_conv_all_nth)
      ultimately show "cell (es ! i) ''parameters_count''
                           = JInt (int (length (filter (\<lambda>r. row_key r = row_key (es ! i)) ps)))"
        using pair i len c by simp
    qed
  qed
  from c first second third show ?thesis
    by blast
qed

theorem parameters_count_rows_witness:
  "extract_endpoints
     [(''paths'', JDict [(''/pets/{id}'', JDict
        [(''parameters'', JList [JDict [(''name'', JStr ''id''), (''in'', JStr ''path''), (''required'', JBool True), (''type'', JStr ''string'')]]),
         (''get'', JDict [(''parameters'', JList [JDict [(''name'', JStr ''id''), (''in'', JStr ''path''), (''required'', JBool True), (''type'', JStr ''string'')]])])])])]
   = Inr [[(''api_group'', JNull), (''tags'', JNull), (''operationId'', JNull),
       (''summary'', JNull), (''description'', JNull),
       (''deprecated'', JBool False), (''method'', JStr ''GET''),
       (''path'', JStr ''/pets/{id}''), (''full_url_template'', JNull),
       (''consumes'', JNull), (''produces'', JNull),
       (''parameters_count'', JInt 2), (''responses_count'', JInt 0),
       (''security'', JNull)]]
   \<and> extract_parameters
     [(''paths'', JDict [(''/pets/{id}'', JDict
        [(''parameters'', JList [JDict [(''name'', JStr ''id''), (''in'', JStr ''path''), (''required'', JBool True), (''type'', JStr ''string'')]]),
         (''get'', JDict [(''parameters'', JList [JDict [(''name'', JStr ''id''), (''in'', JStr ''path''), (''required'', JBool True), (''type'', JStr ''string'')]])])])])]
   = Inr [[(''api_group'', JNull), (''operationId'', JNull),
       (''method'', JStr ''GET''), (''path'', JStr ''/pets/{id}''),
       (''name'', JStr ''id''), (''in'', JStr ''path''),
       (''description'', JNull), (''required'', JBool True),
       (''type'', JStr ''string''), (''format'', JNull),
       (''collectionFormat'', JNull), (''items_type'', JNull),
       (''items_format'', JNull), (''enum'', JNull), (''$ref'', JNull),
       (''schema_type'', JNull)],
      [(''api_group'', JNull), (''operationId'', JNull),
       (''method'', JStr ''GET''), (''path'', JStr ''/pets/{id}''),
       (''name'', JStr ''id''), (''in'', JStr ''path''),
       (''description'', JNull), (''required'', JBool True),
       (''type'', JStr ''string''), (''format'', JNull),
       (''collectionFormat'', JNull), (''items_type'', JNull),
       (''items_format'', JNull), (''enum'', JNull), (''$ref'', JNull),
       (''schema_type'', JNull)]]
   \<and> distinct (map op_key (operations_of
     [(''paths'', JDict [(''/pets/{id}'', JDict
        [(''parameters'', JList [JDict [(''name'', JStr ''id''), (''in'', JStr ''path''), (''required'', JBool True), (''type'', JStr ''string'')]]),
         (''get'', JDict [(''parameters'', JList [JDict [(''name'', JStr ''id''), (''in'', JStr ''path''), (''required'', JBool True), (''type'', JStr ''string'')]])])])])]))
   \<and> list_all (\<lambda>e. cell e ''parameters_count''
                    = JInt (int (length (filter (\<lambda>r. row_key r = row_key e)
     [[(''api_group'', JNull), (''operationId'', JNull),
       (''method'', JStr ''GET''), (''path'', JStr ''/pets/{id}''),
       (''name'', JStr ''id''), (''in'', JStr ''path''),
       (''description'', JNull), (''required'', JBool True),
       (''type'', JStr ''string''), (''format'', JNull),
       (''collectionFormat'', JNull), (''items_type'', JNull),
       (''items_format'', JNull), (''enum'', JNull), (''$ref'', JNull),
       (''schema_type'', JNull)],
      [(''api_group'', JNull), (''operationId'', JNull),
       (''method'', JStr ''GET''), (''path'', JStr ''/pets/{id}''),
       (''name'', JStr ''id''), (''in'', JStr ''path''),
       (''description'', JNull), (''required'', JBool True),
       (''type'', JStr ''string''), (''format'', JNull),
       (''collectionFormat'', JNull), (''items_type'', JNull),
       (''items_format'', JNull), (''enum'', JNull), (''$ref'', JNull),
       (''schema_type'', JNull)]]))))
     [[(''api_group'', JNull), (''tags'', JNull), (''operationId'', JNull),
       (''summary'', JNull), (''description'', JNull),
       (''deprecated'', JBool False), (''method'', JStr ''GET''),
       (''path'', JStr ''/pets/{id}''), (''full_url_template'', JNull),
       (''consumes'', JNull), (''produces'', JNull),
       (''parameters_count'', JInt 2), (''responses_count'', JInt 0),
       (''security'', JNull)]]"
proof -
  let ?d = "[(''paths'', JDict [(''/pets/{id}'', JDict
        [(''parameters'', JList [JDict [(''name'', JStr ''id''), (''in'', JStr ''path''), (''required'', JBool True), (''type'', JStr ''string'')]]),
         (''get'', JDict [(''parameters'', JList [JDict [(''name'', JStr ''id''), (''in'', JStr ''path''), (''required'', JBool True), (''type'', JStr ''string'')]])])])])]"
  let ?es = "[[(''api_group'', JNull), (''tags'', JNull), (''operationId'', JNull),
       (''summary'', JNull), (''description'', JNull),
       (''deprecated'', JBool False), (''method'', JStr ''GET''),
       (''path'', JStr ''/pets/{id}''), (''full_url_template'', JNull),
       (''consumes'', JNull), (''produces'', JNull),
       (''parameters_count'', JInt 2), (''responses_count'', JInt 0),
       (''security'', JNull)]]"
  let ?ps = "[[(''api_group'', JNull), (''operationId'', JNull),
       (''method'', JStr ''GET''), (''path'', JStr ''/pets/{id}''),
       (''name'', JStr ''id''), (''in'', JStr ''path''),
       (''description'', JNull), (''required'', JBool True),
       (''type'', JStr ''string''), (''format'', JNull),
       (''collectionFormat'', JNull), (''items_type'', JNull),
       (''items_format'', JNull), (''enum'', JNull), (''$ref'', JNull),
       (''schema_type'', JNull)],
      [(''api_group'', JNull), (''operationId'', JNull),
       (''method'', JStr ''GET''), (''path'', JStr ''/pets/{id}''),
       (''name'', JStr ''id''), (''in'', JStr ''path''),
       (''description'', JNull), (''required'', JBool True),
       (''type'', JStr ''string''), (''format'', JNull),
       (''collectionFormat'', JNull), (''items_type'', JNull),
       (''items_format'', JNull), (''enum'', JNull), (''$ref'', JNull),
       (''schema_type'', JNull)]]"
  have h1: "extract_endpoints ?d = Inr ?es"
    by code_simp
  have h2: "extract_parameters ?d = Inr ?ps"
    by code_simp
  have d: "distinct (map op_key (operations_of ?d))"
    by code_simp
  from parameters_count_rows [OF h1 h2] d
  have "list_all (\<lambda>e. cell e ''parameters_count''
                    = JInt (int (length (filter (\<lambda>r. row_key r = row_key e) ?ps)))) ?es"
    by blast
  with h1 h2 d show ?thesis
    by (simp only:) 
qed

section \<open>Referential integrity\<close>

text \<open>
  C10, as stated, fails: the keys \<open>get\<close> and \<open>GET\<close> of one path item are two
  operations, and both endpoints rows show the method \<open>GET\<close>; the row of the
  parameter extractor for that path and method then has two endpoints rows with its
  (path, method) pair, not exactly one.
\<close>

theorem two_endpoints_one_key:
  "column ''path'' (extract_endpoints
     [(''paths'', JDict [(''/a'', JDict
        [(''get'', JDict [(''parameters'', JList [JDict [(''name'', JStr ''x'')]]),
                          (''responses'', JDict [(''200'', JDict [])])]),
         (''GET'', JDict [])])])])
   = [JStr ''/a'', JStr ''/a'']
   \<and> column ''method'' (extract_endpoints
     [(''paths'', JDict [(''/a'', JDict
        [(''get'', JDict [(''parameters'', JList [JDict [(''name'', JStr ''x'')]]),
                          (''responses'', JDict [(''200'', JDict [])])]),
         (''GET'', JDict [])])])])
   = [JStr ''GET'', JStr ''GET'']
   \<and> column ''path'' (extract_parameters
     [(''paths'', JDict [(''/a'', JDict
        [(''get'', JDict [(''parameters'', JList [JDict [(''name'', JStr ''x'')]]),
                          (''responses'', JDict [(''200'', JDict [])])]),
         (''GET'', JDict [])])])])
   = [JStr ''/a'']
   \<and> column ''method'' (extract_parameters
     [(''paths'', JDict [(''/a'', JDict
        [(''get'', JDict [(''parameters'', JList [JDict [(''name'', JStr ''x'')]]),
                          (''responses'', JDict [(''200'', JDict [])])]),
         (''GET'', JDict [])])])])
   = [JStr ''GET'']"
  by code_simp

text \<open>
  C10 (amended). The three extractors visit the same operations (a key that is a verb
  in lower case, with a dictionary as value): the endpoints rows are, in order, one
  per operation, and the parameter rows and the response rows fall into one block per
  operation, every row with the path and upper-cased method of its operation. So for
  every row of the parameter extractor and of the response extractor there is at least
  one endpoints row with the same (path, method) pair; there is exactly one when no
  two operations of the document have the same path and upper-cased method.
\<close>

theorem rows_have_endpoint:
  assumes "extract_endpoints sw = Inr es"
    and "extract_parameters sw = Inr ps"
    and "extract_responses sw = Inr rs"
  shows "list_all2 (\<lambda>operation e. row_key e = op_key operation) (operations_of sw) es
       \<and> (\<exists>blocks. ps = concat blocks \<and>
             list_all2 (\<lambda>operation b. list_all (\<lambda>r. row_key r = op_key operation) b)
               (operations_of sw) blocks)
       \<and> (\<exists>blocks. rs = concat blocks \<and>
             list_all2 (\<lambda>operation b. list_all (\<lambda>r. row_key r = op_key operation) b)
               (operations_of sw) blocks)
       \<and> list_all (\<lambda>r. \<exists>e\<in>set es. row_key e = row_key r) (ps @ rs)
       \<and> (distinct (map op_key (operations_of sw)) \<longrightarrow>
            list_all (\<lambda>r. length (filter (\<lambda>e. row_key e = row_key r) es) = 1) (ps @ rs))"
proof -
  have ops_e: "list_all2 (\<lambda>operation e. row_key e = op_key operation) (operations_of sw) es"
    by (rule list_all2_mono [OF extract_endpoints_rows [OF assms(1)]])
       (auto simp: op_key_def dest: endpoint_row_key)
  have ops_p: "\<exists>blocks. ps = concat blocks \<and>
             list_all2 (\<lambda>operation b. list_all (\<lambda>r. row_key r = op_key operation) b)
               (operations_of sw) blocks"
  proof -
    from parameters_blocks [OF assms(2)] obtain pb where
      pb: "ps = concat pb" "list_all2 (\<lambda>(path, item, verb, opd) rs.
          parameter_rows path (dict_get item ''parameters'' (JList [])) verb opd = Inr rs)
          (operations_of sw) pb"
      by blast
    from parameters_blocks_keys [OF pb(2)]
    have "list_all2 (\<lambda>operation b. list_all (\<lambda>r. row_key r = op_key operation) b)
               (operations_of sw) pb"
      by (simp add: list_all2_map1 list_all_iff)
    with pb(1) show ?thesis by blast
  qed
  have ops_r: "\<exists>blocks. rs = concat blocks \<and>
             list_all2 (\<lambda>operation b. list_all (\<lambda>r. row_key r = op_key operation) b)
               (operations_of sw) blocks"
  proof -
    from responses_blocks [OF assms(3)] obtain rb where
      rb: "rs = concat rb" "list_all2 (\<lambda>(path, item, verb, opd) rs.
          response_rows path verb opd = Inr rs) (operations_of sw) rb"
      by blast
    from responses_blocks_keys [OF rb(2)]
    have "list_all2 (\<lambda>operation b. list_all (\<lambda>r. row_key r = op_key operation) b)
               (operations_of sw) rb"
      by (simp add: list_all2_map1 list_all_iff)
    with rb(1) show ?thesis by blast
  qed
  let ?ks = "map op_key (operations_of sw)"
  have k: "map row_key es = ?ks"
    by (rule endpoints_keys [OF assms(1)])
  have mem: "row_key r \<in> set ?ks" if "r \<in> set (ps @ rs)" for r
  proof -
    from parameters_blocks [OF assms(2)] obtain pb where
      pb: "ps = concat pb" "list_all2 (\<lambda>(path, item, verb, opd) rs.
          parameter_rows path (dict_get item ''parameters'' (JList [])) verb opd = Inr rs)
          (operations_of sw) pb"
      by blast
    from responses_blocks [OF assms(3)] obtain rb where
      rb: "rs = concat rb" "list_all2 (\<lambda>(path, item, verb, opd) rs.
          response_rows path verb opd = Inr rs) (operations_of sw) rb"
      by blast
    from that consider "r \<in> set (concat pb)" | "r \<in> set (concat rb)"
      using pb(1) rb(1) by auto
    then show ?thesis
    proof cases
      case 1
      then show ?thesis
        by (rule blocks_keys_member [OF parameters_blocks_keys [OF pb(2)]])
    next
      case 2
      then show ?thesis
        by (rule blocks_keys_member [OF responses_blocks_keys [OF rb(2)]])
    qed
  qed
  have some: "list_all (\<lambda>r. \<exists>e\<in>set es. row_key e = row_key r) (ps @ rs)"
    unfolding list_all_iff
  proof
    fix r assume "r \<in> set (ps @ rs)"
    then have "row_key r \<in> set (map row_key es)"
      using mem k by simp
    then show "\<exists>e\<in>set es. row_key e = row_key r"
      by auto
  qed
  have one: "list_all (\<lambda>r. length (filter (\<lambda>e. row_key e = row_key r) es) = 1) (ps @ rs)"
    if d: "distinct ?ks"
    unfolding list_all_iff
  proof
    fix r assume "r \<in> set (ps @ rs)"
    then have "row_key r \<in> set ?ks"
      by (rule mem)
    then have one: "length (filter (\<lambda>k'. k' = row_key r) ?ks) = 1"
      using d by (rule distinct_filter_eq_one [rotated])
    have "length (filter (\<lambda>e. row_key e = row_key r) es)
            = length (filter (\<lambda>k'. k' = row_key r) (map row_key es))"
      by (rule filter_key_length)
    also have "\<dots> = 1"
      unfolding k by (rule one)
    finally show "length (filter (\<lambda>e. row_key e = row_key r) es) = 1" .
  qed
  from ops_e ops_p ops_r some one show ?thesis
    by blast
qed

theorem rows_have_endpoint_witness:
  "extract_endpoints
     [(''paths'', JDict [(''/a'', JDict
        [(''get'', JDict [(''parameters'', JList [JDict [(''name'', JStr ''x'')]]),
                          (''responses'', JDict [(''200'', JDict [])])])])])]
   = Inr [[(''api_group'', JNull), (''tags'', JNull), (''operationId'', JNull),
       (''summary'', JNull), (''description'', JNull),
       (''deprecated'', JBool False), (''method'', JStr ''GET''),
       (''path'', JStr ''/a''), (''full_url_template'', JNull),
       (''consumes'', JNull), (''produces'', JNull),
       (''parameters_count'', JInt 1), (''responses_count'', JInt 1),
       (''security'', JNull)]]
   \<and> distinct (map op_key (operations_of
     [(''paths'', JDict [(''/a'', JDict
        [(''get'', JDict [(''parameters'', JList [JDict [(''name'', JStr ''x'')]]),
                          (''responses'', JDict [(''200'', JDict [])])])])])]))
   \<and> list_all (\<lambda>r. \<exists>e\<in>set [[(''api_group'', JNull), (''tags'', JNull), (''operationId'', JNull),
       (''summary'', JNull), (''description'', JNull),
       (''deprecated'', JBool False), (''method'', JStr ''GET''),
       (''path'', JStr ''/a''), (''full_url_template'', JNull),
       (''consumes'', JNull), (''produces'', JNull),
       (''parameters_count'', JInt 1), (''responses_count'', JInt 1),
       (''security'', JNull)]]. row_key e = row_key r)
     ([[(''api_group'', JNull), (''operationId'', JNull),
       (''method'', JStr ''GET''), (''path'', JStr ''/a''),
       (''name'', JStr ''x''), (''in'', JNull), (''description'', JNull),
       (''required'', JBool False), (''type'', JNull), (''format'', JNull),
       (''collectionFormat'', JNull), (''items_type'', JNull),
       (''items_format'', JNull), (''enum'', JNull), (''$ref'', JNull),
       (''schema_type'', JNull)]]
      @ [[(''api_group'', JNull), (''operationId'', JNull),
       (''method'', JStr ''GET''), (''path'', JStr ''/a''),
       (''status_code'', JStr ''200''), (''description'', JNull),
       (''schema_type'', JNull), (''schema_format'', JNull),
       (''schema_$ref'', JNull), (''schema_items_type'', JNull),
       (''schema_items_$ref'', JNull)]])
   \<and> list_all (\<lambda>r. length (filter (\<lambda>e. row_key e = row_key r)
     [[(''api_group'', JNull), (''tags'', JNull), (''operationId'', JNull),
       (''summary'', JNull), (''description'', JNull),
       (''deprecated'', JBool False), (''method'', JStr ''GET''),
       (''path'', JStr ''/a''), (''full_url_template'', JNull),
       (''consumes'', JNull), (''produces'', JNull),
       (''parameters_count'', JInt 1), (''responses_count'', JInt 1),
       (''security'', JNull)]]) = 1)
     ([[(''api_group'', JNull), (''operationId'', JNull),
       (''method'', JStr ''GET''), (''path'', JStr ''/a''),
       (''name'', JStr ''x''), (''in'', JNull), (''description'', JNull),
       (''required'', JBool False), (''type'', JNull), (''format'', JNull),
       (''collectionFormat'', JNull), (''items_type'', JNull),
       (''items_format'', JNull), (''enum'', JNull), (''$ref'', JNull),
       (''schema_type'', JNull)]]
      @ [[(''api_group'', JNull), (''operationId'', JNull),
       (''method'', JStr ''GET''), (''path'', JStr ''/a''),
       (''status_code'', JStr ''200''), (''description'', JNull),
       (''schema_type'', JNull), (''schema_format'', JNull),
       (''schema_$ref'', JNull), (''schema_items_type'', JNull),
       (''schema_items_$ref'', JNull)]])"
proof -
  let ?d = "[(''paths'', JDict [(''/a'', JDict
        [(''get'', JDict [(''parameters'', JList [JDict [(''name'', JStr ''x'')]]),
                          (''responses'', JDict [(''200'', JDict [])])])])])]"
  let ?es = "[[(''api_group'', JNull), (''tags'', JNull), (''operationId'', JNull),
       (''summary'', JNull), (''description'', JNull),
       (''deprecated'', JBool False), (''method'', JStr ''GET''),
       (''path'', JStr ''/a''), (''full_url_template'', JNull),
       (''consumes'', JNull), (''produces'', JNull),
       (''parameters_count'', JInt 1), (''responses_count'', JInt 1),
       (''security'', JNull)]]"
  let ?ps = "[[(''api_group'', JNull), (''operationId'', JNull),
       (''method'', JStr ''GET''), (''path'', JStr ''/a''),
       (''name'', JStr ''x''), (''in'', JNull), (''description'', JNull),
       (''required'', JBool False), (''type'', JNull), (''format'', JNull),
       (''collectionFormat'', JNull), (''items_type'', JNull),
       (''items_format'', JNull), (''enum'', JNull), (''$ref'', JNull),
       (''schema_type'', JNull)]]"
  let ?rs = "[[(''api_group'', JNull), (''operationId'', JNull),
       (''method'', JStr ''GET''), (''path'', JStr ''/a''),
       (''status_code'', JStr ''200''), (''description'', JNull),
       (''schema_type'', JNull), (''schema_format'', JNull),
       (''schema_$ref'', JNull), (''schema_items_type'', JNull),
       (''schema_items_$ref'', JNull)]]"
  have h1: "extract_endpoints ?d = Inr ?es"
    by code_simp
  have h2: "extract_parameters ?d = Inr ?ps"
    by code_simp
  have h3: "extract_responses ?d = Inr ?rs"
    by code_simp
  have d: "distinct (map op_key (operations_of ?d))"
    by code_simp
  note t = rows_have_endpoint [OF h1 h2 h3]
  from t have a: "list_all (\<lambda>r. \<exists>e\<in>set ?es. row_key e = row_key r) (?ps @ ?rs)"
    by blast
  from t d have b: "list_all (\<lambda>r. length (filter (\<lambda>e. row_key e = row_key r) ?es) = 1) (?ps @ ?rs)"
    by blast
  from h1 d a b show ?thesis
    by (simp only:)
qed

section \<open>Row order\<close>

lemma map_concat_blocks:
  assumes "list_all2 (\<lambda>x b. map f b = g x) xs bs"
  shows "map f (concat bs) = concat (map g xs)"
  using assms by (induction rule: list_all2_induct) simp_all

lemma for_each2_Inr_iff:
  "for_each2 f xs = Inr (as, bs) \<longleftrightarrow>
     (\<exists>rs. list_all2 (\<lambda>x r. f x = Inr r) xs rs \<and> as = concat (map fst rs) \<and> bs = concat (map snd rs))"
proof (induction xs arbitrary: as bs)
  case Nil
  show ?case by auto
next
  case (Cons x xs)
  show ?case
  proof
    assume "for_each2 f (x # xs) = Inr (as, bs)"
    then obtain a b where a: "f x = Inr a" and b: "for_each2 f xs = Inr b"
      and r: "as = fst a @ fst b" "bs = snd a @ snd b"
      by (auto simp: bind_eq_Inr)
    from b obtain rs where "list_all2 (\<lambda>x r. f x = Inr r) xs rs"
      "fst b = concat (map fst rs)" "snd b = concat (map snd rs)"
      using Cons.IH [of "fst b" "snd b"] by auto
    with a r have "list_all2 (\<lambda>x r. f x = Inr r) (x # xs) (a # rs)
        \<and> as = concat (map fst (a # rs)) \<and> bs = concat (map snd (a # rs))"
      by simp
    then show "\<exists>rs. list_all2 (\<lambda>x r. f x = Inr r) (x # xs) rs
        \<and> as = concat (map fst rs) \<and> bs = concat (map snd rs)"
      by blast
  next
    assume "\<exists>rs. list_all2 (\<lambda>x r. f x = Inr r) (x # xs) rs
        \<and> as = concat (map fst rs) \<and> bs = concat (map snd rs)"
    then obtain a rs where a: "f x = Inr a" and l: "list_all2 (\<lambda>x r. f x = Inr r) xs rs"
      and r: "as = fst a @ concat (map fst rs)" "bs = snd a @ concat (map snd rs)"
      by (auto simp: list_all2_Cons1)
    from l have "for_each2 f xs = Inr (concat (map fst rs), concat (map snd rs))"
      using Cons.IH by blast
    with a r show "for_each2 f (x # xs) = Inr (as, bs)"
      by simp
  qed
qed

lemma parameter_rows_order:
  assumes "parameter_rows path plp verb opd = Inr rs"
  shows "map (\<lambda>r. (row_key r, cell r ''name'')) rs
         = map (\<lambda>p. ((JStr path, JStr (upper verb)), field ''name'' p))
             (items_of plp @ items_of (dict_get opd ''parameters'' (JList [])))"
proof -
  from parameter_rows_items [OF assms] obtain g where
    l: "list_all2 (\<lambda>p r. parameter_row g (dict_get opd ''operationId'' JNull) verb path p = Inr r)
           (items_of plp @ items_of (dict_get opd ''parameters'' (JList []))) rs"
    by blast
  show ?thesis
  proof (rule list_all2_map_eq [OF l])
    fix p r
    assume a: "parameter_row g (dict_get opd ''operationId'' JNull) verb path p = Inr r"
    from parameter_row_cells(1,2,3) [OF a]
    show "(row_key r, cell r ''name'') = ((JStr path, JStr (upper verb)), field ''name'' p)"
      by (auto simp: row_key_def field_def)
  qed
qed

lemma response_row_order:
  assumes "response_row api_group operation_id verb path code resp = Inr b"
  shows "map (\<lambda>r. (row_key r, cell r ''status_code'')) b
         = (if is_dict resp then [((JStr path, JStr (upper verb)), JStr code)] else [])"
  using assms
  by (auto simp: response_row_def Let_def bind_eq_Inr cell_def dict_get_def row_key_def is_dict_def
           split: json.splits)

lemma response_rows_order:
  assumes "response_rows path verb opd = Inr rs"
  shows "map (\<lambda>r. (row_key r, cell r ''status_code'')) rs
         = map (\<lambda>entry. ((JStr path, JStr (upper verb)), JStr (fst entry)))
             (filter (\<lambda>entry. is_dict (snd entry)) (entries_of (dict_get opd ''responses'' (JDict []))))"
proof -
  from assms obtain g entries rss where
    e: "dict_get opd ''responses'' (JDict []) = JDict entries" and
    l: "list_all2 (\<lambda>x b.
           response_row g (dict_get opd ''operationId'' JNull) verb path (fst x) (snd x) = Inr b) entries rss"
    and c: "rs = concat rss"
    by (auto simp: response_rows_def Let_def bind_eq_Inr for_each_Inr_iff case_prod_unfold py_items_Inr)
  have "list_all2 (\<lambda>x b. map (\<lambda>r. (row_key r, cell r ''status_code'')) b
          = (if is_dict (snd x) then [((JStr path, JStr (upper verb)), JStr (fst x))] else [])) entries rss"
    by (rule list_all2_mono [OF l]) (rule response_row_order)
  from map_concat_blocks [OF this]
  have "map (\<lambda>r. (row_key r, cell r ''status_code'')) rs
        = concat (map (\<lambda>x. if is_dict (snd x) then [((JStr path, JStr (upper verb)), JStr (fst x))] else [])
            entries)"
    by (simp add: c)
  also have "\<dots> = map (\<lambda>entry. ((JStr path, JStr (upper verb)), JStr (fst entry)))
             (filter (\<lambda>entry. is_dict (snd entry)) entries)"
    by (induction entries) simp_all
  finally show ?thesis
    by (simp add: e entries_of_def)
qed


lemma tag_row_name: "tag_row t = Inr r \<Longrightarrow> cell r ''name'' = field ''name'' t"
  by (auto simp: tag_row_def bind_eq_Inr cell_def dict_get_def field_def split: json.splits)

lemma security_row_name: "security_row name s = Inr r \<Longrightarrow> cell r ''name'' = JStr name"
  by (auto simp: security_row_def Let_def bind_eq_Inr cell_def dict_get_def split: json.splits)

lemma model_row_name: "model_row name model = Inr r \<Longrightarrow> cell r ''model_name'' = JStr name"
  by (auto simp: model_row_def Let_def bind_eq_Inr cell_def dict_get_def split: json.splits)

lemma model_row_dict: "model_row name model = Inr r \<Longrightarrow> is_dict model"
  by (auto simp: model_row_def is_dict_def split: json.splits)

lemma property_row_names:
  "property_row model_name prop_name prop = Inr r \<Longrightarrow>
     (cell r ''model_name'', cell r ''property_name'') = (JStr model_name, JStr prop_name)"
  by (auto simp: property_row_def Let_def bind_eq_Inr cell_def dict_get_def split: json.splits)

lemma extract_tags_order:
  assumes "extract_tags sw = Inr ts"
  shows "map (\<lambda>r. cell r ''name'') ts = map (field ''name'') (items_of (dict_get sw ''tags'' (JList [])))"
proof -
  from assms obtain tags where t: "py_iter (dict_get sw ''tags'' (JList [])) = Inr tags"
    and l: "list_all2 (\<lambda>t r. tag_row t = Inr r) tags ts"
    by (auto simp: extract_tags_def bind_eq_Inr for_each_single_Inr_iff)
  from list_all2_map_eq [OF l tag_row_name] show ?thesis
    by (simp add: py_iter_items_of [OF t])
qed

lemma extract_securities_order:
  assumes "extract_securities sw = Inr ss"
  shows "map (\<lambda>r. cell r ''name'') ss
         = map (\<lambda>entry. JStr (fst entry))
             (entries_of (or_else (dict_get sw ''securityDefinitions'' (JDict [])) (JDict [])))"
proof -
  from assms obtain entries where
    e: "or_else (dict_get sw ''securityDefinitions'' (JDict [])) (JDict []) = JDict entries"
    and l: "list_all2 (\<lambda>x r. security_row (fst x) (snd x) = Inr r) entries ss"
    by (auto simp: extract_securities_def Let_def bind_eq_Inr for_each_single_Inr_iff
                   case_prod_unfold py_items_Inr)
  have "map (\<lambda>r. cell r ''name'') ss = map (\<lambda>entry. JStr (fst entry)) entries"
    by (rule list_all2_map_eq [OF l]) (rule security_row_name)
  then show ?thesis
    by (simp add: e entries_of_def)
qed

lemma model_and_properties_order:
  assumes "model_and_properties model_name model = Inr mp"
  shows "map (\<lambda>r. cell r ''model_name'') (fst mp) = [JStr model_name]"
    and "map (\<lambda>r. (cell r ''model_name'', cell r ''property_name'')) (snd mp)
         = map (\<lambda>entry. (JStr model_name, JStr (fst entry)))
             (entries_of (or_else (field ''properties'' model) (JDict [])))"
proof -
  from assms obtain mrow declared props prows where
    m: "model_row model_name model = Inr mrow" and
    d: "py_get model ''properties'' (JDict []) = Inr declared" and
    p: "or_else declared (JDict []) = JDict props" and
    l: "list_all2 (\<lambda>x r. property_row model_name (fst x) (snd x) = Inr r) props prows" and
    mp: "mp = ([mrow], prows)"
    by (auto simp: model_and_properties_def bind_eq_Inr for_each_single_Inr_iff
                   case_prod_unfold py_items_Inr)
  show "map (\<lambda>r. cell r ''model_name'') (fst mp) = [JStr model_name]"
    using model_row_name [OF m] by (simp add: mp)
  have "entries_of (or_else (field ''properties'' model) (JDict [])) = props"
    using d p by (cases model) (auto simp: field_def dict_get_def or_else_def entries_of_def
                                     split: option.splits if_splits)
  moreover have "map (\<lambda>r. (cell r ''model_name'', cell r ''property_name'')) prows
         = map (\<lambda>entry. (JStr model_name, JStr (fst entry))) props"
    by (rule list_all2_map_eq [OF l]) (rule property_row_names)
  ultimately show "map (\<lambda>r. (cell r ''model_name'', cell r ''property_name'')) (snd mp)
         = map (\<lambda>entry. (JStr model_name, JStr (fst entry)))
             (entries_of (or_else (field ''properties'' model) (JDict [])))"
    by (simp add: mp)
qed

lemma extract_models_and_properties_order:
  assumes "extract_models_and_properties sw = Inr (ms, pps)"
  shows "map (\<lambda>r. cell r ''model_name'') ms
         = map (\<lambda>entry. JStr (fst entry))
             (entries_of (or_else (dict_get sw ''definitions'' (JDict [])) (JDict [])))"
    and "map (\<lambda>r. (cell r ''model_name'', cell r ''property_name'')) pps
         = concat (map (\<lambda>model. map (\<lambda>entry. (JStr (fst model), JStr (fst entry)))
                                   (entries_of (or_else (field ''properties'' (snd model)) (JDict []))))
             (entries_of (or_else (dict_get sw ''definitions'' (JDict [])) (JDict []))))"
proof -
  from assms obtain entries rs where
    e: "or_else (dict_get sw ''definitions'' (JDict [])) (JDict []) = JDict entries" and
    l: "list_all2 (\<lambda>x r. model_and_properties (fst x) (snd x) = Inr r) entries rs" and
    m: "ms = concat (map fst rs)" and p: "pps = concat (map snd rs)"
    by (auto simp: extract_models_and_properties_def Let_def bind_eq_Inr for_each2_Inr_iff
                   case_prod_unfold py_items_Inr)
  have "list_all2 (\<lambda>x b. map (\<lambda>r. cell r ''model_name'') b = [JStr (fst x)]) entries (map fst rs)"
    unfolding list_all2_map2
    by (rule list_all2_mono [OF l]) (rule model_and_properties_order(1))
  from map_concat_blocks [OF this]
  show "map (\<lambda>r. cell r ''model_name'') ms
         = map (\<lambda>entry. JStr (fst entry))
             (entries_of (or_else (dict_get sw ''definitions'' (JDict [])) (JDict [])))"
    by (simp add: m e entries_of_def concat_map_singleton)
  have "list_all2 (\<lambda>x b. map (\<lambda>r. (cell r ''model_name'', cell r ''property_name'')) b
          = map (\<lambda>entry. (JStr (fst x), JStr (fst entry)))
              (entries_of (or_else (field ''properties'' (snd x)) (JDict [])))) entries (map snd rs)"
    unfolding list_all2_map2
    by (rule list_all2_mono [OF l]) (rule model_and_properties_order(2))
  from map_concat_blocks [OF this]
  show "map (\<lambda>r. (cell r ''model_name'', cell r ''property_name'')) pps
         = concat (map (\<lambda>model. map (\<lambda>entry. (JStr (fst model), JStr (fst entry)))
                                   (entries_of (or_else (field ''properties'' (snd model)) (JDict []))))
             (entries_of (or_else (dict_get sw ''definitions'' (JDict [])) (JDict []))))"
    by (simp add: p e entries_of_def)
qed

lemma extract_parameters_order:
  assumes "extract_parameters sw = Inr ps"
  shows "map (\<lambda>r. (row_key r, cell r ''name'')) ps
         = concat (map (\<lambda>(path, item, verb, opd).
                          map (\<lambda>p. ((JStr path, JStr (upper verb)), field ''name'' p))
                            (items_of (dict_get item ''parameters'' (JList []))
                             @ items_of (dict_get opd ''parameters'' (JList []))))
                   (operations_of sw))"
proof -
  from parameters_blocks [OF assms] obtain blocks where
    c: "ps = concat blocks" and
    l: "list_all2 (\<lambda>(path, item, verb, opd) rs.
          parameter_rows path (dict_get item ''parameters'' (JList [])) verb opd = Inr rs)
          (operations_of sw) blocks"
    by blast
  have "list_all2 (\<lambda>operation b. map (\<lambda>r. (row_key r, cell r ''name'')) b
          = (case operation of (path, item, verb, opd) \<Rightarrow>
               map (\<lambda>p. ((JStr path, JStr (upper verb)), field ''name'' p))
                 (items_of (dict_get item ''parameters'' (JList []))
                  @ items_of (dict_get opd ''parameters'' (JList [])))))
          (operations_of sw) blocks"
    by (rule list_all2_mono [OF l]) (auto dest: parameter_rows_order)
  from map_concat_blocks [OF this] show ?thesis
    by (simp add: c)
qed

lemma extract_responses_order:
  assumes "extract_responses sw = Inr rs"
  shows "map (\<lambda>r. (row_key r, cell r ''status_code'')) rs
         = concat (map (\<lambda>(path, item, verb, opd).
                          map (\<lambda>entry. ((JStr path, JStr (upper verb)), JStr (fst entry)))
                            (filter (\<lambda>entry. is_dict (snd entry))
                               (entries_of (dict_get opd ''responses'' (JDict [])))))
                   (operations_of sw))"
proof -
  from responses_blocks [OF assms] obtain blocks where
    c: "rs = concat blocks" and
    l: "list_all2 (\<lambda>(path, item, verb, opd) rs. response_rows path verb opd = Inr rs)
          (operations_of sw) blocks"
    by blast
  have "list_all2 (\<lambda>operation b. map (\<lambda>r. (row_key r, cell r ''status_code'')) b
          = (case operation of (path, item, verb, opd) \<Rightarrow>
               map (\<lambda>entry. ((JStr path, JStr (upper verb)), JStr (fst entry)))
                 (filter (\<lambda>entry. is_dict (snd entry))
                    (entries_of (dict_get opd ''responses'' (JDict []))))))
          (operations_of sw) blocks"
    by (rule list_all2_mono [OF l]) (auto dest: response_rows_order)
  from map_concat_blocks [OF this] show ?thesis
    by (simp add: c)
qed

lemma csv_main_order:
  assumes "csv_main spec = Inr rows"
  shows "\<exists>unsorted. csv_unsorted spec = Inr unsorted
           \<and> map (\<lambda>r. (cell r ''Path'', cell r ''Method'')) unsorted
               = map op_key (operations HTTP_METHODS (paths_of spec))
           \<and> rows = sort_key sort_by unsorted
           \<and> sorted (map sort_by rows)"
proof -
  from assms obtain unsorted where u: "csv_unsorted spec = Inr unsorted"
    and r: "rows = sort_key sort_by unsorted"
    by (auto simp: csv_main_def bind_eq_Inr)
  have "map (\<lambda>r. (cell r ''Path'', cell r ''Method'')) unsorted
               = map op_key (operations HTTP_METHODS (paths_of spec))"
    by (rule list_all2_map_eq [OF csv_unsorted_rows [OF u]])
       (auto simp: op_key_def dest: csv_row_cells(2,3))
  with u r show ?thesis
    by (simp add: sorted_sort_key)
qed


text \<open>
  C5, as stated, fails for the single-sheet exporter: it sorts its rows by tags, path
  and method after the traversal, so a document that declares \<open>/b\<close> before \<open>/a\<close>
  has its \<open>/a\<close> row first. The workbook exporter keeps the declared order.
\<close>

theorem csv_rows_sorted:
  "column ''Path''
     (csv_main [(''paths'', JDict [(''/b'', JDict [(''get'', JDict [])]),
                                   (''/a'', JDict [(''get'', JDict [])])])])
   = [JStr ''/a'', JStr ''/b'']
   \<and> map op_key (operations HTTP_METHODS (paths_of
          [(''paths'', JDict [(''/b'', JDict [(''get'', JDict [])]),
                              (''/a'', JDict [(''get'', JDict [])])])]))
   = [(JStr ''/b'', JStr ''GET''), (JStr ''/a'', JStr ''GET'')]
   \<and> column ''path''
     (extract_endpoints [(''paths'', JDict [(''/b'', JDict [(''get'', JDict [])]),
                                            (''/a'', JDict [(''get'', JDict [])])])])
   = [JStr ''/b'', JStr ''/a'']"
  by code_simp

text \<open>
  C5 (amended). Each of the seven extractors of the workbook exporter emits its rows in
  the order of the document: the endpoints rows follow the operations (paths in
  declared order, then the operations of a path in declared order); the parameter rows
  follow the operations and, within one, the path-level parameters and then the
  operation's own, each in declared order; the response rows follow the operations
  and, within one, the responses that are dictionaries in declared order; tags,
  security schemes, models and the properties of each model follow their declared
  order. Nothing is sorted there. The single-sheet exporter traverses the operations
  in the same order and then sorts its rows by (tags, path, method), a stable sort.
\<close>

theorem rows_in_document_order:
  "(extract_endpoints sw = Inr es \<longrightarrow> map row_key es = map op_key (operations_of sw))
   \<and> (extract_parameters sw = Inr ps \<longrightarrow>
        map (\<lambda>r. (row_key r, cell r ''name'')) ps
          = concat (map (\<lambda>(path, item, verb, opd).
                           map (\<lambda>p. ((JStr path, JStr (upper verb)), field ''name'' p))
                             (items_of (dict_get item ''parameters'' (JList []))
                              @ items_of (dict_get opd ''parameters'' (JList []))))
                    (operations_of sw)))
   \<and> (extract_responses sw = Inr rs \<longrightarrow>
        map (\<lambda>r. (row_key r, cell r ''status_code'')) rs
          = concat (map (\<lambda>(path, item, verb, opd).
                           map (\<lambda>entry. ((JStr path, JStr (upper verb)), JStr (fst entry)))
                             (filter (\<lambda>entry. is_dict (snd entry))
                                (entries_of (dict_get opd ''responses'' (JDict [])))))
                    (operations_of sw)))
   \<and> (extract_tags sw = Inr ts \<longrightarrow>
        map (\<lambda>r. cell r ''name'') ts = map (field ''name'') (items_of (dict_get sw ''tags'' (JList []))))
   \<and> (extract_securities sw = Inr ss \<longrightarrow>
        map (\<lambda>r. cell r ''name'') ss
          = map (\<lambda>entry. JStr (fst entry))
              (entries_of (or_else (dict_get sw ''securityDefinitions'' (JDict [])) (JDict []))))
   \<and> (extract_models_and_properties sw = Inr (ms, pps) \<longrightarrow>
        map (\<lambda>r. cell r ''model_name'') ms
          = map (\<lambda>entry. JStr (fst entry))
              (entries_of (or_else (dict_get sw ''definitions'' (JDict [])) (JDict [])))
        \<and> map (\<lambda>r. (cell r ''model_name'', cell r ''property_name'')) pps
          = concat (map (\<lambda>model. map (\<lambda>entry. (JStr (fst model), JStr (fst entry)))
                                    (entries_of (or_else (field ''properties'' (snd model)) (JDict []))))
              (entries_of (or_else (dict_get sw ''definitions'' (JDict [])) (JDict [])))))
   \<and> (csv_main sw = Inr rows \<longrightarrow>
        (\<exists>unsorted. csv_unsorted sw = Inr unsorted
           \<and> map (\<lambda>r. (cell r ''Path'', cell r ''Method'')) unsorted
               = map op_key (operations HTTP_METHODS (paths_of sw))
           \<and> rows = sort_key sort_by unsorted
           \<and> sorted (map sort_by rows)))"
  using endpoints_keys extract_parameters_order extract_responses_order extract_tags_order
    extract_securities_order extract_models_and_properties_order csv_main_order
  by (intro conjI impI) blast+

theorem rows_in_document_order_witness:
  "map row_key (rows_of (extract_endpoints
     [(''tags'', JList [JDict [(''name'', JStr ''pets'')]]),
     (''securityDefinitions'', JDict [(''api_key'', JDict [(''type'', JStr ''apiKey'')])]),
     (''definitions'', JDict [(''Pet'', JDict [(''properties'',
         JDict [(''name'', JDict [(''type'', JStr ''string'')])])])]),
     (''paths'', JDict
        [(''/b'', JDict [(''get'', JDict [(''parameters'', JList [JDict [(''name'', JStr ''x'')]]),
                                          (''responses'', JDict [(''200'', JDict [])])])]),
         (''/a'', JDict [(''get'', JDict [])])])]))
   = [(JStr ''/b'', JStr ''GET''), (JStr ''/a'', JStr ''GET'')]
   \<and> map (\<lambda>r. (row_key r, cell r ''name'')) (rows_of (extract_parameters
     [(''tags'', JList [JDict [(''name'', JStr ''pets'')]]),
     (''securityDefinitions'', JDict [(''api_key'', JDict [(''type'', JStr ''apiKey'')])]),
     (''definitions'', JDict [(''Pet'', JDict [(''properties'',
         JDict [(''name'', JDict [(''type'', JStr ''string'')])])])]),
     (''paths'', JDict
        [(''/b'', JDict [(''get'', JDict [(''parameters'', JList [JDict [(''name'', JStr ''x'')]]),
                                          (''responses'', JDict [(''200'', JDict [])])])]),
         (''/a'', JDict [(''get'', JDict [])])])]))
   = [((JStr ''/b'', JStr ''GET''), JStr ''x'')]
   \<and> map (\<lambda>r. (row_key r, cell r ''status_code'')) (rows_of (extract_responses
     [(''tags'', JList [JDict [(''name'', JStr ''pets'')]]),
     (''securityDefinitions'', JDict [(''api_key'', JDict [(''type'', JStr ''apiKey'')])]),
     (''definitions'', JDict [(''Pet'', JDict [(''properties'',
         JDict [(''name'', JDict [(''type'', JStr ''string'')])])])]),
     (''paths'', JDict
        [(''/b'', JDict [(''get'', JDict [(''parameters'', JList [JDict [(''name'', JStr ''x'')]]),
                                          (''responses'', JDict [(''200'', JDict [])])])]),
         (''/a'', JDict [(''get'', JDict [])])])]))
   = [((JStr ''/b'', JStr ''GET''), JStr ''200'')]
   \<and> map (\<lambda>r. cell r ''name'') (rows_of (extract_tags
     [(''tags'', JList [JDict [(''name'', JStr ''pets'')]]),
     (''securityDefinitions'', JDict [(''api_key'', JDict [(''type'', JStr ''apiKey'')])]),
     (''definitions'', JDict [(''Pet'', JDict [(''properties'',
         JDict [(''name'', JDict [(''type'', JStr ''string'')])])])]),
     (''paths'', JDict
        [(''/b'', JDict [(''get'', JDict [(''parameters'', JList [JDict [(''name'', JStr ''x'')]]),
                                          (''responses'', JDict [(''200'', JDict [])])])]),
         (''/a'', JDict [(''get'', JDict [])])])]))
   = [JStr ''pets'']
   \<and> map (\<lambda>r. cell r ''name'') (rows_of (extract_securities
     [(''tags'', JList [JDict [(''name'', JStr ''pets'')]]),
     (''securityDefinitions'', JDict [(''api_key'', JDict [(''type'', JStr ''apiKey'')])]),
     (''definitions'', JDict [(''Pet'', JDict [(''properties'',
         JDict [(''name'', JDict [(''type'', JStr ''string'')])])])]),
     (''paths'', JDict
        [(''/b'', JDict [(''get'', JDict [(''parameters'', JList [JDict [(''name'', JStr ''x'')]]),
                                          (''responses'', JDict [(''200'', JDict [])])])]),
         (''/a'', JDict [(''get'', JDict [])])])]))
   = [JStr ''api_key'']
   \<and> extract_models_and_properties
     [(''tags'', JList [JDict [(''name'', JStr ''pets'')]]),
     (''securityDefinitions'', JDict [(''api_key'', JDict [(''type'', JStr ''apiKey'')])]),
     (''definitions'', JDict [(''Pet'', JDict [(''properties'',
         JDict [(''name'', JDict [(''type'', JStr ''string'')])])])]),
     (''paths'', JDict
        [(''/b'', JDict [(''get'', JDict [(''parameters'', JList [JDict [(''name'', JStr ''x'')]]),
                                          (''responses'', JDict [(''200'', JDict [])])])]),
         (''/a'', JDict [(''get'', JDict [])])])]
   = Inr ([[(''model_name'', JStr ''Pet''), (''type'', JNull),
        (''xml_name'', JNull), (''description'', JNull),
        (''required_fields'', JNull)]],
          [[(''model_name'', JStr ''Pet''), (''property_name'', JStr ''name''),
        (''type'', JStr ''string''), (''format'', JNull),
        (''description'', JNull), (''enum'', JNull),
        (''items_type'', JNull), (''items_format'', JNull),
        (''items_$ref'', JNull), (''$ref'', JNull), (''xml_name'', JNull),
        (''xml_wrapped'', JNull), (''example'', JNull)]])
   \<and> map (\<lambda>r. cell r ''model_name'')
       [[(''model_name'', JStr ''Pet''), (''type'', JNull),
        (''xml_name'', JNull), (''description'', JNull),
        (''required_fields'', JNull)]]
   = [JStr ''Pet'']
   \<and> map (\<lambda>r. (cell r ''model_name'', cell r ''property_name''))
       [[(''model_name'', JStr ''Pet''), (''property_name'', JStr ''name''),
        (''type'', JStr ''string''), (''format'', JNull),
        (''description'', JNull), (''enum'', JNull),
        (''items_type'', JNull), (''items_format'', JNull),
        (''items_$ref'', JNull), (''$ref'', JNull), (''xml_name'', JNull),
        (''xml_wrapped'', JNull), (''example'', JNull)]]
   = [(JStr ''Pet'', JStr ''name'')]
   \<and> map (\<lambda>r. (cell r ''Path'', cell r ''Method'')) (rows_of (csv_unsorted
     [(''tags'', JList [JDict [(''name'', JStr ''pets'')]]),
     (''securityDefinitions'', JDict [(''api_key'', JDict [(''type'', JStr ''apiKey'')])]),
     (''definitions'', JDict [(''Pet'', JDict [(''properties'',
         JDict [(''name'', JDict [(''type'', JStr ''string'')])])])]),
     (''paths'', JDict
        [(''/b'', JDict [(''get'', JDict [(''parameters'', JList [JDict [(''name'', JStr ''x'')]]),
                                          (''responses'', JDict [(''200'', JDict [])])])]),
         (''/a'', JDict [(''get'', JDict [])])])]))
   = [(JStr ''/b'', JStr ''GET''), (JStr ''/a'', JStr ''GET'')]
   \<and> map (\<lambda>r. (cell r ''Path'', cell r ''Method'')) (rows_of (csv_main
     [(''tags'', JList [JDict [(''name'', JStr ''pets'')]]),
     (''securityDefinitions'', JDict [(''api_key'', JDict [(''type'', JStr ''apiKey'')])]),
     (''definitions'', JDict [(''Pet'', JDict [(''properties'',
         JDict [(''name'', JDict [(''type'', JStr ''string'')])])])]),
     (''paths'', JDict
        [(''/b'', JDict [(''get'', JDict [(''parameters'', JList [JDict [(''name'', JStr ''x'')]]),
                                          (''responses'', JDict [(''200'', JDict [])])])]),
         (''/a'', JDict [(''get'', JDict [])])])]))
   = [(JStr ''/a'', JStr ''GET''), (JStr ''/b'', JStr ''GET'')]"
proof -
  let ?d = "[(''tags'', JList [JDict [(''name'', JStr ''pets'')]]),
     (''securityDefinitions'', JDict [(''api_key'', JDict [(''type'', JStr ''apiKey'')])]),
     (''definitions'', JDict [(''Pet'', JDict [(''properties'',
         JDict [(''name'', JDict [(''type'', JStr ''string'')])])])]),
     (''paths'', JDict
        [(''/b'', JDict [(''get'', JDict [(''parameters'', JList [JDict [(''name'', JStr ''x'')]]),
                                          (''responses'', JDict [(''200'', JDict [])])])]),
         (''/a'', JDict [(''get'', JDict [])])])]"
  let ?es = "[[(''api_group'', JNull), (''tags'', JNull), (''operationId'', JNull),
       (''summary'', JNull), (''description'', JNull),
       (''deprecated'', JBool False), (''method'', JStr ''GET''),
       (''path'', JStr ''/b''), (''full_url_template'', JNull),
       (''consumes'', JNull), (''produces'', JNull),
       (''parameters_count'', JInt 1), (''responses_count'', JInt 1),
       (''security'', JNull)],
      [(''api_group'', JNull), (''tags'', JNull), (''operationId'', JNull),
       (''summary'', JNull), (''description'', JNull),
       (''deprecated'', JBool False), (''method'', JStr ''GET''),
       (''path'', JStr ''/a''), (''full_url_template'', JNull),
       (''consumes'', JNull), (''produces'', JNull),
       (''parameters_count'', JInt 0), (''responses_count'', JInt 0),
       (''security'', JNull)]]"
  let ?ps = "[[(''api_group'', JNull), (''operationId'', JNull),
       (''method'', JStr ''GET''), (''path'', JStr ''/b''),
       (''name'', JStr ''x''), (''in'', JNull), (''description'', JNull),
       (''required'', JBool False), (''type'', JNull), (''format'', JNull),
       (''collectionFormat'', JNull), (''items_type'', JNull),
       (''items_format'', JNull), (''enum'', JNull), (''$ref'', JNull),
       (''schema_type'', JNull)]]"
  let ?rs = "[[(''api_group'', JNull), (''operationId'', JNull),
       (''method'', JStr ''GET''), (''path'', JStr ''/b''),
       (''status_code'', JStr ''200''), (''description'', JNull),
       (''schema_type'', JNull), (''schema_format'', JNull),
       (''schema_$ref'', JNull), (''schema_items_type'', JNull),
       (''schema_items_$ref'', JNull)]]"
  let ?ts = "[[(''name'', JStr ''pets''), (''description'', JNull),
       (''externalDocs_description'', JNull),
       (''externalDocs_url'', JNull)]]"
  let ?ss = "[[(''name'', JStr ''api_key''), (''type'', JStr ''apiKey''),
       (''in'', JNull), (''name_in_header'', JNull), (''flow'', JNull),
       (''authorizationUrl'', JNull), (''tokenUrl'', JNull),
       (''scopes'', JNull)]]"
  let ?ms = "[[(''model_name'', JStr ''Pet''), (''type'', JNull),
        (''xml_name'', JNull), (''description'', JNull),
        (''required_fields'', JNull)]]"
  let ?pps = "[[(''model_name'', JStr ''Pet''), (''property_name'', JStr ''name''),
        (''type'', JStr ''string''), (''format'', JNull),
        (''description'', JNull), (''enum'', JNull),
        (''items_type'', JNull), (''items_format'', JNull),
        (''items_$ref'', JNull), (''$ref'', JNull), (''xml_name'', JNull),
        (''xml_wrapped'', JNull), (''example'', JNull)]]"
  let ?cs = "[[(''API Group (tags)'', JStr []), (''Method'', JStr ''GET''),
       (''Path'', JStr ''/a''), (''Summary'', JStr []),
       (''Description'', JStr []), (''OperationId'', JStr []),
       (''Deprecated'', JStr ''false''), (''Auth (security)'', JStr []),
       (''Parameters'', JStr []), (''RequestBody'', JStr []),
       (''Responses'', JStr [])],
      [(''API Group (tags)'', JStr []), (''Method'', JStr ''GET''),
       (''Path'', JStr ''/b''), (''Summary'', JStr []),
       (''Description'', JStr []), (''OperationId'', JStr []),
       (''Deprecated'', JStr ''false''), (''Auth (security)'', JStr []),
       (''Parameters'', JStr ''x ()''), (''RequestBody'', JStr []),
       (''Responses'', JStr ''200'')]]"
  have h1: "extract_endpoints ?d = Inr ?es" by code_simp
  have h2: "extract_parameters ?d = Inr ?ps" by code_simp
  have h3: "extract_responses ?d = Inr ?rs" by code_simp
  have h4: "extract_tags ?d = Inr ?ts" by code_simp
  have h5: "extract_securities ?d = Inr ?ss" by code_simp
  have h6: "extract_models_and_properties ?d = Inr (?ms, ?pps)" by code_simp
  have h7: "csv_main ?d = Inr ?cs" by code_simp
  note t = rows_in_document_order [of ?d ?es ?ps ?rs ?ts ?ss ?ms ?pps ?cs]
  have o: "map op_key (operations_of ?d) = [(JStr ''/b'', JStr ''GET''), (JStr ''/a'', JStr ''GET'')]"
    by code_simp
  have oc: "map op_key (operations HTTP_METHODS (paths_of ?d))
              = [(JStr ''/b'', JStr ''GET''), (JStr ''/a'', JStr ''GET'')]"
    by code_simp
  from t h1 have "map row_key ?es = map op_key (operations_of ?d)"
    by blast
  with o have 1: "map row_key ?es = [(JStr ''/b'', JStr ''GET''), (JStr ''/a'', JStr ''GET'')]"
    by (simp only:)
  from t h2 have "map (\<lambda>r. (row_key r, cell r ''name'')) ?ps
          = concat (map (\<lambda>(path, item, verb, opd).
                           map (\<lambda>p. ((JStr path, JStr (upper verb)), field ''name'' p))
                             (items_of (dict_get item ''parameters'' (JList []))
                              @ items_of (dict_get opd ''parameters'' (JList []))))
                    (operations_of ?d))"
    by blast
  also have "\<dots> = [((JStr ''/b'', JStr ''GET''), JStr ''x'')]"
    by code_simp
  finally have 2: "map (\<lambda>r. (row_key r, cell r ''name'')) ?ps = [((JStr ''/b'', JStr ''GET''), JStr ''x'')]" .
  from t h3 have "map (\<lambda>r. (row_key r, cell r ''status_code'')) ?rs
          = concat (map (\<lambda>(path, item, verb, opd).
                           map (\<lambda>entry. ((JStr path, JStr (upper verb)), JStr (fst entry)))
                             (filter (\<lambda>entry. is_dict (snd entry))
                                (entries_of (dict_get opd ''responses'' (JDict [])))))
                    (operations_of ?d))"
    by blast
  also have "\<dots> = [((JStr ''/b'', JStr ''GET''), JStr ''200'')]"
    by code_simp
  finally have 3: "map (\<lambda>r. (row_key r, cell r ''status_code'')) ?rs
                    = [((JStr ''/b'', JStr ''GET''), JStr ''200'')]" .
  from t h4 have "map (\<lambda>r. cell r ''name'') ?ts
                    = map (field ''name'') (items_of (dict_get ?d ''tags'' (JList [])))"
    by blast
  also have "\<dots> = [JStr ''pets'']"
    by code_simp
  finally have 4: "map (\<lambda>r. cell r ''name'') ?ts = [JStr ''pets'']" .
  from t h5 have "map (\<lambda>r. cell r ''name'') ?ss
          = map (\<lambda>entry. JStr (fst entry))
              (entries_of (or_else (dict_get ?d ''securityDefinitions'' (JDict [])) (JDict [])))"
    by blast
  also have "\<dots> = [JStr ''api_key'']"
    by code_simp
  finally have 5: "map (\<lambda>r. cell r ''name'') ?ss = [JStr ''api_key'']" .
  from t h6 have "map (\<lambda>r. cell r ''model_name'') ?ms
          = map (\<lambda>entry. JStr (fst entry))
              (entries_of (or_else (dict_get ?d ''definitions'' (JDict [])) (JDict [])))"
    by blast
  also have "\<dots> = [JStr ''Pet'']"
    by code_simp
  finally have 8: "map (\<lambda>r. cell r ''model_name'') ?ms = [JStr ''Pet'']" .
  from t h6 have "map (\<lambda>r. (cell r ''model_name'', cell r ''property_name'')) ?pps
          = concat (map (\<lambda>model. map (\<lambda>entry. (JStr (fst model), JStr (fst entry)))
                                    (entries_of (or_else (field ''properties'' (snd model)) (JDict []))))
              (entries_of (or_else (dict_get ?d ''definitions'' (JDict [])) (JDict []))))"
    by blast
  also have "\<dots> = [(JStr ''Pet'', JStr ''name'')]"
    by code_simp
  finally have 9: "map (\<lambda>r. (cell r ''model_name'', cell r ''property_name'')) ?pps
                     = [(JStr ''Pet'', JStr ''name'')]" .
  from t h7 obtain unsorted where u: "csv_unsorted ?d = Inr unsorted"
    and m: "map (\<lambda>r. (cell r ''Path'', cell r ''Method'')) unsorted
               = map op_key (operations HTTP_METHODS (paths_of ?d))"
    by blast
  from m oc have 6: "map (\<lambda>r. (cell r ''Path'', cell r ''Method'')) unsorted
               = [(JStr ''/b'', JStr ''GET''), (JStr ''/a'', JStr ''GET'')]"
    by (simp only:)
  have 7: "map (\<lambda>r. (cell r ''Path'', cell r ''Method'')) ?cs
               = [(JStr ''/a'', JStr ''GET''), (JStr ''/b'', JStr ''GET'')]"
    by code_simp
  from 1 2 3 4 5 6 7 8 9 h6 show ?thesis
    by (simp only: h1 h2 h3 h4 h5 h7 u rows_of_def sum.case)
qed

section \<open>When the extractors return\<close>

lemma returns_Inr [simp]: "returns (Inr v)"
  by (simp add: returns_def)

lemma returns_Inl [simp]: "\<not> returns (Inl e)"
  by (simp add: returns_def)

lemma returns_iff: "returns m \<longleftrightarrow> (\<exists>v. m = Inr v)"
  by (cases m) simp_all

lemma returns_bind: "returns (bind m f) \<longleftrightarrow> (\<exists>v. m = Inr v \<and> returns (f v))"
  by (cases m) simp_all

lemma returns_for_each: "returns (for_each f xs) \<longleftrightarrow> list_all (\<lambda>x. returns (f x)) xs"
proof (induction xs)
  case Nil
  show ?case by simp
next
  case (Cons x xs)
  then show ?case
    by (cases "f x"; cases "for_each f xs") simp_all
qed

lemma returns_for_each2: "returns (for_each2 f xs) \<longleftrightarrow> list_all (\<lambda>x. returns (f x)) xs"
proof (induction xs)
  case Nil
  show ?case by simp
next
  case (Cons x xs)
  then show ?case
    by (cases "f x"; cases "for_each2 f xs") simp_all
qed

lemma returns_py_get: "returns (py_get v k d) \<longleftrightarrow> is_dict v"
  by (cases v) (simp_all add: is_dict_def)

lemma returns_safe_get: "returns (safe_get v k d) \<longleftrightarrow> is_dict v"
  by (cases v) (simp_all add: safe_get_def is_dict_def)

lemma returns_py_items: "returns (py_items v) \<longleftrightarrow> is_dict v"
  by (cases v) (simp_all add: is_dict_def)

lemma returns_py_iter: "returns (py_iter v) \<longleftrightarrow> iterable v"
  by (cases v) (simp_all add: iterable_def)

lemma returns_py_len: "returns (py_len v) \<longleftrightarrow> iterable v"
  by (cases v) (simp_all add: iterable_def)

lemma returns_join_or_none: "returns (join_or_none v) \<longleftrightarrow> falsy_or_iterable v"
  by (cases v) (auto simp: join_or_none_def falsy_or_iterable_def iterable_def)

lemma returns_first_tag: "returns (first_tag v) \<and> returns (join_or_none v) \<longleftrightarrow> tags_shape v"
proof (cases v)
  case (JList xs)
  then show ?thesis by (cases xs) (simp_all add: first_tag_def join_or_none_def tags_shape_def)
next
  case (JStr s)
  then show ?thesis by (cases s) (simp_all add: first_tag_def join_or_none_def tags_shape_def)
qed (auto simp: first_tag_def join_or_none_def tags_shape_def)

lemma returns_first_tag_only: "tags_shape v \<Longrightarrow> returns (first_tag v)"
  using returns_first_tag by blast

lemma or_else_dict_is_dict: "is_dict (or_else v (JDict [])) \<longleftrightarrow> falsy_or_dict v"
  by (cases v) (auto simp: or_else_def is_dict_def falsy_or_dict_def)

lemma returns_bind_Inr: "returns (bind m (\<lambda>v. Inr (g v))) \<longleftrightarrow> returns m"
  by (cases m) simp_all

lemma returns_if: "returns (if c then Inr a else Inl e) \<longleftrightarrow> c"
  by simp

lemma returns_py_join: "truthy v \<Longrightarrow> returns (py_join sep v) \<longleftrightarrow> scopes_shape v"
  by (cases v) (auto simp: py_join_def scopes_shape_def list_all_iff is_str_def)

lemma returns_security_flat: "returns (security_flat v) \<longleftrightarrow> security_shape v"
proof -
  have entry: "returns (case entry of (scheme, scopes) \<Rightarrow>
             if truthy scopes
             then bind (py_join '', '' scopes) (\<lambda>joined. Inr [scheme @ ''('' @ joined @ '')''])
             else Inr [scheme]) \<longleftrightarrow> scopes_shape (snd entry)" for entry :: "string \<times> json"
  proof (cases "truthy (snd entry)")
    case True
    then show ?thesis
      using returns_py_join [of "snd entry" "'', ''"]
      by (cases entry) (simp add: returns_bind_Inr)
  next
    case False
    then show ?thesis
      by (cases entry; cases "snd entry") (auto simp: scopes_shape_def)
  qed
  have req: "returns (bind (py_items sec) (\<lambda>entries.
         for_each (\<lambda>(scheme, scopes).
             if truthy scopes
             then bind (py_join '', '' scopes) (\<lambda>joined. Inr [scheme @ ''('' @ joined @ '')''])
             else Inr [scheme])
           entries)) \<longleftrightarrow> requirement_shape sec" for sec
    by (cases sec) (simp_all add: requirement_shape_def returns_for_each entry)
  show ?thesis
  proof (cases "truthy v")
    case False
    then show ?thesis
      by (cases v) (auto simp: security_flat_def or_else_def security_shape_def)
  next
    case True
    show ?thesis
    proof (cases v)
      case (JList secs)
      then show ?thesis
        using True by (simp add: security_flat_def or_else_def security_shape_def returns_for_each req)
    next
      case (JDict d)
      then obtain k x d' where d: "d = (k, x) # d'"
        using True by (cases d) auto
      show ?thesis
        using True by (simp add: JDict d security_flat_def or_else_def security_shape_def)
    next
      case (JStr s)
      then obtain c s' where s: "s = c # s'"
        using True by (cases s) auto
      show ?thesis
        using True by (simp add: JStr s security_flat_def or_else_def security_shape_def)
    qed (use True in \<open>simp_all add: security_flat_def or_else_def security_shape_def\<close>)
  qed
qed

lemma returns_bind_projr: "returns (bind m f) \<longleftrightarrow> returns m \<and> returns (f (projr m))"
  by (cases m) simp_all

lemma returns_first_tag_iff: "returns (first_tag v) \<longleftrightarrow> tags_shape v"
proof (cases v)
  case (JList xs)
  then show ?thesis by (cases xs) (simp_all add: first_tag_def tags_shape_def)
next
  case (JStr s)
  then show ?thesis by (cases s) (simp_all add: first_tag_def tags_shape_def)
qed (auto simp: first_tag_def tags_shape_def)

lemma tags_shape_iterable: "tags_shape v \<Longrightarrow> falsy_or_iterable v"
  by (cases v) (auto simp: tags_shape_def falsy_or_iterable_def iterable_def)

lemma returns_build_full_url_template:
  "returns (build_full_url_template schemes host base_path path)
     \<longleftrightarrow> \<not> truthy host \<or> tags_shape schemes"
proof (cases schemes)
  case (JList xs)
  then show ?thesis
    by (cases xs) (simp_all add: build_full_url_template_def tags_shape_def Let_def)
next
  case (JStr s)
  then show ?thesis
    by (cases s) (simp_all add: build_full_url_template_def tags_shape_def Let_def)
qed (auto simp: build_full_url_template_def tags_shape_def Let_def)

lemma falsy_or_iterable_JList [simp]: "falsy_or_iterable (JList xs)"
  by (simp add: falsy_or_iterable_def iterable_def)

lemma returns_endpoint_row:
  "returns (endpoint_row sw path plp verb opd) \<longleftrightarrow>
     tags_shape (dict_get opd ''tags'' (JList []))
   \<and> security_shape (dict_get opd ''security'' (dict_get sw ''security'' (JList [])))
   \<and> url_shape sw
   \<and> falsy_or_iterable (dict_get opd ''consumes'' (dict_get sw ''consumes'' JNull))
   \<and> falsy_or_iterable (dict_get opd ''produces'' (dict_get sw ''produces'' JNull))
   \<and> iterable (dict_get opd ''parameters'' (JList []))
   \<and> iterable plp
   \<and> iterable (dict_get opd ''responses'' (JDict []))"
  using tags_shape_iterable [of "dict_get opd ''tags'' (JList [])"]
  by (auto simp: endpoint_row_def Let_def returns_bind_projr returns_first_tag_iff
        returns_security_flat returns_join_or_none returns_build_full_url_template
        returns_py_len url_shape_def)

lemma returns_parameter_row: "returns (parameter_row g oid verb path p) \<longleftrightarrow> param_shape p"
  by (cases p)
     (auto simp: parameter_row_def Let_def returns_bind_projr returns_safe_get
        returns_join_or_none or_else_dict_is_dict param_shape_def)

lemma params_shape_iff: "params_shape v \<longleftrightarrow> iterable v \<and> list_all param_shape (items_of v)"
proof (cases v)
  case (JDict d)
  then show ?thesis
    by (cases d) (simp_all add: params_shape_def iterable_def items_of_def param_shape_def)
next
  case (JStr s)
  then show ?thesis
    by (cases s) (simp_all add: params_shape_def iterable_def items_of_def param_shape_def)
qed (simp_all add: params_shape_def iterable_def items_of_def)

lemma projr_py_iter: "iterable v \<Longrightarrow> projr (py_iter v) = items_of v"
  by (cases v) (simp_all add: iterable_def items_of_def)

lemma returns_parameter_rows:
  "returns (parameter_rows path plp verb opd) \<longleftrightarrow>
     tags_shape (dict_get opd ''tags'' (JList []))
   \<and> params_shape plp
   \<and> params_shape (dict_get opd ''parameters'' (JList []))"
  by (auto simp: parameter_rows_def Let_def returns_bind_projr returns_first_tag_iff
        returns_py_iter returns_for_each returns_bind_Inr returns_parameter_row
        params_shape_iff projr_py_iter)

lemma dict_get_Nil [simp]: "dict_get [] k d = d"
  by (simp add: dict_get_def)

lemma returns_response_row:
  "returns (response_row g oid verb path code resp) \<longleftrightarrow> response_shape resp"
proof (cases resp)
  case (JDict rd)
  show ?thesis
  proof (cases "dict_get rd ''schema'' JNull")
    case (JDict sd)
    then show ?thesis
      using \<open>resp = JDict rd\<close>
      by (cases sd)
         (auto simp: response_row_def Let_def returns_bind_projr returns_py_get returns_safe_get
            response_shape_def or_else_def is_dict_def)
  qed (use \<open>resp = JDict rd\<close> in
        \<open>auto simp: response_row_def Let_def returns_bind_projr returns_py_get returns_safe_get
            response_shape_def or_else_def is_dict_def\<close>)
qed (simp_all add: response_row_def response_shape_def)

lemma returns_response_rows:
  "returns (response_rows path verb opd) \<longleftrightarrow>
     tags_shape (dict_get opd ''tags'' (JList []))
   \<and> responses_shape (dict_get opd ''responses'' (JDict []))"
  by (cases "dict_get opd ''responses'' (JDict [])")
     (auto simp: response_rows_def Let_def returns_bind_projr returns_first_tag_iff
        returns_for_each returns_response_row responses_shape_def case_prod_unfold)

lemma list_shape_iff:
  assumes "\<And>s. \<not> shape (JStr s)"
  shows "(case v of JList ts \<Rightarrow> list_all shape ts | JDict d \<Rightarrow> d = [] | JStr s \<Rightarrow> s = [] | _ \<Rightarrow> False)
         \<longleftrightarrow> iterable v \<and> list_all shape (items_of v)"
proof (cases v)
  case (JDict d)
  then show ?thesis
    by (cases d) (simp_all add: iterable_def items_of_def assms)
next
  case (JStr s)
  then show ?thesis
    by (cases s) (simp_all add: iterable_def items_of_def assms)
qed (simp_all add: iterable_def items_of_def)

lemma returns_tag_row: "returns (tag_row t) \<longleftrightarrow> tag_shape t"
  by (cases t) (auto simp: tag_row_def returns_bind_projr returns_safe_get tag_shape_def)

lemma returns_extract_tags:
  "returns (extract_tags sw) \<longleftrightarrow> tag_list_shape (dict_get sw ''tags'' (JList []))"
proof -
  have "tag_list_shape v \<longleftrightarrow> iterable v \<and> list_all tag_shape (items_of v)" for v
    unfolding tag_list_shape_def by (rule list_shape_iff) (simp add: tag_shape_def)
  moreover have "returns (extract_tags sw) \<longleftrightarrow>
      iterable (dict_get sw ''tags'' (JList []))
      \<and> list_all tag_shape (items_of (dict_get sw ''tags'' (JList [])))"
    by (simp add: extract_tags_def returns_bind_projr returns_py_iter returns_for_each
          returns_bind_Inr returns_tag_row projr_py_iter cong: conj_cong)
  ultimately show ?thesis
    by blast
qed

lemma returns_security_row: "returns (security_row name s) \<longleftrightarrow> scheme_shape s"
  by (cases s)
     (auto simp: security_row_def Let_def returns_bind_projr returns_py_items
        returns_join_or_none scheme_shape_def)

lemma entries_shape_iff:
  "(case v of JDict d \<Rightarrow> list_all (\<lambda>entry. shape (snd entry)) d | _ \<Rightarrow> \<not> truthy v)
   \<longleftrightarrow> is_dict (or_else v (JDict []))
       \<and> list_all (\<lambda>entry. shape (snd entry)) (entries_of (or_else v (JDict [])))"
  by (cases v) (auto simp: or_else_def is_dict_def entries_of_def)

lemma projr_py_items: "is_dict v \<Longrightarrow> projr (py_items v) = entries_of v"
  by (cases v) (simp_all add: is_dict_def entries_of_def)

lemma returns_extract_securities:
  "returns (extract_securities sw)
     \<longleftrightarrow> schemes_shape (dict_get sw ''securityDefinitions'' (JDict []))"
  unfolding schemes_shape_def entries_shape_iff
  by (auto simp: extract_securities_def Let_def returns_bind_projr returns_py_items
        returns_for_each returns_bind_Inr returns_security_row projr_py_items case_prod_unfold)

lemma returns_property_row: "returns (property_row model_name prop_name p) \<longleftrightarrow> property_shape p"
  by (cases p)
     (auto simp: property_row_def Let_def returns_bind_projr returns_safe_get returns_py_get
        returns_join_or_none or_else_dict_is_dict property_shape_def)

lemma returns_model_row:
  "returns (model_row model_name model) \<longleftrightarrow>
     (case model of
        JDict md \<Rightarrow> is_dict (dict_get md ''xml'' (JDict []))
                  \<and> falsy_or_iterable (dict_get md ''required'' (JList []))
      | _ \<Rightarrow> False)"
  by (cases model)
     (auto simp: model_row_def Let_def returns_bind_projr returns_py_get returns_join_or_none)

lemma returns_model_and_properties:
  "returns (model_and_properties model_name model) \<longleftrightarrow> model_shape model"
proof (cases model)
  case (JDict md)
  have "returns (model_and_properties model_name (JDict md)) \<longleftrightarrow>
          returns (model_row model_name (JDict md))
        \<and> properties_shape (dict_get md ''properties'' (JDict []))"
    unfolding properties_shape_def entries_shape_iff
    by (auto simp: model_and_properties_def returns_bind_projr returns_py_items
          returns_for_each returns_bind_Inr returns_property_row projr_py_items case_prod_unfold)
  then show ?thesis
    by (auto simp: JDict returns_model_row model_shape_def)
qed (simp_all add: model_and_properties_def returns_bind_projr returns_model_row model_shape_def)

lemma returns_extract_models_and_properties:
  "returns (extract_models_and_properties sw)
     \<longleftrightarrow> models_shape (dict_get sw ''definitions'' (JDict []))"
  unfolding models_shape_def entries_shape_iff
  by (auto simp: extract_models_and_properties_def Let_def returns_bind_projr returns_py_items
        returns_for_each2 returns_model_and_properties projr_py_items case_prod_unfold)

lemma paths_of_entries: "paths_of sw = entries_of (dict_get sw ''paths'' (JDict []))"
  by (simp add: paths_of_def entries_of_def)

lemma returns_extract_endpoints:
  "returns (extract_endpoints sw) \<longleftrightarrow>
     is_dict (dict_get sw ''paths'' (JDict []))
   \<and> list_all (\<lambda>(path, item, verb, opd).
         returns (endpoint_row sw path (dict_get item ''parameters'' (JList [])) verb opd))
       (operations_of sw)"
  by (simp add: extract_endpoints_operations returns_bind_projr returns_py_items returns_for_each
        returns_bind_Inr projr_py_items operations_of_def paths_of_entries case_prod_unfold
        cong: conj_cong)

lemma returns_extract_parameters:
  "returns (extract_parameters sw) \<longleftrightarrow>
     is_dict (dict_get sw ''paths'' (JDict []))
   \<and> list_all (\<lambda>(path, item, verb, opd).
         returns (parameter_rows path (dict_get item ''parameters'' (JList [])) verb opd))
       (operations_of sw)"
  by (simp add: extract_parameters_operations returns_bind_projr returns_py_items returns_for_each
        projr_py_items operations_of_def paths_of_entries case_prod_unfold
        cong: conj_cong)

lemma returns_extract_responses:
  "returns (extract_responses sw) \<longleftrightarrow>
     is_dict (dict_get sw ''paths'' (JDict []))
   \<and> list_all (\<lambda>(path, item, verb, opd). returns (response_rows path verb opd))
       (operations_of sw)"
  by (simp add: extract_responses_operations returns_bind_projr returns_py_items returns_for_each
        projr_py_items operations_of_def paths_of_entries case_prod_unfold
        cong: conj_cong)

lemma params_shape_iterable: "params_shape v \<Longrightarrow> iterable v"
  by (simp add: params_shape_iff)

lemma responses_shape_iterable: "responses_shape v \<Longrightarrow> iterable v"
  by (cases v) (simp_all add: responses_shape_def iterable_def)

lemma operation_shape_iff:
  "operation_shape sw (path, item, verb, opd) \<longleftrightarrow>
     returns (endpoint_row sw path (dict_get item ''parameters'' (JList [])) verb opd)
   \<and> returns (parameter_rows path (dict_get item ''parameters'' (JList [])) verb opd)
   \<and> returns (response_rows path verb opd)"
  using params_shape_iterable [of "dict_get opd ''parameters'' (JList [])"]
        params_shape_iterable [of "dict_get item ''parameters'' (JList [])"]
        responses_shape_iterable [of "dict_get opd ''responses'' (JDict [])"]
  unfolding operation_shape_def returns_endpoint_row returns_parameter_rows returns_response_rows
  by (simp only: prod.case) blast

lemma returns_export_tables_extractors:
  "returns (export_tables sw) \<longleftrightarrow>
     returns (extract_endpoints sw) \<and> returns (extract_parameters sw)
   \<and> returns (extract_responses sw) \<and> returns (extract_tags sw)
   \<and> returns (extract_securities sw) \<and> returns (extract_models_and_properties sw)"
  by (simp add: export_tables_def returns_bind_projr)

lemma returns_export_tables: "returns (export_tables sw) \<longleftrightarrow> well_shaped sw"
proof -
  have "list_all (operation_shape sw) (operations_of sw) \<longleftrightarrow>
      list_all (\<lambda>(path, item, verb, opd).
         returns (endpoint_row sw path (dict_get item ''parameters'' (JList [])) verb opd))
       (operations_of sw)
    \<and> list_all (\<lambda>(path, item, verb, opd).
         returns (parameter_rows path (dict_get item ''parameters'' (JList [])) verb opd))
       (operations_of sw)
    \<and> list_all (\<lambda>(path, item, verb, opd). returns (response_rows path verb opd))
       (operations_of sw)"
    unfolding list_all_iff by (auto simp: operation_shape_iff)
  then show ?thesis
    unfolding returns_export_tables_extractors well_shaped_def returns_extract_endpoints
      returns_extract_parameters returns_extract_responses returns_extract_tags
      returns_extract_securities returns_extract_models_and_properties
    by blast
qed

section \<open>Units that are skipped\<close>

lemma for_each_skip: "f x = Inr [] \<Longrightarrow> for_each f (xs @ x # ys) = for_each f (xs @ ys)"
  by (simp add: for_each_append bind_Inr_right)

lemma for_each_replace: "f x = f y \<Longrightarrow> for_each f (xs @ x # ys) = for_each f (xs @ y # ys)"
  by (simp add: for_each_append)

lemma extract_endpoints_walk:
  "extract_endpoints sw =
     bind (py_items (dict_get sw ''paths'' (JDict [])))
       (walk (\<lambda>path plp verb opd. bind (endpoint_row sw path plp verb opd) (\<lambda>r. Inr [r])))"
  unfolding extract_endpoints_def walk_def Let_def ..

lemma extract_parameters_walk:
  "extract_parameters sw = bind (py_items (dict_get sw ''paths'' (JDict []))) (walk parameter_rows)"
  unfolding extract_parameters_def walk_def Let_def ..

lemma extract_responses_walk:
  "extract_responses sw =
     bind (py_items (dict_get sw ''paths'' (JDict [])))
       (walk (\<lambda>path plp verb opd. response_rows path verb opd))"
  unfolding extract_responses_def walk_def Let_def ..

lemma walk_skip_item:
  assumes "\<not> is_dict v"
  shows "walk body (ps @ (k, v) # qs) = walk body (ps @ qs)"
  unfolding walk_def
  by (rule for_each_skip) (use assms in \<open>cases v; simp add: is_dict_def\<close>)

lemma not_verb_parameters: "lower ''parameters'' \<notin> list_http_methods"
  by code_simp

lemma dict_get_skip:
  "k \<noteq> k' \<Longrightarrow> dict_get (es @ (k, v) # fs) k' dflt = dict_get (es @ fs) k' dflt"
  by (simp add: dict_get_def map_add_def split: option.splits)

lemma walk_skip_operation:
  assumes "lower k \<in> list_http_methods" and "\<not> is_dict v"
  shows "walk body (ps @ (path, JDict (es @ (k, v) # fs)) # qs)
         = walk body (ps @ (path, JDict (es @ fs)) # qs)"
proof -
  have k: "k \<noteq> ''parameters''"
    using assms(1) not_verb_parameters by blast
  have p: "dict_get (es @ (k, v) # fs) ''parameters'' (JList [])
           = dict_get (es @ fs) ''parameters'' (JList [])"
    by (rule dict_get_skip [OF k])
  have inner: "for_each (\<lambda>(verb, op).
                     if lower verb \<notin> list_http_methods then Inr []
                     else case op of
                            JDict opd \<Rightarrow>
                              body path (dict_get (es @ (k, v) # fs) ''parameters'' (JList [])) verb opd
                          | _ \<Rightarrow> Inr [])
          (es @ (k, v) # fs)
      = for_each (\<lambda>(verb, op).
                     if lower verb \<notin> list_http_methods then Inr []
                     else case op of
                            JDict opd \<Rightarrow> body path (dict_get (es @ fs) ''parameters'' (JList [])) verb opd
                          | _ \<Rightarrow> Inr [])
          (es @ fs)"
    unfolding p
    by (rule for_each_skip) (use assms in \<open>cases v; simp add: is_dict_def\<close>)
  show ?thesis
    unfolding walk_def
    by (rule for_each_replace) (simp only: prod.case json.case inner)
qed

lemma response_row_skip: "\<not> is_dict resp \<Longrightarrow> response_row g oid verb path code resp = Inr []"
  by (cases resp) (simp_all add: response_row_def is_dict_def)


text \<open>
  C1, as stated, fails: a tag, a parameter or a model that is no dictionary is not
  skipped; \<open>.get\<close> on it raises \<open>AttributeError\<close> and the extractor returns no
  relation.
\<close>

theorem non_mapping_unit_raises:
  "extract_tags [(''tags'', JList [JStr ''pets''])] = Inl AttributeError
   \<and> extract_parameters
        [(''paths'', JDict [(''/pets'', JDict [(''get'', JDict [(''parameters'', JList [JStr ''id''])])])])]
     = Inl AttributeError
   \<and> extract_models_and_properties [(''definitions'', JDict [(''Pet'', JStr ''object'')])]
     = Inl AttributeError"
  by code_simp

text \<open>
  C1 (amended). Every relation extractor is a total function of the parsed document
  and returns a (possibly empty) relation, raising nothing, for every document that is
  \<open>well_shaped\<close>: \<open>paths\<close> is a dictionary, the values each operation is read for have
  the shapes of \<open>operation_shape\<close>, and tags, security schemes, models and properties
  are dictionaries with the nested shapes read. Path items that are no dictionaries,
  entries of a path item with a verb as key and no dictionary as value, and responses
  that are no dictionaries are skipped, and extraction continues with their siblings:
  the three operation-based extractors are the same traversal, which is unchanged
  when such a unit is removed. The tag, security and model extractors return exactly
  when their entries have those shapes; a tag, security scheme, model or property that
  is no dictionary is not skipped.
\<close>

theorem extraction_returns:
  "(well_shaped sw \<longrightarrow>
      returns (export_tables sw)
      \<and> returns (extract_endpoints sw) \<and> returns (extract_parameters sw)
      \<and> returns (extract_responses sw) \<and> returns (extract_tags sw)
      \<and> returns (extract_securities sw) \<and> returns (extract_models_and_properties sw))
   \<and> (returns (extract_tags sw) \<longleftrightarrow> tag_list_shape (dict_get sw ''tags'' (JList [])))
   \<and> (returns (extract_securities sw)
        \<longleftrightarrow> schemes_shape (dict_get sw ''securityDefinitions'' (JDict [])))
   \<and> (returns (extract_models_and_properties sw)
        \<longleftrightarrow> models_shape (dict_get sw ''definitions'' (JDict [])))
   \<and> extract_endpoints sw =
        bind (py_items (dict_get sw ''paths'' (JDict [])))
          (walk (\<lambda>path plp verb opd. bind (endpoint_row sw path plp verb opd) (\<lambda>r. Inr [r])))
   \<and> extract_parameters sw = bind (py_items (dict_get sw ''paths'' (JDict []))) (walk parameter_rows)
   \<and> extract_responses sw =
        bind (py_items (dict_get sw ''paths'' (JDict [])))
          (walk (\<lambda>path plp verb opd. response_rows path verb opd))
   \<and> (\<not> is_dict v \<longrightarrow> walk body (ps @ (k, v) # qs) = walk body (ps @ qs))
   \<and> (lower k \<in> list_http_methods \<and> \<not> is_dict v \<longrightarrow>
        walk body (ps @ (path, JDict (es @ (k, v) # fs)) # qs)
          = walk body (ps @ (path, JDict (es @ fs)) # qs))
   \<and> (\<not> is_dict resp \<longrightarrow> response_row g oid verb path code resp = Inr [])"
proof (intro conjI impI)
  assume w: "well_shaped sw"
  then have e: "returns (export_tables sw)"
    by (simp add: returns_export_tables)
  then show "returns (export_tables sw)" .
  from e show "returns (extract_endpoints sw)" "returns (extract_parameters sw)"
    "returns (extract_responses sw)" "returns (extract_tags sw)"
    "returns (extract_securities sw)" "returns (extract_models_and_properties sw)"
    by (simp_all add: returns_export_tables_extractors)
next
  show "returns (extract_tags sw) \<longleftrightarrow> tag_list_shape (dict_get sw ''tags'' (JList []))"
    by (rule returns_extract_tags)
  show "returns (extract_securities sw)
        \<longleftrightarrow> schemes_shape (dict_get sw ''securityDefinitions'' (JDict []))"
    by (rule returns_extract_securities)
  show "returns (extract_models_and_properties sw)
        \<longleftrightarrow> models_shape (dict_get sw ''definitions'' (JDict []))"
    by (rule returns_extract_models_and_properties)
  show "extract_endpoints sw =
        bind (py_items (dict_get sw ''paths'' (JDict [])))
          (walk (\<lambda>path plp verb opd. bind (endpoint_row sw path plp verb opd) (\<lambda>r. Inr [r])))"
    by (rule extract_endpoints_walk)
  show "extract_parameters sw = bind (py_items (dict_get sw ''paths'' (JDict []))) (walk parameter_rows)"
    by (rule extract_parameters_walk)
  show "extract_responses sw =
        bind (py_items (dict_get sw ''paths'' (JDict [])))
          (walk (\<lambda>path plp verb opd. response_rows path verb opd))"
    by (rule extract_responses_walk)
next
  assume "\<not> is_dict v"
  then show "walk body (ps @ (k, v) # qs) = walk body (ps @ qs)"
    by (rule walk_skip_item)
next
  assume "lower k \<in> list_http_methods \<and> \<not> is_dict v"
  then show "walk body (ps @ (path, JDict (es @ (k, v) # fs)) # qs)
          = walk body (ps @ (path, JDict (es @ fs)) # qs)"
    by (simp add: walk_skip_operation)
next
  assume "\<not> is_dict resp"
  then show "response_row g oid verb path code resp = Inr []"
    by (rule response_row_skip)
qed

theorem extraction_returns_witness:
  "well_shaped
     [(''tags'', JList [JDict [(''name'', JStr ''pets'')]]),
     (''paths'', JDict
        [(''/junk'', JInt 5),
         (''/pets'', JDict
            [(''parameters'', JList [JDict [(''name'', JStr ''limit''), (''in'', JStr ''query'')]]),
             (''get'', JDict [(''tags'', JList [JStr ''pets'']),
                              (''responses'', JDict [(''200'', JDict [(''description'', JStr ''ok'')]),
                                                     (''default'', JStr ''oops'')])]),
             (''post'', JStr ''oops''),
             (''x-note'', JInt 1)])])]
   \<and> returns (export_tables
     [(''tags'', JList [JDict [(''name'', JStr ''pets'')]]),
     (''paths'', JDict
        [(''/junk'', JInt 5),
         (''/pets'', JDict
            [(''parameters'', JList [JDict [(''name'', JStr ''limit''), (''in'', JStr ''query'')]]),
             (''get'', JDict [(''tags'', JList [JStr ''pets'']),
                              (''responses'', JDict [(''200'', JDict [(''description'', JStr ''ok'')]),
                                                     (''default'', JStr ''oops'')])]),
             (''post'', JStr ''oops''),
             (''x-note'', JInt 1)])])])
   \<and> walk parameter_rows
        ([] @ (''/junk'', JInt 5) # [(''/pets'', JDict [(''get'', JDict [])])])
     = walk parameter_rows ([] @ [(''/pets'', JDict [(''get'', JDict [])])])
   \<and> walk parameter_rows
        ([] @ (''/pets'', JDict ([(''get'', JDict [])] @ (''post'', JStr ''oops'') # [])) # [])
     = walk parameter_rows ([] @ (''/pets'', JDict ([(''get'', JDict [])] @ [])) # [])
   \<and> response_row JNull JNull ''get'' ''/pets'' ''default'' (JStr ''oops'') = Inr []"
proof -
  let ?d = "[(''tags'', JList [JDict [(''name'', JStr ''pets'')]]),
     (''paths'', JDict
        [(''/junk'', JInt 5),
         (''/pets'', JDict
            [(''parameters'', JList [JDict [(''name'', JStr ''limit''), (''in'', JStr ''query'')]]),
             (''get'', JDict [(''tags'', JList [JStr ''pets'']),
                              (''responses'', JDict [(''200'', JDict [(''description'', JStr ''ok'')]),
                                                     (''default'', JStr ''oops'')])]),
             (''post'', JStr ''oops''),
             (''x-note'', JInt 1)])])]"
  have w: "well_shaped ?d"
    by code_simp
  have n1: "\<not> is_dict (JInt 5)" and n2: "\<not> is_dict (JStr ''oops'')"
    by (simp_all add: is_dict_def)
  have v: "lower ''post'' \<in> list_http_methods"
    by code_simp
  from extraction_returns [where sw = ?d] w have 1: "returns (export_tables ?d)"
    by blast
  from extraction_returns [where v = "JInt 5" and body = parameter_rows and ps = "[]"
      and k = "''/junk''" and qs = "[(''/pets'', JDict [(''get'', JDict [])])]"] n1
  have 2: "walk parameter_rows
        ([] @ (''/junk'', JInt 5) # [(''/pets'', JDict [(''get'', JDict [])])])
     = walk parameter_rows ([] @ [(''/pets'', JDict [(''get'', JDict [])])])"
    by blast
  from extraction_returns [where v = "JStr ''oops''" and body = parameter_rows and ps = "[]"
      and k = "''post''" and qs = "[]" and path = "''/pets''" and es = "[(''get'', JDict [])]"
      and fs = "[]"] n2 v
  have 3: "walk parameter_rows
        ([] @ (''/pets'', JDict ([(''get'', JDict [])] @ (''post'', JStr ''oops'') # [])) # [])
     = walk parameter_rows ([] @ (''/pets'', JDict ([(''get'', JDict [])] @ [])) # [])"
    by blast
  from extraction_returns [where resp = "JStr ''oops''" and g = JNull and oid = JNull
      and verb = "''get''" and path = "''/pets''" and code = "''default''"] n2
  have 4: "response_row JNull JNull ''get'' ''/pets'' ''default'' (JStr ''oops'') = Inr []"
    by blast
  from w 1 2 3 4 show ?thesis
    by (simp only:)
qed

section \<open>Determinism\<close>









end
